theory Spec2Isabelle
  imports Main "HOL-Library.Word"
begin

unbundle bit_operations_syntax

section \<open>Machine types\<close>

text \<open>
  \<open>uint8_t\<close> and \<open>uint16_t\<close> are words: \<open>+\<close> and \<open>-\<close> wrap. The C++ \<open>int\<close> fields
  (cycle counters, bank numbers, channel parameters) are \<open>int\<close>; none of them comes near
  the 32-bit range in the code paths modelled here. A \<open>std::vector\<close> or
  \<open>std::array\<close> of \<open>uint8_t\<close> is a list of bytes. Indexing a vector out of range is
  undefined behaviour in the source; the only access the address decoder does not keep in
  range is \<open>rom[addr]\<close> for the fixed bank, and statements that read there say that the
  image is long enough. The cartridge loader's read past the end of a short image is an
  outcome of its own.
\<close>

type_synonym u8 = "8 word"
type_synonym u16 = "16 word"

section \<open>Interrupt bits (cpu.h)\<close>

definition INT_VBLANK :: u8 where "INT_VBLANK = 0x01"
definition INT_STAT :: u8 where "INT_STAT = 0x02"
definition INT_TIMER :: u8 where "INT_TIMER = 0x04"
definition INT_SERIAL :: u8 where "INT_SERIAL = 0x08"
definition INT_JOYPAD :: u8 where "INT_JOYPAD = 0x10"

section \<open>APU: register file and channel state (apu.cpp)\<close>

text \<open>
  The four channel structs of apu.h. The host audio device, the float ring buffer and its
  two atomic indices belong to the audio callback and are left out of the state; no
  register write reads or writes them.
\<close>

record Channel1 =
  enabled :: bool
  frequencyTimer :: int
  frequency :: int
  duty :: int
  dutyPos :: int
  volume :: int
  volumeInit :: int
  envelopeTimer :: int
  envelopePeriod :: int
  envelopeAdd :: bool
  lengthCounter :: int
  lengthEnabled :: bool
  sweepTimer :: int
  sweepPeriod :: int
  sweepNegate :: bool
  sweepShift :: int
  shadowFreq :: int
  sweepEnabled :: bool

record Channel2 =
  enabled :: bool
  frequencyTimer :: int
  frequency :: int
  duty :: int
  dutyPos :: int
  volume :: int
  volumeInit :: int
  envelopeTimer :: int
  envelopePeriod :: int
  envelopeAdd :: bool
  lengthCounter :: int
  lengthEnabled :: bool

record Channel3 =
  enabled :: bool
  dacEnabled :: bool
  frequencyTimer :: int
  frequency :: int
  volume :: int
  lengthCounter :: int
  lengthEnabled :: bool
  samplePos :: int

record Channel4 =
  enabled :: bool
  frequencyTimer :: int
  volume :: int
  volumeInit :: int
  envelopeTimer :: int
  envelopePeriod :: int
  envelopeAdd :: bool
  lengthCounter :: int
  lengthEnabled :: bool
  lfsr :: u16
  divisor :: int
  shift :: int
  widthMode :: bool

record APU =
  registers :: "u8 list"
  ch1 :: Channel1
  ch2 :: Channel2
  ch3 :: Channel3
  ch4 :: Channel4
  waveRam :: "u8 list"
  frameSequencerCycles :: int
  frameSequencerStep :: int
  sampleAccumulator :: int
  masterEnable :: bool
  masterVolume :: u8
  channelPan :: u8

text \<open>\<open>memset(&chN, 0, sizeof(chN))\<close>: every field zero or false.\<close>

definition Channel1_zero :: Channel1 where
  "Channel1_zero = \<lparr> Channel1.enabled = False, frequencyTimer = 0, frequency = 0, duty = 0,
     dutyPos = 0, volume = 0, volumeInit = 0, envelopeTimer = 0, envelopePeriod = 0,
     envelopeAdd = False, lengthCounter = 0, lengthEnabled = False, sweepTimer = 0,
     sweepPeriod = 0, sweepNegate = False, sweepShift = 0, shadowFreq = 0,
     sweepEnabled = False \<rparr>"

definition Channel2_zero :: Channel2 where
  "Channel2_zero = \<lparr> Channel2.enabled = False, frequencyTimer = 0, frequency = 0, duty = 0,
     dutyPos = 0, volume = 0, volumeInit = 0, envelopeTimer = 0, envelopePeriod = 0,
     envelopeAdd = False, lengthCounter = 0, lengthEnabled = False \<rparr>"

definition Channel3_zero :: Channel3 where
  "Channel3_zero = \<lparr> Channel3.enabled = False, dacEnabled = False, frequencyTimer = 0,
     frequency = 0, volume = 0, lengthCounter = 0, lengthEnabled = False, samplePos = 0 \<rparr>"

definition Channel4_zero :: Channel4 where
  "Channel4_zero = \<lparr> Channel4.enabled = False, frequencyTimer = 0, volume = 0,
     volumeInit = 0, envelopeTimer = 0, envelopePeriod = 0, envelopeAdd = False,
     lengthCounter = 0, lengthEnabled = False, lfsr = 0, divisor = 0, shift = 0,
     widthMode = False \<rparr>"

definition APU_reset :: APU where
  "APU_reset = \<lparr> registers = replicate 0x30 0,
     ch1 = Channel1_zero, ch2 = Channel2_zero, ch3 = Channel3_zero,
     ch4 = Channel4_zero\<lparr>lfsr := 0x7FFF\<rparr>,
     waveRam = replicate 16 0,
     frameSequencerCycles = 0, frameSequencerStep = 0, sampleAccumulator = 0,
     masterEnable = True, masterVolume = 0x77, channelPan = 0xFF \<rparr>"

text \<open>
  The trigger functions assign distinct fields of one channel, and no right-hand side reads
  a field assigned earlier in the same function, so each is one record update reading the
  channel \<open>c\<close> as it was on entry.
\<close>

definition triggerChannel1 :: "APU \<Rightarrow> APU" where
  "triggerChannel1 ap =
     (let c = ch1 ap in
      ap\<lparr>ch1 := c\<lparr>Channel1.enabled := True,
                     Channel1.lengthCounter :=
                       (if Channel1.lengthCounter c = 0 then 64 else Channel1.lengthCounter c),
                     Channel1.frequencyTimer := (2048 - Channel1.frequency c) * 4,
                     Channel1.envelopeTimer := Channel1.envelopePeriod c,
                     Channel1.volume := Channel1.volumeInit c,
                     shadowFreq := Channel1.frequency c,
                     sweepTimer := (if sweepPeriod c > 0 then sweepPeriod c else 8),
                     sweepEnabled := (sweepPeriod c > 0 \<or> sweepShift c > 0),
                     Channel1.dutyPos := 0\<rparr>\<rparr>)"

definition triggerChannel2 :: "APU \<Rightarrow> APU" where
  "triggerChannel2 ap =
     (let c = ch2 ap in
      ap\<lparr>ch2 := c\<lparr>Channel2.enabled := True,
                     Channel2.lengthCounter :=
                       (if Channel2.lengthCounter c = 0 then 64 else Channel2.lengthCounter c),
                     Channel2.frequencyTimer := (2048 - Channel2.frequency c) * 4,
                     Channel2.envelopeTimer := Channel2.envelopePeriod c,
                     Channel2.volume := Channel2.volumeInit c,
                     Channel2.dutyPos := 0\<rparr>\<rparr>)"

definition triggerChannel3 :: "APU \<Rightarrow> APU" where
  "triggerChannel3 ap =
     (let c = ch3 ap in
      ap\<lparr>ch3 := c\<lparr>Channel3.enabled := dacEnabled c,
                     Channel3.lengthCounter :=
                       (if Channel3.lengthCounter c = 0 then 256 else Channel3.lengthCounter c),
                     Channel3.frequencyTimer := (2048 - Channel3.frequency c) * 2,
                     samplePos := 0\<rparr>\<rparr>)"

definition divisors :: "int list" where
  "divisors = [8, 16, 32, 48, 64, 80, 96, 112]"

definition triggerChannel4 :: "APU \<Rightarrow> APU" where
  "triggerChannel4 ap =
     (let c = ch4 ap in
      ap\<lparr>ch4 := c\<lparr>Channel4.enabled := True,
                     Channel4.lengthCounter :=
                       (if Channel4.lengthCounter c = 0 then 64 else Channel4.lengthCounter c),
                     Channel4.envelopeTimer := Channel4.envelopePeriod c,
                     Channel4.volume := Channel4.volumeInit c,
                     lfsr := 0x7FFF,
                     Channel4.frequencyTimer :=
                       push_bit (nat (shift c)) (divisors ! nat (divisor c))\<rparr>\<rparr>)"

text \<open>
  \<open>APU::writeRegister\<close>. Wave RAM first, then the range check, then the store into
  \<open>registers\<close>, then the switch on the register. The function never reads
  \<open>masterEnable\<close>.
\<close>

definition writeRegister :: "APU \<Rightarrow> u8 \<Rightarrow> u8 \<Rightarrow> APU" where
  "writeRegister ap reg val =
     (if 0x30 \<le> reg \<and> reg \<le> 0x3F then ap\<lparr>waveRam := (waveRam ap)[unat (reg - 0x30) := val]\<rparr>
      else if reg < 0x10 \<or> reg > 0x26 then ap
      else
        let ap = ap\<lparr>registers := (registers ap)[unat (reg - 0x10) := val]\<rparr> in
        if reg = 0x10 then
          ap\<lparr>ch1 := (ch1 ap)\<lparr>sweepPeriod := uint (drop_bit 4 val AND 0x07),
                                sweepNegate := (val AND 0x08 \<noteq> 0),
                                sweepShift := uint (val AND 0x07)\<rparr>\<rparr>
        else if reg = 0x11 then
          ap\<lparr>ch1 := (ch1 ap)\<lparr>Channel1.duty := uint (drop_bit 6 val AND 0x03),
                                Channel1.lengthCounter := 64 - uint (val AND 0x3F)\<rparr>\<rparr>
        else if reg = 0x12 then
          (let c = (ch1 ap)\<lparr>Channel1.volumeInit := uint (drop_bit 4 val AND 0x0F),
                                Channel1.envelopeAdd := (val AND 0x08 \<noteq> 0),
                                Channel1.envelopePeriod := uint (val AND 0x07)\<rparr>
           in ap\<lparr>ch1 := (if val AND 0xF8 = 0 then c\<lparr>Channel1.enabled := False\<rparr> else c)\<rparr>)
        else if reg = 0x13 then
          ap\<lparr>ch1 := (ch1 ap)\<lparr>Channel1.frequency :=
                                  (Channel1.frequency (ch1 ap) AND 0x700) OR uint val\<rparr>\<rparr>
        else if reg = 0x14 then
          (let ap = ap\<lparr>ch1 := (ch1 ap)\<lparr>Channel1.frequency :=
                                  (Channel1.frequency (ch1 ap) AND 0xFF) OR push_bit 8 (uint (val AND 0x07)),
                                Channel1.lengthEnabled := (val AND 0x40 \<noteq> 0)\<rparr>\<rparr>
           in if val AND 0x80 \<noteq> 0 then triggerChannel1 ap else ap)
        else if reg = 0x16 then
          ap\<lparr>ch2 := (ch2 ap)\<lparr>Channel2.duty := uint (drop_bit 6 val AND 0x03),
                                Channel2.lengthCounter := 64 - uint (val AND 0x3F)\<rparr>\<rparr>
        else if reg = 0x17 then
          (let c = (ch2 ap)\<lparr>Channel2.volumeInit := uint (drop_bit 4 val AND 0x0F),
                                Channel2.envelopeAdd := (val AND 0x08 \<noteq> 0),
                                Channel2.envelopePeriod := uint (val AND 0x07)\<rparr>
           in ap\<lparr>ch2 := (if val AND 0xF8 = 0 then c\<lparr>Channel2.enabled := False\<rparr> else c)\<rparr>)
        else if reg = 0x18 then
          ap\<lparr>ch2 := (ch2 ap)\<lparr>Channel2.frequency :=
                                  (Channel2.frequency (ch2 ap) AND 0x700) OR uint val\<rparr>\<rparr>
        else if reg = 0x19 then
          (let ap = ap\<lparr>ch2 := (ch2 ap)\<lparr>Channel2.frequency :=
                                  (Channel2.frequency (ch2 ap) AND 0xFF) OR push_bit 8 (uint (val AND 0x07)),
                                Channel2.lengthEnabled := (val AND 0x40 \<noteq> 0)\<rparr>\<rparr>
           in if val AND 0x80 \<noteq> 0 then triggerChannel2 ap else ap)
        else if reg = 0x1A then
          (let c = (ch3 ap)\<lparr>dacEnabled := (val AND 0x80 \<noteq> 0)\<rparr>
           in ap\<lparr>ch3 := (if \<not> dacEnabled c then c\<lparr>Channel3.enabled := False\<rparr> else c)\<rparr>)
        else if reg = 0x1B then
          ap\<lparr>ch3 := (ch3 ap)\<lparr>Channel3.lengthCounter := 256 - uint val\<rparr>\<rparr>
        else if reg = 0x1C then
          ap\<lparr>ch3 := (ch3 ap)\<lparr>Channel3.volume := uint (drop_bit 5 val AND 0x03)\<rparr>\<rparr>
        else if reg = 0x1D then
          ap\<lparr>ch3 := (ch3 ap)\<lparr>Channel3.frequency :=
                                  (Channel3.frequency (ch3 ap) AND 0x700) OR uint val\<rparr>\<rparr>
        else if reg = 0x1E then
          (let ap = ap\<lparr>ch3 := (ch3 ap)\<lparr>Channel3.frequency :=
                                  (Channel3.frequency (ch3 ap) AND 0xFF) OR push_bit 8 (uint (val AND 0x07)),
                                Channel3.lengthEnabled := (val AND 0x40 \<noteq> 0)\<rparr>\<rparr>
           in if val AND 0x80 \<noteq> 0 then triggerChannel3 ap else ap)
        else if reg = 0x20 then
          ap\<lparr>ch4 := (ch4 ap)\<lparr>Channel4.lengthCounter := 64 - uint (val AND 0x3F)\<rparr>\<rparr>
        else if reg = 0x21 then
          (let c = (ch4 ap)\<lparr>Channel4.volumeInit := uint (drop_bit 4 val AND 0x0F),
                                Channel4.envelopeAdd := (val AND 0x08 \<noteq> 0),
                                Channel4.envelopePeriod := uint (val AND 0x07)\<rparr>
           in ap\<lparr>ch4 := (if val AND 0xF8 = 0 then c\<lparr>Channel4.enabled := False\<rparr> else c)\<rparr>)
        else if reg = 0x22 then
          ap\<lparr>ch4 := (ch4 ap)\<lparr>shift := uint (drop_bit 4 val AND 0x0F),
                                widthMode := (val AND 0x08 \<noteq> 0),
                                divisor := uint (val AND 0x07)\<rparr>\<rparr>
        else if reg = 0x23 then
          (let ap = ap\<lparr>ch4 := (ch4 ap)\<lparr>Channel4.lengthEnabled := (val AND 0x40 \<noteq> 0)\<rparr>\<rparr>
           in if val AND 0x80 \<noteq> 0 then triggerChannel4 ap else ap)
        else if reg = 0x24 then ap\<lparr>masterVolume := val\<rparr>
        else if reg = 0x25 then ap\<lparr>channelPan := val\<rparr>
        else if reg = 0x26 then
          (let ap = ap\<lparr>masterEnable := (val AND 0x80 \<noteq> 0)\<rparr>
           in if \<not> masterEnable ap
              then ap\<lparr>ch1 := (ch1 ap)\<lparr>Channel1.enabled := False\<rparr>,
                      ch2 := (ch2 ap)\<lparr>Channel2.enabled := False\<rparr>,
                      ch3 := (ch3 ap)\<lparr>Channel3.enabled := False\<rparr>,
                      ch4 := (ch4 ap)\<lparr>Channel4.enabled := False\<rparr>\<rparr>
              else ap)
        else ap)"

definition readRegister :: "APU \<Rightarrow> u8 \<Rightarrow> u8" where
  "readRegister ap reg =
     (if 0x30 \<le> reg \<and> reg \<le> 0x3F then waveRam ap ! unat (reg - 0x30)
      else if reg < 0x10 \<or> reg > 0x26 then 0xFF
      else if reg = 0x26 then
        (let status = (if masterEnable ap then 0x80 else 0x00);
             status = (if Channel1.enabled (ch1 ap) then status OR 0x01 else status);
             status = (if Channel2.enabled (ch2 ap) then status OR 0x02 else status);
             status = (if Channel3.enabled (ch3 ap) then status OR 0x04 else status);
             status = (if Channel4.enabled (ch4 ap) then status OR 0x08 else status)
         in status OR 0x70)
      else registers ap ! unat (reg - 0x10))"

section \<open>PPU and bus state (ppu.h, memory.h)\<close>

text \<open>
  The PPU registers and the internal state of the mode machine. The 160x144 framebuffer is
  left out: the rasteriser writes it and nothing in the mode machine, the STAT logic or the
  bus reads it back.
\<close>

record PPU =
  lcdc :: u8
  stat :: u8
  scy :: u8
  scx :: u8
  ly :: u8
  lyc :: u8
  wy :: u8
  wx :: u8
  bgp :: u8
  obp0 :: u8
  obp1 :: u8
  scanlineCycles :: int
  mode :: int
  frameReady :: bool
  windowLine :: int

text \<open>
  The bus. The two pointers \<open>PPU* ppu\<close> and \<open>APU* apu\<close> start as \<open>nullptr\<close> and are set
  once by \<open>setPPU\<close> and \<open>setAPU\<close>: an optional component, \<open>None\<close> for the null pointer.
  The PPU's back reference \<open>Memory&\<close> is the bus passed along with the PPU state.
\<close>

record Memory =
  ppu :: "PPU option"
  apu :: "APU option"
  rom :: "u8 list"
  extRam :: "u8 list"
  vram :: "u8 list"
  wram :: "u8 list"
  oam :: "u8 list"
  io :: "u8 list"
  hram :: "u8 list"
  ie :: u8
  mbcType :: u8
  romBank :: int
  ramBank :: int
  ramEnabled :: bool
  rtcEnabled :: bool
  rtcRegister :: u8
  timerCounter :: int
  divCounter :: int
  dmaActive :: bool
  dmaCycles :: int
  dmaSource :: u16
  joypadButtons :: u8
  joypadDpad :: u8

definition Memory_init :: Memory where
  "Memory_init = \<lparr> ppu = None, apu = None, rom = [], extRam = [],
     vram = replicate 0x2000 0,
     wram = replicate 0x2000 0,
     oam = replicate 0xA0 0,
     io = (replicate 0x80 0)
            [0x00 := 0xCF, 0x05 := 0x00, 0x06 := 0x00, 0x07 := 0x00, 0x0F := 0xE1,
             0x10 := 0x80, 0x11 := 0xBF, 0x12 := 0xF3, 0x14 := 0xBF, 0x16 := 0x3F,
             0x17 := 0x00, 0x19 := 0xBF, 0x1A := 0x7F, 0x1B := 0xFF, 0x1C := 0x9F,
             0x1E := 0xBF, 0x20 := 0xFF, 0x21 := 0x00, 0x22 := 0x00, 0x23 := 0xBF,
             0x24 := 0x77, 0x25 := 0xF3, 0x26 := 0xF1, 0x40 := 0x91, 0x42 := 0x00,
             0x43 := 0x00, 0x45 := 0x00, 0x47 := 0xFC, 0x48 := 0xFF, 0x49 := 0xFF,
             0x4A := 0x00, 0x4B := 0x00],
     hram = replicate 0x7F 0,
     ie = 0, mbcType = 0, romBank = 1, ramBank = 0, ramEnabled = False,
     rtcEnabled = False, rtcRegister = 0, timerCounter = 0, divCounter = 0,
     dmaActive = False, dmaCycles = 0, dmaSource = 0,
     joypadButtons = 0xFF, joypadDpad = 0xFF \<rparr>"

definition setPPU :: "Memory \<Rightarrow> PPU \<Rightarrow> Memory" where
  "setPPU m p = m\<lparr>ppu := Some p\<rparr>"

definition setAPU :: "Memory \<Rightarrow> APU \<Rightarrow> Memory" where
  "setAPU m ap = m\<lparr>apu := Some ap\<rparr>"

definition getIF :: "Memory \<Rightarrow> u8" where
  "getIF m = io m ! 0x0F"

definition setIF :: "Memory \<Rightarrow> u8 \<Rightarrow> Memory" where
  "setIF m val = m\<lparr>io := (io m)[0x0F := val]\<rparr>"

definition getIE :: "Memory \<Rightarrow> u8" where
  "getIE m = ie m"

definition readIO :: "Memory \<Rightarrow> u8 \<Rightarrow> u8" where
  "readIO m reg = io m ! unat reg"

definition writeIO :: "Memory \<Rightarrow> u8 \<Rightarrow> u8 \<Rightarrow> Memory" where
  "writeIO m reg val = m\<lparr>io := (io m)[unat reg := val]\<rparr>"

definition setJoypadState :: "Memory \<Rightarrow> u8 \<Rightarrow> u8 \<Rightarrow> Memory" where
  "setJoypadState m buttons dpad = m\<lparr>joypadButtons := buttons, joypadDpad := dpad\<rparr>"

section \<open>PPU: registers and mode machine\<close>

definition PPU_reset :: PPU where
  "PPU_reset = \<lparr> lcdc = 0x91, stat = 0x00, scy = 0, scx = 0, ly = 0, lyc = 0, wy = 0,
     wx = 0, bgp = 0xFC, obp0 = 0xFF, obp1 = 0xFF, scanlineCycles = 0, mode = 2,
     frameReady = False, windowLine = 0 \<rparr>"

definition checkSTATInterrupt :: "PPU \<times> Memory \<Rightarrow> PPU \<times> Memory" where
  "checkSTATInterrupt pm =
     (let (p, m) = pm;
          interrupt = False;
          interrupt = (if stat p AND 0x20 \<noteq> 0 \<and> mode p = 2 then True else interrupt);
          interrupt = (if stat p AND 0x10 \<noteq> 0 \<and> mode p = 1 then True else interrupt);
          interrupt = (if stat p AND 0x08 \<noteq> 0 \<and> mode p = 0 then True else interrupt);
          interrupt = (if stat p AND 0x40 \<noteq> 0 \<and> stat p AND 0x04 \<noteq> 0 then True else interrupt)
      in if interrupt then (p, setIF m (getIF m OR INT_STAT)) else (p, m))"

definition setMode :: "PPU \<times> Memory \<Rightarrow> int \<Rightarrow> PPU \<times> Memory" where
  "setMode pm newMode =
     (let (p, m) = pm;
          p = p\<lparr>mode := newMode\<rparr>;
          p = p\<lparr>stat := (stat p AND 0xFC) OR word_of_int (mode p AND 0x03)\<rparr>
      in checkSTATInterrupt (p, m))"

definition checkLYC :: "PPU \<times> Memory \<Rightarrow> PPU \<times> Memory" where
  "checkLYC pm =
     (let (p, m) = pm;
          p = (if ly p = lyc p then p\<lparr>stat := stat p OR 0x04\<rparr>
               else p\<lparr>stat := stat p AND NOT 0x04\<rparr>)
      in checkSTATInterrupt (p, m))"

definition writeLCDC :: "PPU \<times> Memory \<Rightarrow> u8 \<Rightarrow> PPU \<times> Memory" where
  "writeLCDC pm val =
     (let (p, m) = pm;
          wasEnabled = (lcdc p AND 0x80 \<noteq> 0);
          isEnabled = (val AND 0x80 \<noteq> 0);
          (p, m) = (if wasEnabled \<and> \<not> isEnabled
                    then setMode (p\<lparr>ly := 0, scanlineCycles := 0\<rparr>, m) 0
                    else (p, m))
      in (p\<lparr>lcdc := val\<rparr>, m))"

definition writeSTAT :: "PPU \<Rightarrow> u8 \<Rightarrow> PPU" where
  "writeSTAT p val = p\<lparr>stat := (val AND 0x78) OR (stat p AND 0x07)\<rparr>"

definition writeLY :: "PPU \<Rightarrow> u8 \<Rightarrow> PPU" where
  "writeLY p val = p\<lparr>ly := 0\<rparr>"

definition readSTAT :: "PPU \<Rightarrow> u8" where
  "readSTAT p = stat p OR 0x80"

definition readLY :: "PPU \<Rightarrow> u8" where
  "readLY p = ly p"

definition isFrameReady :: "PPU \<Rightarrow> bool" where
  "isFrameReady p = frameReady p"

definition clearFrameReady :: "PPU \<Rightarrow> PPU" where
  "clearFrameReady p = p\<lparr>frameReady := False\<rparr>"

definition SCREEN_WIDTH :: int where "SCREEN_WIDTH = 160"
definition SCREEN_HEIGHT :: int where "SCREEN_HEIGHT = 144"

text \<open>
  \<open>renderWindow\<close> and \<open>renderScanline\<close>, restricted to the state they leave behind apart
  from the framebuffer: the window line counter, advanced when some pixel of the line has
  \<open>pixel - (wx - 7) >= 0\<close>.
\<close>

definition renderWindow :: "PPU \<Rightarrow> PPU" where
  "renderWindow p =
     (if wy p > ly p then p
      else if wx p > 166 then p
      else
        let windowVisible =
              list_ex (\<lambda>pixel. \<not> (int pixel - (uint (wx p) - 7) < 0)) [0 ..< nat SCREEN_WIDTH]
        in if windowVisible then p\<lparr>windowLine := windowLine p + 1\<rparr> else p)"

definition renderScanline :: "PPU \<Rightarrow> PPU" where
  "renderScanline p =
     (if uint (ly p) \<ge> SCREEN_HEIGHT then p
      else if lcdc p AND 0x20 \<noteq> 0 \<and> lcdc p AND 0x01 \<noteq> 0 then renderWindow p
      else p)"

text \<open>
  There is one PPU object, and a bus that has it attached (\<open>setPPU\<close>) reaches it through
  the pointer \<open>PPU* ppu\<close>: what \<open>step\<close> has done to the PPU is what the bus reads at
  0xFF41 and 0xFF44 afterwards.
\<close>

definition seen_by_bus :: "PPU \<times> Memory \<Rightarrow> PPU \<times> Memory" where
  "seen_by_bus pm =
     (let (p, m) = pm in (p, case ppu m of None \<Rightarrow> m | Some q \<Rightarrow> m\<lparr>ppu := Some p\<rparr>))"

definition PPU_step :: "PPU \<times> Memory \<Rightarrow> int \<Rightarrow> PPU \<times> Memory" where
  "PPU_step pm cycles = seen_by_bus
     (let (p, m) = pm;
          p = p\<lparr>scy := readIO m 0x42, scx := readIO m 0x43, lyc := readIO m 0x45,
                bgp := readIO m 0x47, obp0 := readIO m 0x48, obp1 := readIO m 0x49,
                wy := readIO m 0x4A, wx := readIO m 0x4B, lcdc := readIO m 0x40\<rparr>
      in if lcdc p AND 0x80 = 0 then (p, m)
         else
           let p = p\<lparr>scanlineCycles := scanlineCycles p + cycles\<rparr> in
           if mode p = 2 then
             (if scanlineCycles p \<ge> 80
              then setMode (p\<lparr>scanlineCycles := scanlineCycles p - 80\<rparr>, m) 3
              else (p, m))
           else if mode p = 3 then
             (if scanlineCycles p \<ge> 172
              then setMode (renderScanline (p\<lparr>scanlineCycles := scanlineCycles p - 172\<rparr>), m) 0
              else (p, m))
           else if mode p = 0 then
             (if scanlineCycles p \<ge> 204
              then
                let p = p\<lparr>scanlineCycles := scanlineCycles p - 204\<rparr>;
                    p = p\<lparr>ly := ly p + 1\<rparr>;
                    (p, m) = (if ly p = 144
                              then (let (p, m) = setMode (p, m) 1;
                                        m = setIF m (getIF m OR INT_VBLANK)
                                    in (p\<lparr>frameReady := True, windowLine := 0\<rparr>, m))
                              else setMode (p, m) 2);
                    m = writeIO m 0x44 (ly p)
                in checkLYC (p, m)
              else (p, m))
           else if mode p = 1 then
             (if scanlineCycles p \<ge> 456
              then
                let p = p\<lparr>scanlineCycles := scanlineCycles p - 456\<rparr>;
                    p = p\<lparr>ly := ly p + 1\<rparr>;
                    (p, m) = (if ly p > 153 then setMode (p\<lparr>ly := 0\<rparr>, m) 2 else (p, m));
                    m = writeIO m 0x44 (ly p)
                in checkLYC (p, m)
              else (p, m))
           else (p, m))"

section \<open>Bus: address decoder, MBC, timer, DMA\<close>

definition readJoypad :: "Memory \<Rightarrow> u8" where
  "readJoypad m =
     (let select = io m ! 0x00 AND 0x30;
          result = 0xCF;
          result = (if select AND 0x20 = 0
                    then (result AND 0xF0) OR (joypadButtons m AND 0x0F) else result);
          result = (if select AND 0x10 = 0
                    then (result AND 0xF0) OR (joypadDpad m AND 0x0F) else result)
      in result)"

text \<open>
  \<open>Memory::read\<close>. \<open>romAddr\<close> and \<open>ramAddr\<close> are \<open>size_t\<close>: the sum is taken modulo
  \<open>2 ^ 64\<close>. \<open>rom[addr]\<close> in the first branch is not range-checked by the source.
\<close>

definition Memory_read :: "Memory \<Rightarrow> u16 \<Rightarrow> u8" where
  "Memory_read m addr =
     (if addr < 0x4000 then rom m ! unat addr
      else if addr < 0x8000 then
        (let bankOffset = uint addr - 0x4000;
             romAddr = (romBank m * 0x4000 + bankOffset) mod 2 ^ 64
         in if romAddr < int (length (rom m)) then rom m ! nat romAddr else 0xFF)
      else if addr < 0xA000 then vram m ! unat (addr - 0x8000)
      else if addr < 0xC000 then
        (if ramEnabled m \<and> extRam m \<noteq> [] then
           (let ramAddr = (ramBank m * 0x2000 + (uint addr - 0xA000)) mod 2 ^ 64
            in if ramAddr < int (length (extRam m)) then extRam m ! nat ramAddr else 0xFF)
         else 0xFF)
      else if addr < 0xE000 then wram m ! unat (addr - 0xC000)
      else if addr < 0xFE00 then wram m ! unat (addr - 0xE000)
      else if addr < 0xFEA0 then oam m ! unat (addr - 0xFE00)
      else if addr < 0xFF00 then 0xFF
      else if addr < 0xFF80 then
        (let reg = (ucast (addr - 0xFF00) :: u8) in
         if reg = 0x00 then readJoypad m
         else if reg = 0x44 then (case ppu m of Some p \<Rightarrow> readLY p | None \<Rightarrow> 0)
         else if reg = 0x41 then (case ppu m of Some p \<Rightarrow> readSTAT p | None \<Rightarrow> 0)
         else if 0x10 \<le> reg \<and> reg \<le> 0x3F \<and> apu m \<noteq> None
           then (case apu m of Some ap \<Rightarrow> readRegister ap reg | None \<Rightarrow> io m ! unat reg)
         else io m ! unat reg)
      else if addr < 0xFFFF then hram m ! unat (addr - 0xFF80)
      else ie m)"

definition handleMBCWrite :: "Memory \<Rightarrow> u16 \<Rightarrow> u8 \<Rightarrow> Memory" where
  "handleMBCWrite m addr val =
     (if mbcType m = 0 then m
      else if mbcType m = 1 then
        (if addr < 0x2000 then m\<lparr>ramEnabled := (val AND 0x0F = 0x0A)\<rparr>
         else if addr < 0x4000 then
           (let m = m\<lparr>romBank := uint (val AND 0x1F)\<rparr>
            in if romBank m = 0 then m\<lparr>romBank := 1\<rparr> else m)
         else if addr < 0x6000 then m\<lparr>ramBank := uint (val AND 0x03)\<rparr>
         else m)
      else if mbcType m = 3 then
        (if addr < 0x2000 then m\<lparr>ramEnabled := (val AND 0x0F = 0x0A)\<rparr>
         else if addr < 0x4000 then
           (let m = m\<lparr>romBank := uint (val AND 0x7F)\<rparr>
            in if romBank m = 0 then m\<lparr>romBank := 1\<rparr> else m)
         else if addr < 0x6000 then
           (if val \<le> 0x03 then m\<lparr>ramBank := uint val, rtcEnabled := False\<rparr>
            else if val \<ge> 0x08 \<and> val \<le> 0x0C then m\<lparr>rtcEnabled := True, rtcRegister := val\<rparr>
            else m)
         else m)
      else if mbcType m = 5 then
        (if addr < 0x2000 then m\<lparr>ramEnabled := (val AND 0x0F = 0x0A)\<rparr>
         else if addr < 0x3000 then m\<lparr>romBank := (romBank m AND 0x100) OR uint val\<rparr>
         else if addr < 0x4000 then
           m\<lparr>romBank := (romBank m AND 0xFF) OR push_bit 8 (uint (val AND 0x01))\<rparr>
         else if addr < 0x6000 then m\<lparr>ramBank := uint (val AND 0x0F)\<rparr>
         else m)
      else m)"

definition Memory_write :: "Memory \<Rightarrow> u16 \<Rightarrow> u8 \<Rightarrow> Memory" where
  "Memory_write m addr val =
     (if addr < 0x8000 then handleMBCWrite m addr val
      else if addr < 0xA000 then m\<lparr>vram := (vram m)[unat (addr - 0x8000) := val]\<rparr>
      else if addr < 0xC000 then
        (if ramEnabled m \<and> extRam m \<noteq> [] then
           (let ramAddr = (ramBank m * 0x2000 + (uint addr - 0xA000)) mod 2 ^ 64
            in if ramAddr < int (length (extRam m))
               then m\<lparr>extRam := (extRam m)[nat ramAddr := val]\<rparr> else m)
         else m)
      else if addr < 0xE000 then m\<lparr>wram := (wram m)[unat (addr - 0xC000) := val]\<rparr>
      else if addr < 0xFE00 then m\<lparr>wram := (wram m)[unat (addr - 0xE000) := val]\<rparr>
      else if addr < 0xFEA0 then m\<lparr>oam := (oam m)[unat (addr - 0xFE00) := val]\<rparr>
      else if addr < 0xFF00 then m
      else if addr < 0xFF80 then
        (let reg = (ucast (addr - 0xFF00) :: u8) in
         if reg = 0x00 then m\<lparr>io := (io m)[0x00 := (val AND 0x30) OR (io m ! 0x00 AND 0xCF)]\<rparr>
         else if reg = 0x04 then m\<lparr>io := (io m)[0x04 := 0], divCounter := 0\<rparr>
         else if reg = 0x40 then
           (let m = (case ppu m of
                       Some p \<Rightarrow> (let (p, m) = writeLCDC (p, m) val in m\<lparr>ppu := Some p\<rparr>)
                     | None \<Rightarrow> m)
            in m\<lparr>io := (io m)[0x40 := val]\<rparr>)
         else if reg = 0x41 then
           (let m = (case ppu m of Some p \<Rightarrow> m\<lparr>ppu := Some (writeSTAT p val)\<rparr> | None \<Rightarrow> m)
            in m\<lparr>io := (io m)[0x41 := val]\<rparr>)
         else if reg = 0x44 then
           (case ppu m of Some p \<Rightarrow> m\<lparr>ppu := Some (writeLY p val)\<rparr> | None \<Rightarrow> m)
         else if reg = 0x46 then
           m\<lparr>dmaActive := True, dmaCycles := 0, dmaSource := push_bit 8 (ucast val),
             io := (io m)[0x46 := val]\<rparr>
         else
           (let m = (if 0x10 \<le> reg \<and> reg \<le> 0x3F
                     then (case apu m of
                             Some ap \<Rightarrow> m\<lparr>apu := Some (writeRegister ap reg val)\<rparr>
                           | None \<Rightarrow> m)
                     else m)
            in m\<lparr>io := (io m)[unat reg := val]\<rparr>))
      else if addr < 0xFFFF then m\<lparr>hram := (hram m)[unat (addr - 0xFF80) := val]\<rparr>
      else m\<lparr>ie := val\<rparr>)"

definition getTimerFrequency :: "Memory \<Rightarrow> int" where
  "getTimerFrequency m =
     (let sel = io m ! 0x07 AND 0x03 in
      if sel = 0 then 1024
      else if sel = 1 then 16
      else if sel = 2 then 64
      else if sel = 3 then 256
      else 1024)"

text \<open>The DIV loop of \<open>updateTimer\<close>: \<open>while (divCounter >= 256)\<close>.\<close>

function div_loop :: "Memory \<Rightarrow> Memory" where
  "div_loop m =
     (if divCounter m \<ge> 256
      then div_loop (m\<lparr>divCounter := divCounter m - 256, io := (io m)[0x04 := io m ! 0x04 + 1]\<rparr>)
      else m)"
  by pat_completeness auto
termination
  by (relation "measure (\<lambda>m. nat (divCounter m))") auto

declare div_loop.simps [simp del]

text \<open>One pass through the body of \<open>while (timerCounter >= freq)\<close>.\<close>

definition timer_tick :: "int \<Rightarrow> Memory \<Rightarrow> Memory" where
  "timer_tick freq m =
     (let m = m\<lparr>timerCounter := timerCounter m - freq\<rparr>;
          m = m\<lparr>io := (io m)[0x05 := io m ! 0x05 + 1]\<rparr>
      in if io m ! 0x05 = 0
         then (let m = m\<lparr>io := (io m)[0x05 := io m ! 0x06]\<rparr>
               in m\<lparr>io := (io m)[0x0F := io m ! 0x0F OR INT_TIMER]\<rparr>)
         else m)"

text \<open>
  The TIMA loop. \<open>freq\<close> is the local \<open>int freq = getTimerFrequency()\<close>, which is one of
  1024, 16, 64, 256; the test \<open>0 < freq\<close> only makes the recursion total.
\<close>

function timer_loop :: "int \<Rightarrow> Memory \<Rightarrow> Memory" where
  "timer_loop freq m =
     (if 0 < freq \<and> timerCounter m \<ge> freq then timer_loop freq (timer_tick freq m) else m)"
  by pat_completeness auto
termination
  by (relation "measure (\<lambda>(freq, m). nat (timerCounter m))")
     (auto simp: timer_tick_def Let_def)

declare timer_loop.simps [simp del]

definition updateTimer :: "Memory \<Rightarrow> int \<Rightarrow> Memory" where
  "updateTimer m cycles =
     (let m = m\<lparr>divCounter := divCounter m + cycles\<rparr>;
          m = div_loop m;
          tac = io m ! 0x07
      in if tac AND 0x04 = 0 then m
         else
           let m = m\<lparr>timerCounter := timerCounter m + cycles\<rparr>;
               freq = getTimerFrequency m
           in timer_loop freq m)"

text \<open>The copy loop of \<open>updateDMA\<close>: \<open>for (int i = 0; i < 160; i++) oam[i] = read(dmaSource + i)\<close>.\<close>

function dma_copy :: "Memory \<Rightarrow> int \<Rightarrow> Memory" where
  "dma_copy m i =
     (if i < 160
      then dma_copy (m\<lparr>oam := (oam m)[nat i := Memory_read m (dmaSource m + word_of_int i)]\<rparr>) (i + 1)
      else m)"
  by pat_completeness auto
termination
  by (relation "measure (\<lambda>(m, i). nat (160 - i))") auto

declare dma_copy.simps [simp del]

definition updateDMA :: "Memory \<Rightarrow> int \<Rightarrow> Memory" where
  "updateDMA m cycles =
     (if \<not> dmaActive m then m
      else
        let m = m\<lparr>dmaCycles := dmaCycles m + cycles\<rparr>
        in if dmaCycles m \<ge> 640 then (dma_copy m 0)\<lparr>dmaActive := False\<rparr> else m)"

section \<open>Cartridge load and start-up (Memory::loadROM, GameBoy::loadROM, main)\<close>





text \<open>
  \<open>GameBoy::init\<close> as far as the emulator state goes: the four components are created and
  the bus gets its PPU and APU. Whether SDL comes up is an input of \<open>main\<close>.
\<close>

definition GameBoy_init :: Memory where
  "GameBoy_init = setAPU (setPPU Memory_init PPU_reset) APU_reset"




section \<open>CPU: registers, ALU and interrupt dispatch (cpu.h, cpu.cpp)\<close>

text \<open>
  The register file of \<open>cpu.h\<close>. Each anonymous union lays a 16-bit pair over its two
  8-bit halves, low byte first: \<open>f\<close> under \<open>a\<close>, \<open>c\<close> under \<open>b\<close>, \<open>e\<close> under \<open>d\<close>, \<open>l\<close>
  under \<open>h\<close>. The halves are the fields here, and the pairs \<open>af\<close>, \<open>bc\<close>, \<open>de\<close>, \<open>hl\<close> are
  read and assigned through them.
\<close>

record CPU =
  reg_a :: u8
  reg_f :: u8
  reg_b :: u8
  reg_c :: u8
  reg_d :: u8
  reg_e :: u8
  reg_h :: u8
  reg_l :: u8
  sp :: u16
  pc :: u16
  ime :: bool
  imeScheduled :: bool
  halted :: bool
  stopped :: bool

text \<open>The CPU holds a reference to the bus: the machine state is the pair of both.\<close>

type_synonym sys = "CPU \<times> Memory"

definition pair16 :: "u8 \<Rightarrow> u8 \<Rightarrow> u16" where
  "pair16 hi lo = push_bit 8 (ucast hi) OR ucast lo"

definition hi8 :: "u16 \<Rightarrow> u8" where
  "hi8 v = ucast (drop_bit 8 v)"

definition lo8 :: "u16 \<Rightarrow> u8" where
  "lo8 v = ucast v"

definition af :: "CPU \<Rightarrow> u16" where "af cpu = pair16 (reg_a cpu) (reg_f cpu)"
definition bc :: "CPU \<Rightarrow> u16" where "bc cpu = pair16 (reg_b cpu) (reg_c cpu)"
definition de :: "CPU \<Rightarrow> u16" where "de cpu = pair16 (reg_d cpu) (reg_e cpu)"
definition hl :: "CPU \<Rightarrow> u16" where "hl cpu = pair16 (reg_h cpu) (reg_l cpu)"

definition set_af :: "CPU \<Rightarrow> u16 \<Rightarrow> CPU" where
  "set_af cpu v = cpu\<lparr>reg_a := hi8 v, reg_f := lo8 v\<rparr>"

definition set_bc :: "CPU \<Rightarrow> u16 \<Rightarrow> CPU" where
  "set_bc cpu v = cpu\<lparr>reg_b := hi8 v, reg_c := lo8 v\<rparr>"

definition set_de :: "CPU \<Rightarrow> u16 \<Rightarrow> CPU" where
  "set_de cpu v = cpu\<lparr>reg_d := hi8 v, reg_e := lo8 v\<rparr>"

definition set_hl :: "CPU \<Rightarrow> u16 \<Rightarrow> CPU" where
  "set_hl cpu v = cpu\<lparr>reg_h := hi8 v, reg_l := lo8 v\<rparr>"

definition getZ :: "CPU \<Rightarrow> bool" where "getZ cpu = (reg_f cpu AND 0x80 \<noteq> 0)"
definition getN :: "CPU \<Rightarrow> bool" where "getN cpu = (reg_f cpu AND 0x40 \<noteq> 0)"
definition getH :: "CPU \<Rightarrow> bool" where "getH cpu = (reg_f cpu AND 0x20 \<noteq> 0)"
definition getC :: "CPU \<Rightarrow> bool" where "getC cpu = (reg_f cpu AND 0x10 \<noteq> 0)"

definition setZ :: "CPU \<Rightarrow> bool \<Rightarrow> CPU" where
  "setZ cpu v = cpu\<lparr>reg_f := (if v then reg_f cpu OR 0x80 else reg_f cpu AND NOT 0x80)\<rparr>"

definition setN :: "CPU \<Rightarrow> bool \<Rightarrow> CPU" where
  "setN cpu v = cpu\<lparr>reg_f := (if v then reg_f cpu OR 0x40 else reg_f cpu AND NOT 0x40)\<rparr>"

definition setH :: "CPU \<Rightarrow> bool \<Rightarrow> CPU" where
  "setH cpu v = cpu\<lparr>reg_f := (if v then reg_f cpu OR 0x20 else reg_f cpu AND NOT 0x20)\<rparr>"

definition setC :: "CPU \<Rightarrow> bool \<Rightarrow> CPU" where
  "setC cpu v = cpu\<lparr>reg_f := (if v then reg_f cpu OR 0x10 else reg_f cpu AND NOT 0x10)\<rparr>"

definition setFlags :: "CPU \<Rightarrow> bool \<Rightarrow> bool \<Rightarrow> bool \<Rightarrow> bool \<Rightarrow> CPU" where
  "setFlags cpu z n h c =
     cpu\<lparr>reg_f := (if z then 0x80 else 0) OR (if n then 0x40 else 0)
                   OR (if h then 0x20 else 0) OR (if c then 0x10 else 0)\<rparr>"

definition CPU_reset :: CPU where
  "CPU_reset = \<lparr> reg_a = 0x01, reg_f = 0xB0, reg_b = 0x00, reg_c = 0x13, reg_d = 0x00,
     reg_e = 0xD8, reg_h = 0x01, reg_l = 0x4D, sp = 0xFFFE, pc = 0x0100,
     ime = False, imeScheduled = False, halted = False, stopped = False \<rparr>"

subsection \<open>Bus access\<close>

definition read8 :: "Memory \<Rightarrow> u16 \<Rightarrow> u8" where
  "read8 m addr = Memory_read m addr"

definition write8 :: "Memory \<Rightarrow> u16 \<Rightarrow> u8 \<Rightarrow> Memory" where
  "write8 m addr val = Memory_write m addr val"

definition read16 :: "Memory \<Rightarrow> u16 \<Rightarrow> u16" where
  "read16 m addr = ucast (read8 m addr) OR push_bit 8 (ucast (read8 m (addr + 1)))"

definition write16 :: "Memory \<Rightarrow> u16 \<Rightarrow> u16 \<Rightarrow> Memory" where
  "write16 m addr val =
     (let m = write8 m addr (ucast (val AND 0xFF))
      in write8 m (addr + 1) (ucast (drop_bit 8 val)))"

definition fetch8 :: "sys \<Rightarrow> u8 \<times> sys" where
  "fetch8 s = (let (cpu, m) = s in (read8 m (pc cpu), (cpu\<lparr>pc := pc cpu + 1\<rparr>, m)))"

definition fetch16 :: "sys \<Rightarrow> u16 \<times> sys" where
  "fetch16 s = (let (cpu, m) = s; val = read16 m (pc cpu) in (val, (cpu\<lparr>pc := pc cpu + 2\<rparr>, m)))"

definition push16 :: "sys \<Rightarrow> u16 \<Rightarrow> sys" where
  "push16 s val = (let (cpu, m) = s; cpu = cpu\<lparr>sp := sp cpu - 2\<rparr> in (cpu, write16 m (sp cpu) val))"

definition pop16 :: "sys \<Rightarrow> u16 \<times> sys" where
  "pop16 s = (let (cpu, m) = s; val = read16 m (sp cpu) in (val, (cpu\<lparr>sp := sp cpu + 2\<rparr>, m)))"

definition requestInterrupt :: "Memory \<Rightarrow> u8 \<Rightarrow> Memory" where
  "requestInterrupt m interrupt = setIF m (getIF m OR interrupt)"

subsection \<open>Interrupt dispatch\<close>

definition handleInterrupts :: "sys \<Rightarrow> int \<times> sys" where
  "handleInterrupts s =
     (let (cpu, m) = s;
          pending = getIF m AND getIE m AND 0x1F
      in if pending \<noteq> 0 then
           (let cpu = cpu\<lparr>halted := False\<rparr>
            in if ime cpu then
                 (let cpu = cpu\<lparr>ime := False\<rparr>;
                      (handler, bit) =
                        (if pending AND INT_VBLANK \<noteq> 0 then (0x0040, INT_VBLANK)
                         else if pending AND INT_STAT \<noteq> 0 then (0x0048, INT_STAT)
                         else if pending AND INT_TIMER \<noteq> 0 then (0x0050, INT_TIMER)
                         else if pending AND INT_SERIAL \<noteq> 0 then (0x0058, INT_SERIAL)
                         else if pending AND INT_JOYPAD \<noteq> 0 then (0x0060, INT_JOYPAD)
                         else (0, 0));
                      m = setIF m (getIF m AND NOT bit);
                      (cpu, m) = push16 (cpu, m) (pc cpu);
                      cpu = cpu\<lparr>pc := handler\<rparr>
                  in (20, (cpu, m)))
               else (0, (cpu, m)))
         else (0, (cpu, m)))"

text \<open>
  The selection made by the \<open>if\<close> chain of \<open>handleInterrupts\<close>, as a function of the
  pending mask: the handler vector and the IF bit of the first interrupt in the order
  VBlank, STAT, Timer, Serial, Joypad.
\<close>

definition highest_priority :: "u8 \<Rightarrow> u16 \<times> u8" where
  "highest_priority pending =
     (if pending AND INT_VBLANK \<noteq> 0 then (0x0040, INT_VBLANK)
      else if pending AND INT_STAT \<noteq> 0 then (0x0048, INT_STAT)
      else if pending AND INT_TIMER \<noteq> 0 then (0x0050, INT_TIMER)
      else if pending AND INT_SERIAL \<noteq> 0 then (0x0058, INT_SERIAL)
      else if pending AND INT_JOYPAD \<noteq> 0 then (0x0060, INT_JOYPAD)
      else (0, 0))"

subsection \<open>ALU\<close>

text \<open>
  The source computes in \<open>int\<close> and truncates on assignment; the intermediate results are
  integers here as well.
\<close>

definition add8 :: "CPU \<Rightarrow> u8 \<Rightarrow> CPU" where
  "add8 cpu val =
     (let a = reg_a cpu;
          result = uint a + uint val;
          cpu = setFlags cpu (result AND 0xFF = 0) False
                  (uint (a AND 0xF) + uint (val AND 0xF) > 0xF) (result > 0xFF)
      in cpu\<lparr>reg_a := word_of_int (result AND 0xFF)\<rparr>)"

definition adc8 :: "CPU \<Rightarrow> u8 \<Rightarrow> CPU" where
  "adc8 cpu val =
     (let a = reg_a cpu;
          carry = (if getC cpu then 1 else 0);
          result = uint a + uint val + carry;
          cpu = setFlags cpu (result AND 0xFF = 0) False
                  (uint (a AND 0xF) + uint (val AND 0xF) + carry > 0xF) (result > 0xFF)
      in cpu\<lparr>reg_a := word_of_int (result AND 0xFF)\<rparr>)"

definition sub8 :: "CPU \<Rightarrow> u8 \<Rightarrow> CPU" where
  "sub8 cpu val =
     (let a = reg_a cpu;
          result = uint a - uint val;
          cpu = setFlags cpu (result AND 0xFF = 0) True
                  (uint (a AND 0xF) < uint (val AND 0xF)) (uint a < uint val)
      in cpu\<lparr>reg_a := word_of_int (result AND 0xFF)\<rparr>)"

definition sbc8 :: "CPU \<Rightarrow> u8 \<Rightarrow> CPU" where
  "sbc8 cpu val =
     (let a = reg_a cpu;
          carry = (if getC cpu then 1 else 0);
          result = uint a - uint val - carry;
          cpu = setFlags cpu (result AND 0xFF = 0) True
                  (uint (a AND 0xF) < uint (val AND 0xF) + carry) (result < 0)
      in cpu\<lparr>reg_a := word_of_int (result AND 0xFF)\<rparr>)"

definition and8 :: "CPU \<Rightarrow> u8 \<Rightarrow> CPU" where
  "and8 cpu val =
     (let cpu = cpu\<lparr>reg_a := reg_a cpu AND val\<rparr>
      in setFlags cpu (reg_a cpu = 0) False True False)"

definition or8 :: "CPU \<Rightarrow> u8 \<Rightarrow> CPU" where
  "or8 cpu val =
     (let cpu = cpu\<lparr>reg_a := reg_a cpu OR val\<rparr>
      in setFlags cpu (reg_a cpu = 0) False False False)"

definition xor8 :: "CPU \<Rightarrow> u8 \<Rightarrow> CPU" where
  "xor8 cpu val =
     (let cpu = cpu\<lparr>reg_a := reg_a cpu XOR val\<rparr>
      in setFlags cpu (reg_a cpu = 0) False False False)"

definition cp8 :: "CPU \<Rightarrow> u8 \<Rightarrow> CPU" where
  "cp8 cpu val =
     (let a = reg_a cpu
      in setFlags cpu (a = val) True (uint (a AND 0xF) < uint (val AND 0xF)) (uint a < uint val))"

text \<open>
  \<open>inc8\<close> and \<open>dec8\<close> take the operand by reference. The operand is never \<open>f\<close>, so the
  new value is returned beside the CPU with its flags updated and the caller stores it.
\<close>

definition inc8 :: "CPU \<Rightarrow> u8 \<Rightarrow> u8 \<times> CPU" where
  "inc8 cpu reg =
     (let reg = reg + 1;
          cpu = setZ cpu (reg = 0);
          cpu = setN cpu False;
          cpu = setH cpu (reg AND 0xF = 0)
      in (reg, cpu))"

definition dec8 :: "CPU \<Rightarrow> u8 \<Rightarrow> u8 \<times> CPU" where
  "dec8 cpu reg =
     (let reg = reg - 1;
          cpu = setZ cpu (reg = 0);
          cpu = setN cpu True;
          cpu = setH cpu (reg AND 0xF = 0xF)
      in (reg, cpu))"

definition add16hl :: "CPU \<Rightarrow> u16 \<Rightarrow> CPU" where
  "add16hl cpu val =
     (let result = uint (hl cpu) + uint val;
          cpu = setN cpu False;
          cpu = setH cpu (uint (hl cpu AND 0xFFF) + uint (val AND 0xFFF) > 0xFFF);
          cpu = setC cpu (result > 0xFFFF)
      in set_hl cpu (word_of_int (result AND 0xFFFF)))"

text \<open>The argument of \<open>addSP\<close> is the fetched byte read as an \<open>int8_t\<close>.\<close>

definition addSP :: "CPU \<Rightarrow> u8 \<Rightarrow> CPU" where
  "addSP cpu val =
     (let result = uint (sp cpu) + sint val;
          cpu = setFlags cpu False False
                  (uint (sp cpu AND 0xF) + (sint val AND 0xF) > 0xF)
                  (uint (sp cpu AND 0xFF) + (sint val AND 0xFF) > 0xFF)
      in cpu\<lparr>sp := word_of_int (result AND 0xFFFF)\<rparr>)"

subsection \<open>Rotates, shifts and bit operations\<close>

definition rlc :: "CPU \<Rightarrow> u8 \<Rightarrow> u8 \<times> CPU" where
  "rlc cpu val =
     (let result = push_bit 1 val OR drop_bit 7 val
      in (result, setFlags cpu (result = 0) False False (val AND 0x80 \<noteq> 0)))"

definition rrc :: "CPU \<Rightarrow> u8 \<Rightarrow> u8 \<times> CPU" where
  "rrc cpu val =
     (let result = drop_bit 1 val OR push_bit 7 val
      in (result, setFlags cpu (result = 0) False False (val AND 0x01 \<noteq> 0)))"

definition rl :: "CPU \<Rightarrow> u8 \<Rightarrow> u8 \<times> CPU" where
  "rl cpu val =
     (let result = push_bit 1 val OR (if getC cpu then 1 else 0)
      in (result, setFlags cpu (result = 0) False False (val AND 0x80 \<noteq> 0)))"

definition rr :: "CPU \<Rightarrow> u8 \<Rightarrow> u8 \<times> CPU" where
  "rr cpu val =
     (let result = drop_bit 1 val OR (if getC cpu then 0x80 else 0)
      in (result, setFlags cpu (result = 0) False False (val AND 0x01 \<noteq> 0)))"

definition sla :: "CPU \<Rightarrow> u8 \<Rightarrow> u8 \<times> CPU" where
  "sla cpu val =
     (let result = push_bit 1 val
      in (result, setFlags cpu (result = 0) False False (val AND 0x80 \<noteq> 0)))"

definition sra :: "CPU \<Rightarrow> u8 \<Rightarrow> u8 \<times> CPU" where
  "sra cpu val =
     (let result = drop_bit 1 val OR (val AND 0x80)
      in (result, setFlags cpu (result = 0) False False (val AND 0x01 \<noteq> 0)))"

definition CPU_swap :: "CPU \<Rightarrow> u8 \<Rightarrow> u8 \<times> CPU" where
  "CPU_swap cpu val =
     (let result = push_bit 4 (val AND 0xF) OR drop_bit 4 (val AND 0xF0)
      in (result, setFlags cpu (result = 0) False False False))"

definition srl :: "CPU \<Rightarrow> u8 \<Rightarrow> u8 \<times> CPU" where
  "srl cpu val =
     (let result = drop_bit 1 val
      in (result, setFlags cpu (result = 0) False False (val AND 0x01 \<noteq> 0)))"

text \<open>\<open>bit\<close>, \<open>res\<close> and \<open>set\<close>; the bit number is below 8 at every call.\<close>

definition CPU_bit :: "CPU \<Rightarrow> nat \<Rightarrow> u8 \<Rightarrow> CPU" where
  "CPU_bit cpu b val =
     (let cpu = setZ cpu (val AND push_bit b 1 = 0);
          cpu = setN cpu False
      in setH cpu True)"

definition CPU_res :: "nat \<Rightarrow> u8 \<Rightarrow> u8" where
  "CPU_res b val = val AND NOT (push_bit b 1)"

definition CPU_set :: "nat \<Rightarrow> u8 \<Rightarrow> u8" where
  "CPU_set b val = val OR push_bit b 1"

text \<open>
  The table \<open>regs[] = { &b, &c, &d, &e, &h, &l, nullptr, &a }\<close> of \<open>executeCB\<close>, read and
  written by index. Index 6 is \<open>(HL)\<close> and never reaches the table.
\<close>

definition get_r8 :: "CPU \<Rightarrow> int \<Rightarrow> u8" where
  "get_r8 cpu reg =
     (if reg = 0 then reg_b cpu else if reg = 1 then reg_c cpu
      else if reg = 2 then reg_d cpu else if reg = 3 then reg_e cpu
      else if reg = 4 then reg_h cpu else if reg = 5 then reg_l cpu
      else reg_a cpu)"

definition set_r8 :: "CPU \<Rightarrow> int \<Rightarrow> u8 \<Rightarrow> CPU" where
  "set_r8 cpu reg v =
     (if reg = 0 then cpu\<lparr>reg_b := v\<rparr> else if reg = 1 then cpu\<lparr>reg_c := v\<rparr>
      else if reg = 2 then cpu\<lparr>reg_d := v\<rparr> else if reg = 3 then cpu\<lparr>reg_e := v\<rparr>
      else if reg = 4 then cpu\<lparr>reg_h := v\<rparr> else if reg = 5 then cpu\<lparr>reg_l := v\<rparr>
      else cpu\<lparr>reg_a := v\<rparr>)"

definition executeCB :: "sys \<Rightarrow> int \<times> sys" where
  "executeCB s =
     (let (opcode, (cpu, m)) = fetch8 s;
          reg = uint (opcode AND 0x07);
          op = uint (drop_bit 3 opcode);
          val = (if reg = 6 then read8 m (hl cpu) else get_r8 cpu reg);
          bitNum = nat ((op - 8) mod 8)
      in if 8 \<le> op \<and> op < 16 then
           (let cpu = CPU_bit cpu bitNum val in (if reg = 6 then 12 else 8, (cpu, m)))
         else
           (let (result, cpu) =
                  (if op = 0 then rlc cpu val
                   else if op = 1 then rrc cpu val
                   else if op = 2 then rl cpu val
                   else if op = 3 then rr cpu val
                   else if op = 4 then sla cpu val
                   else if op = 5 then sra cpu val
                   else if op = 6 then CPU_swap cpu val
                   else if op = 7 then srl cpu val
                   else if op < 24 then (CPU_res bitNum val, cpu)
                   else (CPU_set bitNum val, cpu))
            in if reg = 6 then (16, (cpu, write8 m (hl cpu) result))
               else (8, (set_r8 cpu reg result, m))))"

subsection \<open>Instruction decoder\<close>

text \<open>The two multi-statement cases of the opcode switch: \<open>DAA\<close> (0x27) and \<open>LD HL, SP+e8\<close> (0xF8).\<close>

definition daa :: "CPU \<Rightarrow> CPU" where
  "daa cpu =
     (let result = uint (reg_a cpu);
          (result, cpu) =
            (if getN cpu then
               (let result = (if getC cpu then result - 0x60 else result);
                    result = (if getH cpu then result - 0x06 else result)
                in (result, cpu))
             else
               (let (result, cpu) =
                      (if getC cpu \<or> result > 0x99 then (result + 0x60, setC cpu True)
                       else (result, cpu));
                    result = (if getH cpu \<or> (result AND 0x0F) > 0x09 then result + 0x06
                              else result)
                in (result, cpu)));
          cpu = cpu\<lparr>reg_a := word_of_int (result AND 0xFF)\<rparr>;
          cpu = setZ cpu (reg_a cpu = 0)
      in setH cpu False)"

definition ld_hl_sp :: "CPU \<Rightarrow> u8 \<Rightarrow> CPU" where
  "ld_hl_sp cpu e8 =
     (let result = uint (sp cpu) + sint e8;
          cpu = setFlags cpu False False
                  (uint (sp cpu AND 0xF) + (sint e8 AND 0xF) > 0xF)
                  (uint (sp cpu AND 0xFF) + (sint e8 AND 0xFF) > 0xFF)
      in set_hl cpu (word_of_int (result AND 0xFFFF)))"

text \<open>
  The opcode switch of \<open>CPU::step\<close>, one entry per \<open>case\<close> in the order of the source; each
  entry returns the clocks and the new machine state. \<open>int8_t\<close> displacements are the
  fetched byte sign-extended (\<open>scast\<close>).
\<close>

definition opcode_table :: "(u8 \<times> (sys \<Rightarrow> int \<times> sys)) list" where
  "opcode_table = [
   (0x00, \<lambda>(cpu, m). (4, (cpu, m))),
   (0x01, \<lambda>(cpu, m). let (v, (cpu, m)) = fetch16 (cpu, m) in (12, (set_bc cpu v, m))),
   (0x11, \<lambda>(cpu, m). let (v, (cpu, m)) = fetch16 (cpu, m) in (12, (set_de cpu v, m))),
   (0x21, \<lambda>(cpu, m). let (v, (cpu, m)) = fetch16 (cpu, m) in (12, (set_hl cpu v, m))),
   (0x31, \<lambda>(cpu, m).
            let (v, (cpu, m)) = fetch16 (cpu, m)
              in (12, (cpu\<lparr>sp := v\<rparr>, m))),
   (0x02, \<lambda>(cpu, m). (8, (cpu, write8 m (bc cpu) (reg_a cpu)))),
   (0x12, \<lambda>(cpu, m). (8, (cpu, write8 m (de cpu) (reg_a cpu)))),
   (0x22, \<lambda>(cpu, m). (8, (set_hl cpu (hl cpu + 1), write8 m (hl cpu) (reg_a cpu)))),
   (0x32, \<lambda>(cpu, m). (8, (set_hl cpu (hl cpu - 1), write8 m (hl cpu) (reg_a cpu)))),
   (0x0A, \<lambda>(cpu, m). (8, (cpu\<lparr>reg_a := read8 m (bc cpu)\<rparr>, m))),
   (0x1A, \<lambda>(cpu, m). (8, (cpu\<lparr>reg_a := read8 m (de cpu)\<rparr>, m))),
   (0x2A, \<lambda>(cpu, m).
            (8, ((set_hl cpu (hl cpu + 1))\<lparr>reg_a := read8 m (hl cpu)\<rparr>, m))),
   (0x3A, \<lambda>(cpu, m).
            (8, ((set_hl cpu (hl cpu - 1))\<lparr>reg_a := read8 m (hl cpu)\<rparr>, m))),
   (0x03, \<lambda>(cpu, m). (8, (set_bc cpu (bc cpu + 1), m))),
   (0x13, \<lambda>(cpu, m). (8, (set_de cpu (de cpu + 1), m))),
   (0x23, \<lambda>(cpu, m). (8, (set_hl cpu (hl cpu + 1), m))),
   (0x33, \<lambda>(cpu, m). (8, (cpu\<lparr>sp := sp cpu + 1\<rparr>, m))),
   (0x0B, \<lambda>(cpu, m). (8, (set_bc cpu (bc cpu - 1), m))),
   (0x1B, \<lambda>(cpu, m). (8, (set_de cpu (de cpu - 1), m))),
   (0x2B, \<lambda>(cpu, m). (8, (set_hl cpu (hl cpu - 1), m))),
   (0x3B, \<lambda>(cpu, m). (8, (cpu\<lparr>sp := sp cpu - 1\<rparr>, m))),
   (0x04, \<lambda>(cpu, m).
            let (v, cpu) = inc8 cpu (reg_b cpu)
              in (4, (cpu\<lparr>reg_b := v\<rparr>, m))),
   (0x0C, \<lambda>(cpu, m).
            let (v, cpu) = inc8 cpu (reg_c cpu)
              in (4, (cpu\<lparr>reg_c := v\<rparr>, m))),
   (0x14, \<lambda>(cpu, m).
            let (v, cpu) = inc8 cpu (reg_d cpu)
              in (4, (cpu\<lparr>reg_d := v\<rparr>, m))),
   (0x1C, \<lambda>(cpu, m).
            let (v, cpu) = inc8 cpu (reg_e cpu)
              in (4, (cpu\<lparr>reg_e := v\<rparr>, m))),
   (0x24, \<lambda>(cpu, m).
            let (v, cpu) = inc8 cpu (reg_h cpu)
              in (4, (cpu\<lparr>reg_h := v\<rparr>, m))),
   (0x2C, \<lambda>(cpu, m).
            let (v, cpu) = inc8 cpu (reg_l cpu)
              in (4, (cpu\<lparr>reg_l := v\<rparr>, m))),
   (0x34, \<lambda>(cpu, m).
            let (v, cpu) = inc8 cpu (read8 m (hl cpu))
              in (12, (cpu, write8 m (hl cpu) v))),
   (0x3C, \<lambda>(cpu, m).
            let (v, cpu) = inc8 cpu (reg_a cpu)
              in (4, (cpu\<lparr>reg_a := v\<rparr>, m))),
   (0x05, \<lambda>(cpu, m).
            let (v, cpu) = dec8 cpu (reg_b cpu)
              in (4, (cpu\<lparr>reg_b := v\<rparr>, m))),
   (0x0D, \<lambda>(cpu, m).
            let (v, cpu) = dec8 cpu (reg_c cpu)
              in (4, (cpu\<lparr>reg_c := v\<rparr>, m))),
   (0x15, \<lambda>(cpu, m).
            let (v, cpu) = dec8 cpu (reg_d cpu)
              in (4, (cpu\<lparr>reg_d := v\<rparr>, m))),
   (0x1D, \<lambda>(cpu, m).
            let (v, cpu) = dec8 cpu (reg_e cpu)
              in (4, (cpu\<lparr>reg_e := v\<rparr>, m))),
   (0x25, \<lambda>(cpu, m).
            let (v, cpu) = dec8 cpu (reg_h cpu)
              in (4, (cpu\<lparr>reg_h := v\<rparr>, m))),
   (0x2D, \<lambda>(cpu, m).
            let (v, cpu) = dec8 cpu (reg_l cpu)
              in (4, (cpu\<lparr>reg_l := v\<rparr>, m))),
   (0x35, \<lambda>(cpu, m).
            let (v, cpu) = dec8 cpu (read8 m (hl cpu))
              in (12, (cpu, write8 m (hl cpu) v))),
   (0x3D, \<lambda>(cpu, m).
            let (v, cpu) = dec8 cpu (reg_a cpu)
              in (4, (cpu\<lparr>reg_a := v\<rparr>, m))),
   (0x06, \<lambda>(cpu, m).
            let (v, (cpu, m)) = fetch8 (cpu, m)
              in (8, (cpu\<lparr>reg_b := v\<rparr>, m))),
   (0x0E, \<lambda>(cpu, m).
            let (v, (cpu, m)) = fetch8 (cpu, m)
              in (8, (cpu\<lparr>reg_c := v\<rparr>, m))),
   (0x16, \<lambda>(cpu, m).
            let (v, (cpu, m)) = fetch8 (cpu, m)
              in (8, (cpu\<lparr>reg_d := v\<rparr>, m))),
   (0x1E, \<lambda>(cpu, m).
            let (v, (cpu, m)) = fetch8 (cpu, m)
              in (8, (cpu\<lparr>reg_e := v\<rparr>, m))),
   (0x26, \<lambda>(cpu, m).
            let (v, (cpu, m)) = fetch8 (cpu, m)
              in (8, (cpu\<lparr>reg_h := v\<rparr>, m))),
   (0x2E, \<lambda>(cpu, m).
            let (v, (cpu, m)) = fetch8 (cpu, m)
              in (8, (cpu\<lparr>reg_l := v\<rparr>, m))),
   (0x36, \<lambda>(cpu, m).
            let (v, (cpu, m)) = fetch8 (cpu, m)
              in (12, (cpu, write8 m (hl cpu) v))),
   (0x3E, \<lambda>(cpu, m).
            let (v, (cpu, m)) = fetch8 (cpu, m)
              in (8, (cpu\<lparr>reg_a := v\<rparr>, m))),
   (0x07, \<lambda>(cpu, m).
            let (v, cpu) = rlc cpu (reg_a cpu); cpu = cpu\<lparr>reg_a := v\<rparr>
              in (4, (setZ cpu False, m))),
   (0x0F, \<lambda>(cpu, m).
            let (v, cpu) = rrc cpu (reg_a cpu); cpu = cpu\<lparr>reg_a := v\<rparr>
              in (4, (setZ cpu False, m))),
   (0x17, \<lambda>(cpu, m).
            let (v, cpu) = rl cpu (reg_a cpu); cpu = cpu\<lparr>reg_a := v\<rparr>
              in (4, (setZ cpu False, m))),
   (0x1F, \<lambda>(cpu, m).
            let (v, cpu) = rr cpu (reg_a cpu); cpu = cpu\<lparr>reg_a := v\<rparr>
              in (4, (setZ cpu False, m))),
   (0x08, \<lambda>(cpu, m).
            let (addr, (cpu, m)) = fetch16 (cpu, m)
              in (20, (cpu, write16 m addr (sp cpu)))),
   (0x09, \<lambda>(cpu, m). (8, (add16hl cpu (bc cpu), m))),
   (0x19, \<lambda>(cpu, m). (8, (add16hl cpu (de cpu), m))),
   (0x29, \<lambda>(cpu, m). (8, (add16hl cpu (hl cpu), m))),
   (0x39, \<lambda>(cpu, m). (8, (add16hl cpu (sp cpu), m))),
   (0x18, \<lambda>(cpu, m).
            let (e8, (cpu, m)) = fetch8 (cpu, m)
              in (12, (cpu\<lparr>pc := pc cpu + scast e8\<rparr>, m))),
   (0x20, \<lambda>(cpu, m).
            let (e8, (cpu, m)) = fetch8 (cpu, m)
              in if \<not> getZ cpu
              then (12, (cpu\<lparr>pc := pc cpu + scast e8\<rparr>, m))
              else (8, (cpu, m))),
   (0x28, \<lambda>(cpu, m).
            let (e8, (cpu, m)) = fetch8 (cpu, m)
              in if getZ cpu
              then (12, (cpu\<lparr>pc := pc cpu + scast e8\<rparr>, m))
              else (8, (cpu, m))),
   (0x30, \<lambda>(cpu, m).
            let (e8, (cpu, m)) = fetch8 (cpu, m)
              in if \<not> getC cpu
              then (12, (cpu\<lparr>pc := pc cpu + scast e8\<rparr>, m))
              else (8, (cpu, m))),
   (0x38, \<lambda>(cpu, m).
            let (e8, (cpu, m)) = fetch8 (cpu, m)
              in if getC cpu
              then (12, (cpu\<lparr>pc := pc cpu + scast e8\<rparr>, m))
              else (8, (cpu, m))),
   (0x27, \<lambda>(cpu, m). (4, (daa cpu, m))),
   (0x2F, \<lambda>(cpu, m).
            (4, (setH (setN (cpu\<lparr>reg_a := NOT (reg_a cpu)\<rparr>) True) True, m))),
   (0x37, \<lambda>(cpu, m). (4, (setC (setH (setN cpu False) False) True, m))),
   (0x3F, \<lambda>(cpu, m).
            let cpu = setH (setN cpu False) False
              in (4, (setC cpu (\<not> getC cpu), m))),
   (0x76, \<lambda>(cpu, m). (4, (cpu\<lparr>halted := True\<rparr>, m))),
   (0x40, \<lambda>(cpu, m). (4, (cpu\<lparr>reg_b := reg_b cpu\<rparr>, m))),
   (0x41, \<lambda>(cpu, m). (4, (cpu\<lparr>reg_b := reg_c cpu\<rparr>, m))),
   (0x42, \<lambda>(cpu, m). (4, (cpu\<lparr>reg_b := reg_d cpu\<rparr>, m))),
   (0x43, \<lambda>(cpu, m). (4, (cpu\<lparr>reg_b := reg_e cpu\<rparr>, m))),
   (0x44, \<lambda>(cpu, m). (4, (cpu\<lparr>reg_b := reg_h cpu\<rparr>, m))),
   (0x45, \<lambda>(cpu, m). (4, (cpu\<lparr>reg_b := reg_l cpu\<rparr>, m))),
   (0x46, \<lambda>(cpu, m). (8, (cpu\<lparr>reg_b := read8 m (hl cpu)\<rparr>, m))),
   (0x47, \<lambda>(cpu, m). (4, (cpu\<lparr>reg_b := reg_a cpu\<rparr>, m))),
   (0x48, \<lambda>(cpu, m). (4, (cpu\<lparr>reg_c := reg_b cpu\<rparr>, m))),
   (0x49, \<lambda>(cpu, m). (4, (cpu\<lparr>reg_c := reg_c cpu\<rparr>, m))),
   (0x4A, \<lambda>(cpu, m). (4, (cpu\<lparr>reg_c := reg_d cpu\<rparr>, m))),
   (0x4B, \<lambda>(cpu, m). (4, (cpu\<lparr>reg_c := reg_e cpu\<rparr>, m))),
   (0x4C, \<lambda>(cpu, m). (4, (cpu\<lparr>reg_c := reg_h cpu\<rparr>, m))),
   (0x4D, \<lambda>(cpu, m). (4, (cpu\<lparr>reg_c := reg_l cpu\<rparr>, m))),
   (0x4E, \<lambda>(cpu, m). (8, (cpu\<lparr>reg_c := read8 m (hl cpu)\<rparr>, m))),
   (0x4F, \<lambda>(cpu, m). (4, (cpu\<lparr>reg_c := reg_a cpu\<rparr>, m))),
   (0x50, \<lambda>(cpu, m). (4, (cpu\<lparr>reg_d := reg_b cpu\<rparr>, m))),
   (0x51, \<lambda>(cpu, m). (4, (cpu\<lparr>reg_d := reg_c cpu\<rparr>, m))),
   (0x52, \<lambda>(cpu, m). (4, (cpu\<lparr>reg_d := reg_d cpu\<rparr>, m))),
   (0x53, \<lambda>(cpu, m). (4, (cpu\<lparr>reg_d := reg_e cpu\<rparr>, m))),
   (0x54, \<lambda>(cpu, m). (4, (cpu\<lparr>reg_d := reg_h cpu\<rparr>, m))),
   (0x55, \<lambda>(cpu, m). (4, (cpu\<lparr>reg_d := reg_l cpu\<rparr>, m))),
   (0x56, \<lambda>(cpu, m). (8, (cpu\<lparr>reg_d := read8 m (hl cpu)\<rparr>, m))),
   (0x57, \<lambda>(cpu, m). (4, (cpu\<lparr>reg_d := reg_a cpu\<rparr>, m))),
   (0x58, \<lambda>(cpu, m). (4, (cpu\<lparr>reg_e := reg_b cpu\<rparr>, m))),
   (0x59, \<lambda>(cpu, m). (4, (cpu\<lparr>reg_e := reg_c cpu\<rparr>, m))),
   (0x5A, \<lambda>(cpu, m). (4, (cpu\<lparr>reg_e := reg_d cpu\<rparr>, m))),
   (0x5B, \<lambda>(cpu, m). (4, (cpu\<lparr>reg_e := reg_e cpu\<rparr>, m))),
   (0x5C, \<lambda>(cpu, m). (4, (cpu\<lparr>reg_e := reg_h cpu\<rparr>, m))),
   (0x5D, \<lambda>(cpu, m). (4, (cpu\<lparr>reg_e := reg_l cpu\<rparr>, m))),
   (0x5E, \<lambda>(cpu, m). (8, (cpu\<lparr>reg_e := read8 m (hl cpu)\<rparr>, m))),
   (0x5F, \<lambda>(cpu, m). (4, (cpu\<lparr>reg_e := reg_a cpu\<rparr>, m))),
   (0x60, \<lambda>(cpu, m). (4, (cpu\<lparr>reg_h := reg_b cpu\<rparr>, m))),
   (0x61, \<lambda>(cpu, m). (4, (cpu\<lparr>reg_h := reg_c cpu\<rparr>, m))),
   (0x62, \<lambda>(cpu, m). (4, (cpu\<lparr>reg_h := reg_d cpu\<rparr>, m))),
   (0x63, \<lambda>(cpu, m). (4, (cpu\<lparr>reg_h := reg_e cpu\<rparr>, m))),
   (0x64, \<lambda>(cpu, m). (4, (cpu\<lparr>reg_h := reg_h cpu\<rparr>, m))),
   (0x65, \<lambda>(cpu, m). (4, (cpu\<lparr>reg_h := reg_l cpu\<rparr>, m))),
   (0x66, \<lambda>(cpu, m). (8, (cpu\<lparr>reg_h := read8 m (hl cpu)\<rparr>, m))),
   (0x67, \<lambda>(cpu, m). (4, (cpu\<lparr>reg_h := reg_a cpu\<rparr>, m))),
   (0x68, \<lambda>(cpu, m). (4, (cpu\<lparr>reg_l := reg_b cpu\<rparr>, m))),
   (0x69, \<lambda>(cpu, m). (4, (cpu\<lparr>reg_l := reg_c cpu\<rparr>, m))),
   (0x6A, \<lambda>(cpu, m). (4, (cpu\<lparr>reg_l := reg_d cpu\<rparr>, m))),
   (0x6B, \<lambda>(cpu, m). (4, (cpu\<lparr>reg_l := reg_e cpu\<rparr>, m))),
   (0x6C, \<lambda>(cpu, m). (4, (cpu\<lparr>reg_l := reg_h cpu\<rparr>, m))),
   (0x6D, \<lambda>(cpu, m). (4, (cpu\<lparr>reg_l := reg_l cpu\<rparr>, m))),
   (0x6E, \<lambda>(cpu, m). (8, (cpu\<lparr>reg_l := read8 m (hl cpu)\<rparr>, m))),
   (0x6F, \<lambda>(cpu, m). (4, (cpu\<lparr>reg_l := reg_a cpu\<rparr>, m))),
   (0x70, \<lambda>(cpu, m). (8, (cpu, write8 m (hl cpu) (reg_b cpu)))),
   (0x71, \<lambda>(cpu, m). (8, (cpu, write8 m (hl cpu) (reg_c cpu)))),
   (0x72, \<lambda>(cpu, m). (8, (cpu, write8 m (hl cpu) (reg_d cpu)))),
   (0x73, \<lambda>(cpu, m). (8, (cpu, write8 m (hl cpu) (reg_e cpu)))),
   (0x74, \<lambda>(cpu, m). (8, (cpu, write8 m (hl cpu) (reg_h cpu)))),
   (0x75, \<lambda>(cpu, m). (8, (cpu, write8 m (hl cpu) (reg_l cpu)))),
   (0x77, \<lambda>(cpu, m). (8, (cpu, write8 m (hl cpu) (reg_a cpu)))),
   (0x78, \<lambda>(cpu, m). (4, (cpu\<lparr>reg_a := reg_b cpu\<rparr>, m))),
   (0x79, \<lambda>(cpu, m). (4, (cpu\<lparr>reg_a := reg_c cpu\<rparr>, m))),
   (0x7A, \<lambda>(cpu, m). (4, (cpu\<lparr>reg_a := reg_d cpu\<rparr>, m))),
   (0x7B, \<lambda>(cpu, m). (4, (cpu\<lparr>reg_a := reg_e cpu\<rparr>, m))),
   (0x7C, \<lambda>(cpu, m). (4, (cpu\<lparr>reg_a := reg_h cpu\<rparr>, m))),
   (0x7D, \<lambda>(cpu, m). (4, (cpu\<lparr>reg_a := reg_l cpu\<rparr>, m))),
   (0x7E, \<lambda>(cpu, m). (8, (cpu\<lparr>reg_a := read8 m (hl cpu)\<rparr>, m))),
   (0x7F, \<lambda>(cpu, m). (4, (cpu\<lparr>reg_a := reg_a cpu\<rparr>, m))),
   (0x80, \<lambda>(cpu, m). (4, (add8 cpu (reg_b cpu), m))),
   (0x81, \<lambda>(cpu, m). (4, (add8 cpu (reg_c cpu), m))),
   (0x82, \<lambda>(cpu, m). (4, (add8 cpu (reg_d cpu), m))),
   (0x83, \<lambda>(cpu, m). (4, (add8 cpu (reg_e cpu), m))),
   (0x84, \<lambda>(cpu, m). (4, (add8 cpu (reg_h cpu), m))),
   (0x85, \<lambda>(cpu, m). (4, (add8 cpu (reg_l cpu), m))),
   (0x86, \<lambda>(cpu, m). (8, (add8 cpu (read8 m (hl cpu)), m))),
   (0x87, \<lambda>(cpu, m). (4, (add8 cpu (reg_a cpu), m))),
   (0x88, \<lambda>(cpu, m). (4, (adc8 cpu (reg_b cpu), m))),
   (0x89, \<lambda>(cpu, m). (4, (adc8 cpu (reg_c cpu), m))),
   (0x8A, \<lambda>(cpu, m). (4, (adc8 cpu (reg_d cpu), m))),
   (0x8B, \<lambda>(cpu, m). (4, (adc8 cpu (reg_e cpu), m))),
   (0x8C, \<lambda>(cpu, m). (4, (adc8 cpu (reg_h cpu), m))),
   (0x8D, \<lambda>(cpu, m). (4, (adc8 cpu (reg_l cpu), m))),
   (0x8E, \<lambda>(cpu, m). (8, (adc8 cpu (read8 m (hl cpu)), m))),
   (0x8F, \<lambda>(cpu, m). (4, (adc8 cpu (reg_a cpu), m))),
   (0x90, \<lambda>(cpu, m). (4, (sub8 cpu (reg_b cpu), m))),
   (0x91, \<lambda>(cpu, m). (4, (sub8 cpu (reg_c cpu), m))),
   (0x92, \<lambda>(cpu, m). (4, (sub8 cpu (reg_d cpu), m))),
   (0x93, \<lambda>(cpu, m). (4, (sub8 cpu (reg_e cpu), m))),
   (0x94, \<lambda>(cpu, m). (4, (sub8 cpu (reg_h cpu), m))),
   (0x95, \<lambda>(cpu, m). (4, (sub8 cpu (reg_l cpu), m))),
   (0x96, \<lambda>(cpu, m). (8, (sub8 cpu (read8 m (hl cpu)), m))),
   (0x97, \<lambda>(cpu, m). (4, (sub8 cpu (reg_a cpu), m))),
   (0x98, \<lambda>(cpu, m). (4, (sbc8 cpu (reg_b cpu), m))),
   (0x99, \<lambda>(cpu, m). (4, (sbc8 cpu (reg_c cpu), m))),
   (0x9A, \<lambda>(cpu, m). (4, (sbc8 cpu (reg_d cpu), m))),
   (0x9B, \<lambda>(cpu, m). (4, (sbc8 cpu (reg_e cpu), m))),
   (0x9C, \<lambda>(cpu, m). (4, (sbc8 cpu (reg_h cpu), m))),
   (0x9D, \<lambda>(cpu, m). (4, (sbc8 cpu (reg_l cpu), m))),
   (0x9E, \<lambda>(cpu, m). (8, (sbc8 cpu (read8 m (hl cpu)), m))),
   (0x9F, \<lambda>(cpu, m). (4, (sbc8 cpu (reg_a cpu), m))),
   (0xA0, \<lambda>(cpu, m). (4, (and8 cpu (reg_b cpu), m))),
   (0xA1, \<lambda>(cpu, m). (4, (and8 cpu (reg_c cpu), m))),
   (0xA2, \<lambda>(cpu, m). (4, (and8 cpu (reg_d cpu), m))),
   (0xA3, \<lambda>(cpu, m). (4, (and8 cpu (reg_e cpu), m))),
   (0xA4, \<lambda>(cpu, m). (4, (and8 cpu (reg_h cpu), m))),
   (0xA5, \<lambda>(cpu, m). (4, (and8 cpu (reg_l cpu), m))),
   (0xA6, \<lambda>(cpu, m). (8, (and8 cpu (read8 m (hl cpu)), m))),
   (0xA7, \<lambda>(cpu, m). (4, (and8 cpu (reg_a cpu), m))),
   (0xA8, \<lambda>(cpu, m). (4, (xor8 cpu (reg_b cpu), m))),
   (0xA9, \<lambda>(cpu, m). (4, (xor8 cpu (reg_c cpu), m))),
   (0xAA, \<lambda>(cpu, m). (4, (xor8 cpu (reg_d cpu), m))),
   (0xAB, \<lambda>(cpu, m). (4, (xor8 cpu (reg_e cpu), m))),
   (0xAC, \<lambda>(cpu, m). (4, (xor8 cpu (reg_h cpu), m))),
   (0xAD, \<lambda>(cpu, m). (4, (xor8 cpu (reg_l cpu), m))),
   (0xAE, \<lambda>(cpu, m). (8, (xor8 cpu (read8 m (hl cpu)), m))),
   (0xAF, \<lambda>(cpu, m). (4, (xor8 cpu (reg_a cpu), m))),
   (0xB0, \<lambda>(cpu, m). (4, (or8 cpu (reg_b cpu), m))),
   (0xB1, \<lambda>(cpu, m). (4, (or8 cpu (reg_c cpu), m))),
   (0xB2, \<lambda>(cpu, m). (4, (or8 cpu (reg_d cpu), m))),
   (0xB3, \<lambda>(cpu, m). (4, (or8 cpu (reg_e cpu), m))),
   (0xB4, \<lambda>(cpu, m). (4, (or8 cpu (reg_h cpu), m))),
   (0xB5, \<lambda>(cpu, m). (4, (or8 cpu (reg_l cpu), m))),
   (0xB6, \<lambda>(cpu, m). (8, (or8 cpu (read8 m (hl cpu)), m))),
   (0xB7, \<lambda>(cpu, m). (4, (or8 cpu (reg_a cpu), m))),
   (0xB8, \<lambda>(cpu, m). (4, (cp8 cpu (reg_b cpu), m))),
   (0xB9, \<lambda>(cpu, m). (4, (cp8 cpu (reg_c cpu), m))),
   (0xBA, \<lambda>(cpu, m). (4, (cp8 cpu (reg_d cpu), m))),
   (0xBB, \<lambda>(cpu, m). (4, (cp8 cpu (reg_e cpu), m))),
   (0xBC, \<lambda>(cpu, m). (4, (cp8 cpu (reg_h cpu), m))),
   (0xBD, \<lambda>(cpu, m). (4, (cp8 cpu (reg_l cpu), m))),
   (0xBE, \<lambda>(cpu, m). (8, (cp8 cpu (read8 m (hl cpu)), m))),
   (0xBF, \<lambda>(cpu, m). (4, (cp8 cpu (reg_a cpu), m))),
   (0xC0, \<lambda>(cpu, m).
            if \<not> getZ cpu
              then (let (v, (cpu, m)) = pop16 (cpu, m) in (20, (cpu\<lparr>pc := v\<rparr>, m)))
              else (8, (cpu, m))),
   (0xC8, \<lambda>(cpu, m).
            if getZ cpu
              then (let (v, (cpu, m)) = pop16 (cpu, m) in (20, (cpu\<lparr>pc := v\<rparr>, m)))
              else (8, (cpu, m))),
   (0xD0, \<lambda>(cpu, m).
            if \<not> getC cpu
              then (let (v, (cpu, m)) = pop16 (cpu, m) in (20, (cpu\<lparr>pc := v\<rparr>, m)))
              else (8, (cpu, m))),
   (0xD8, \<lambda>(cpu, m).
            if getC cpu
              then (let (v, (cpu, m)) = pop16 (cpu, m) in (20, (cpu\<lparr>pc := v\<rparr>, m)))
              else (8, (cpu, m))),
   (0xC1, \<lambda>(cpu, m). let (v, (cpu, m)) = pop16 (cpu, m) in (12, (set_bc cpu v, m))),
   (0xD1, \<lambda>(cpu, m). let (v, (cpu, m)) = pop16 (cpu, m) in (12, (set_de cpu v, m))),
   (0xE1, \<lambda>(cpu, m). let (v, (cpu, m)) = pop16 (cpu, m) in (12, (set_hl cpu v, m))),
   (0xF1, \<lambda>(cpu, m).
            let (v, (cpu, m)) = pop16 (cpu, m)
              in (12, (set_af cpu (v AND 0xFFF0), m))),
   (0xC2, \<lambda>(cpu, m).
            let (addr, (cpu, m)) = fetch16 (cpu, m)
              in if \<not> getZ cpu
              then (16, (cpu\<lparr>pc := addr\<rparr>, m))
              else (12, (cpu, m))),
   (0xCA, \<lambda>(cpu, m).
            let (addr, (cpu, m)) = fetch16 (cpu, m)
              in if getZ cpu
              then (16, (cpu\<lparr>pc := addr\<rparr>, m))
              else (12, (cpu, m))),
   (0xD2, \<lambda>(cpu, m).
            let (addr, (cpu, m)) = fetch16 (cpu, m)
              in if \<not> getC cpu
              then (16, (cpu\<lparr>pc := addr\<rparr>, m))
              else (12, (cpu, m))),
   (0xDA, \<lambda>(cpu, m).
            let (addr, (cpu, m)) = fetch16 (cpu, m)
              in if getC cpu
              then (16, (cpu\<lparr>pc := addr\<rparr>, m))
              else (12, (cpu, m))),
   (0xC3, \<lambda>(cpu, m).
            let (v, (cpu, m)) = fetch16 (cpu, m)
              in (16, (cpu\<lparr>pc := v\<rparr>, m))),
   (0xC4, \<lambda>(cpu, m).
            let (addr, (cpu, m)) = fetch16 (cpu, m)
              in if \<not> getZ cpu
              then (let (cpu, m) = push16 (cpu, m) (pc cpu) in (24, (cpu\<lparr>pc := addr\<rparr>, m)))
              else (12, (cpu, m))),
   (0xCC, \<lambda>(cpu, m).
            let (addr, (cpu, m)) = fetch16 (cpu, m)
              in if getZ cpu
              then (let (cpu, m) = push16 (cpu, m) (pc cpu) in (24, (cpu\<lparr>pc := addr\<rparr>, m)))
              else (12, (cpu, m))),
   (0xD4, \<lambda>(cpu, m).
            let (addr, (cpu, m)) = fetch16 (cpu, m)
              in if \<not> getC cpu
              then (let (cpu, m) = push16 (cpu, m) (pc cpu) in (24, (cpu\<lparr>pc := addr\<rparr>, m)))
              else (12, (cpu, m))),
   (0xDC, \<lambda>(cpu, m).
            let (addr, (cpu, m)) = fetch16 (cpu, m)
              in if getC cpu
              then (let (cpu, m) = push16 (cpu, m) (pc cpu) in (24, (cpu\<lparr>pc := addr\<rparr>, m)))
              else (12, (cpu, m))),
   (0xC5, \<lambda>(cpu, m). (16, push16 (cpu, m) (bc cpu))),
   (0xD5, \<lambda>(cpu, m). (16, push16 (cpu, m) (de cpu))),
   (0xE5, \<lambda>(cpu, m). (16, push16 (cpu, m) (hl cpu))),
   (0xF5, \<lambda>(cpu, m). (16, push16 (cpu, m) (af cpu))),
   (0xC6, \<lambda>(cpu, m). let (v, (cpu, m)) = fetch8 (cpu, m) in (8, (add8 cpu v, m))),
   (0xCE, \<lambda>(cpu, m). let (v, (cpu, m)) = fetch8 (cpu, m) in (8, (adc8 cpu v, m))),
   (0xD6, \<lambda>(cpu, m). let (v, (cpu, m)) = fetch8 (cpu, m) in (8, (sub8 cpu v, m))),
   (0xDE, \<lambda>(cpu, m). let (v, (cpu, m)) = fetch8 (cpu, m) in (8, (sbc8 cpu v, m))),
   (0xE6, \<lambda>(cpu, m). let (v, (cpu, m)) = fetch8 (cpu, m) in (8, (and8 cpu v, m))),
   (0xEE, \<lambda>(cpu, m). let (v, (cpu, m)) = fetch8 (cpu, m) in (8, (xor8 cpu v, m))),
   (0xF6, \<lambda>(cpu, m). let (v, (cpu, m)) = fetch8 (cpu, m) in (8, (or8 cpu v, m))),
   (0xFE, \<lambda>(cpu, m). let (v, (cpu, m)) = fetch8 (cpu, m) in (8, (cp8 cpu v, m))),
   (0xC7, \<lambda>(cpu, m).
            let (cpu, m) = push16 (cpu, m) (pc cpu)
              in (16, (cpu\<lparr>pc := 0x00\<rparr>, m))),
   (0xCF, \<lambda>(cpu, m).
            let (cpu, m) = push16 (cpu, m) (pc cpu)
              in (16, (cpu\<lparr>pc := 0x08\<rparr>, m))),
   (0xD7, \<lambda>(cpu, m).
            let (cpu, m) = push16 (cpu, m) (pc cpu)
              in (16, (cpu\<lparr>pc := 0x10\<rparr>, m))),
   (0xDF, \<lambda>(cpu, m).
            let (cpu, m) = push16 (cpu, m) (pc cpu)
              in (16, (cpu\<lparr>pc := 0x18\<rparr>, m))),
   (0xE7, \<lambda>(cpu, m).
            let (cpu, m) = push16 (cpu, m) (pc cpu)
              in (16, (cpu\<lparr>pc := 0x20\<rparr>, m))),
   (0xEF, \<lambda>(cpu, m).
            let (cpu, m) = push16 (cpu, m) (pc cpu)
              in (16, (cpu\<lparr>pc := 0x28\<rparr>, m))),
   (0xF7, \<lambda>(cpu, m).
            let (cpu, m) = push16 (cpu, m) (pc cpu)
              in (16, (cpu\<lparr>pc := 0x30\<rparr>, m))),
   (0xFF, \<lambda>(cpu, m).
            let (cpu, m) = push16 (cpu, m) (pc cpu)
              in (16, (cpu\<lparr>pc := 0x38\<rparr>, m))),
   (0xC9, \<lambda>(cpu, m).
            let (v, (cpu, m)) = pop16 (cpu, m)
              in (16, (cpu\<lparr>pc := v\<rparr>, m))),
   (0xD9, \<lambda>(cpu, m).
            let (v, (cpu, m)) = pop16 (cpu, m)
              in (16, (cpu\<lparr>pc := v, ime := True\<rparr>, m))),
   (0xCD, \<lambda>(cpu, m).
            let (addr, (cpu, m)) = fetch16 (cpu, m); (cpu, m) = push16 (cpu, m) (pc cpu)
              in (24, (cpu\<lparr>pc := addr\<rparr>, m))),
   (0xCB, \<lambda>(cpu, m). let (n, s) = executeCB (cpu, m) in (n + 4, s)),
   (0xE0, \<lambda>(cpu, m).
            let (v, (cpu, m)) = fetch8 (cpu, m)
              in (12, (cpu, write8 m (0xFF00 + ucast v) (reg_a cpu)))),
   (0xF0, \<lambda>(cpu, m).
            let (v, (cpu, m)) = fetch8 (cpu, m)
              in (12, (cpu\<lparr>reg_a := read8 m (0xFF00 + ucast v)\<rparr>, m))),
   (0xE2, \<lambda>(cpu, m). (8, (cpu, write8 m (0xFF00 + ucast (reg_c cpu)) (reg_a cpu)))),
   (0xF2, \<lambda>(cpu, m).
            (8, (cpu\<lparr>reg_a := read8 m (0xFF00 + ucast (reg_c cpu))\<rparr>, m))),
   (0xEA, \<lambda>(cpu, m).
            let (addr, (cpu, m)) = fetch16 (cpu, m)
              in (16, (cpu, write8 m addr (reg_a cpu)))),
   (0xFA, \<lambda>(cpu, m).
            let (addr, (cpu, m)) = fetch16 (cpu, m)
              in (16, (cpu\<lparr>reg_a := read8 m addr\<rparr>, m))),
   (0xE9, \<lambda>(cpu, m). (4, (cpu\<lparr>pc := hl cpu\<rparr>, m))),
   (0xF9, \<lambda>(cpu, m). (8, (cpu\<lparr>sp := hl cpu\<rparr>, m))),
   (0xE8, \<lambda>(cpu, m). let (v, (cpu, m)) = fetch8 (cpu, m) in (16, (addSP cpu v, m))),
   (0xF8, \<lambda>(cpu, m). let (e8, (cpu, m)) = fetch8 (cpu, m) in (12, (ld_hl_sp cpu e8, m))),
   (0xF3, \<lambda>(cpu, m). (4, (cpu\<lparr>ime := False\<rparr>, m))),
   (0xFB, \<lambda>(cpu, m). (4, (cpu\<lparr>imeScheduled := True\<rparr>, m))),
   (0x10, \<lambda>(cpu, m).
            let cpu = cpu\<lparr>stopped := True\<rparr>; (v, (cpu, m)) = fetch8 (cpu, m)
              in (4, (cpu, m)))
   ]"

text \<open>An opcode without a \<open>case\<close> falls to \<open>default: return 4\<close>.\<close>

definition execute :: "u8 \<Rightarrow> sys \<Rightarrow> int \<times> sys" where
  "execute opcode s = (case map_of opcode_table opcode of Some f \<Rightarrow> f s | None \<Rightarrow> (4, s))"

definition CPU_step :: "sys \<Rightarrow> int \<times> sys" where
  "CPU_step s =
     (let (cpu, m) = s;
          cpu = (if imeScheduled cpu then cpu\<lparr>ime := True, imeScheduled := False\<rparr> else cpu);
          (intCycles, (cpu, m)) = handleInterrupts (cpu, m)
      in if intCycles > 0 then (intCycles, (cpu, m))
         else if halted cpu then (4, (cpu, m))
         else (let (opcode, s) = fetch8 (cpu, m) in execute opcode s))"

section \<open>Well-formed bus states\<close>

text \<open>
  The constructor gives the five fixed regions their sizes and nothing resizes them; the
  APU's register file and wave RAM are arrays of 0x30 and 16 bytes.
\<close>

definition sizes_ok :: "Memory \<Rightarrow> bool" where
  "sizes_ok m =
     (length (vram m) = 0x2000 \<and> length (wram m) = 0x2000 \<and> length (oam m) = 0xA0
      \<and> length (io m) = 0x80 \<and> length (hram m) = 0x7F
      \<and> (case apu m of None \<Rightarrow> True
          | Some ap \<Rightarrow> length (registers ap) = 0x30 \<and> length (waveRam ap) = 16))"

text \<open>
  The addresses at which the decoder stores the byte and reads it back: VRAM, work RAM and
  its echo, OAM, high RAM and IE; external RAM while it is enabled and the banked offset lies
  inside it; and the I/O registers other than JOYP, DIV, STAT and LY and, with an APU
  attached, other than NR52 and the unused 0xFF27..0xFF2F.
\<close>

definition reads_back :: "Memory \<Rightarrow> u16 \<Rightarrow> bool" where
  "reads_back m addr =
     ((0x8000 \<le> addr \<and> addr < 0xA000)
      \<or> (0xC000 \<le> addr \<and> addr < 0xFEA0)
      \<or> 0xFF80 \<le> addr
      \<or> (0xA000 \<le> addr \<and> addr < 0xC000 \<and> ramEnabled m
          \<and> (ramBank m * 0x2000 + (uint addr - 0xA000)) mod 2 ^ 64 < int (length (extRam m)))
      \<or> (0xFF00 \<le> addr \<and> addr < 0xFF80
          \<and> addr \<noteq> 0xFF00 \<and> addr \<noteq> 0xFF04 \<and> addr \<noteq> 0xFF41 \<and> addr \<noteq> 0xFF44
          \<and> (apu m = None \<or> addr < 0xFF26 \<or> 0xFF2F < addr)))"

text \<open>
  The addresses outside ROM and the I/O page at which the decoder drops the byte: the unusable
  block 0xFEA0..0xFEFF, and external RAM while it is disabled or the banked offset lies
  outside it (an absent external RAM has no offset inside it).
\<close>

definition write_dropped :: "Memory \<Rightarrow> u16 \<Rightarrow> bool" where
  "write_dropped m addr =
     ((0xFEA0 \<le> addr \<and> addr < 0xFF00)
      \<or> (0xA000 \<le> addr \<and> addr < 0xC000
          \<and> \<not> (ramEnabled m
                 \<and> (ramBank m * 0x2000 + (uint addr - 0xA000)) mod 2 ^ 64 < int (length (extRam m)))))"

text \<open>
  The addresses a stack normally lives at: work RAM, its echo and high RAM.
\<close>

definition stack_ram :: "u16 \<Rightarrow> bool" where
  "stack_ram a = ((0xC000 \<le> a \<and> a < 0xFE00) \<or> (0xFF80 \<le> a \<and> a < 0xFFFF))"

section \<open>A programme that enables interrupts\<close>

text \<open>
  The emulator as \<open>GameBoy::init\<close> leaves it, after the programme has written 0x01 to IE
  (VBlank enabled; IF holds 0xE1 from the constructor, VBlank requested), has placed \<open>EI\<close>
  (0xFB) at 0xC000 and \<open>NOP\<close> (0x00) at 0xC001 in work RAM, and has jumped to 0xC000. IME
  is still off as \<open>CPU::reset\<close> left it.
\<close>

definition ei_cpu :: CPU where
  "ei_cpu = CPU_reset\<lparr>pc := 0xC000\<rparr>"

definition ei_bus :: Memory where
  "ei_bus =
     Memory_write (Memory_write (Memory_write GameBoy_init 0xFFFF 0x01) 0xC000 0xFB) 0xC001 0x00"

section \<open>PPU reachability\<close>

text \<open>
  What has happened to the PPU since \<open>reset\<close>, as far as the register invariants depend on
  it: whether \<open>setMode\<close> has run; whether LY has been written during the VBlank in
  progress; and whether \<open>checkLYC\<close> has run with LY and LYC unchanged since.
\<close>

record history =
  modeSet :: bool
  lyWritten :: bool
  lycCompared :: bool

text \<open>
  The PPU states that arise from \<open>p0\<close>, each with its history: by \<open>PPU::step\<close> with any
  cycle count on any bus contents (the programme may have written any I/O register in
  between), by the three register writes the bus forwards to the PPU, by
  \<open>clearFrameReady\<close>, which the run loop calls after a frame, and by the public \<open>reset\<close>,
  which starts the history afresh. \<open>step\<close> calls \<open>setMode\<close>
  exactly when it changes the mode and \<open>checkLYC\<close> exactly when it changes LY; \<open>writeLCDC\<close>
  calls \<open>setMode\<close> and zeroes LY when it switches the LCD off.
\<close>

inductive ppu_reach :: "PPU \<Rightarrow> history \<Rightarrow> PPU \<Rightarrow> bool" for p0 :: PPU where
  start: "ppu_reach p0 \<lparr>modeSet = False, lyWritten = False, lycCompared = False\<rparr> p0"
| by_step:
    "ppu_reach p0 h p \<Longrightarrow> p' = fst (PPU_step (p, m) cycles) \<Longrightarrow>
     ppu_reach p0
       \<lparr>modeSet = (modeSet h \<or> mode p' \<noteq> mode p),
        lyWritten = (lyWritten h \<and> mode p' = 1),
        lycCompared = (ly p' \<noteq> ly p \<or> (lycCompared h \<and> lyc p' = lyc p))\<rparr> p'"
| by_writeLCDC:
    "ppu_reach p0 h p \<Longrightarrow> p' = fst (writeLCDC (p, m) val) \<Longrightarrow>
     ppu_reach p0
       \<lparr>modeSet = (modeSet h \<or> (lcdc p AND 0x80 \<noteq> 0 \<and> val AND 0x80 = 0)),
        lyWritten = (lyWritten h \<and> mode p' = 1),
        lycCompared = (lycCompared h \<and> ly p' = ly p)\<rparr> p'"
| by_writeSTAT: "ppu_reach p0 h p \<Longrightarrow> ppu_reach p0 h (writeSTAT p val)"
| by_writeLY:
    "ppu_reach p0 h p \<Longrightarrow>
     ppu_reach p0
       \<lparr>modeSet = modeSet h,
        lyWritten = (lyWritten h \<or> mode p = 1),
        lycCompared = (lycCompared h \<and> ly p = 0)\<rparr> (writeLY p val)"
| by_clearFrameReady: "ppu_reach p0 h p \<Longrightarrow> ppu_reach p0 h (clearFrameReady p)"
| by_reset:
    "ppu_reach p0 h p \<Longrightarrow>
     ppu_reach p0 \<lparr>modeSet = False, lyWritten = False, lycCompared = False\<rparr> PPU_reset"

text \<open>
  One scanline driven with exactly the clocks of its three modes: \<open>step(80)\<close>,
  \<open>step(172)\<close>, \<open>step(204)\<close>. During VBlank a line is a single \<open>step(456)\<close>.
\<close>

definition ppu_line :: "PPU \<times> Memory \<Rightarrow> PPU \<times> Memory" where
  "ppu_line pm = PPU_step (PPU_step (PPU_step pm 80) 172) 204"

text \<open>
  The same three steps with the I/O registers as they stand on the bus \<open>m\<close>, and a bus on
  which the programme has set LYC to 1.
\<close>

definition ppu_line_on :: "Memory \<Rightarrow> PPU \<Rightarrow> PPU" where
  "ppu_line_on m p =
     fst (PPU_step (fst (PPU_step (fst (PPU_step (p, m) 80), m) 172), m) 204)"

definition lyc_bus :: Memory where
  "lyc_bus = Memory_write Memory_init 0xFF45 0x01"

text \<open>
  What \<open>PPU::step\<close> copies from the I/O register file into the PPU on entry.
\<close>

definition io_regs :: "PPU \<Rightarrow> Memory \<Rightarrow> PPU" where
  "io_regs p m = p\<lparr>scy := readIO m 0x42, scx := readIO m 0x43, lyc := readIO m 0x45,
                bgp := readIO m 0x47, obp0 := readIO m 0x48, obp1 := readIO m 0x49,
                wy := readIO m 0x4A, wx := readIO m 0x4B, lcdc := readIO m 0x40\<rparr>"

text \<open>
  The bounds that hold in every reachable state: LY is at most 153, LY at or above 144 means
  VBlank, and the mode is one of the four.
\<close>

definition ppu_inv :: "PPU \<Rightarrow> bool" where
  "ppu_inv p = (unat (ly p) \<le> 153 \<and> (unat (ly p) < 144 \<or> mode p = 1)
                \<and> (mode p = 0 \<or> mode p = 1 \<or> mode p = 2 \<or> mode p = 3))"

text \<open>STAT's low two bits hold the mode.\<close>

definition stat_mode :: "PPU \<Rightarrow> bool" where
  "stat_mode p = (stat p AND 0x03 = word_of_int (mode p))"

text \<open>
  The invariant of a state together with its history: the bounds; VBlank has LY at or above
  144 unless LY was written during it; STAT's low bits hold the mode once \<open>setMode\<close> has
  run, and before that the state is still that of \<open>reset\<close> in them; STAT bit 2 tells
  whether LY equals LYC as long as neither has changed since \<open>checkLYC\<close>.
\<close>

definition ppu_hist_inv :: "history \<Rightarrow> PPU \<Rightarrow> bool" where
  "ppu_hist_inv h p =
     (ppu_inv p
      \<and> (lyWritten h \<longrightarrow> mode p = 1)
      \<and> (mode p = 1 \<and> \<not> lyWritten h \<longrightarrow> 144 \<le> unat (ly p))
      \<and> (modeSet h \<longrightarrow> stat_mode p)
      \<and> (\<not> modeSet h \<longrightarrow> stat p AND 0x03 = 0 \<and> mode p = 2)
      \<and> (lycCompared h \<longrightarrow> (bit (stat p) 2 \<longleftrightarrow> ly p = lyc p)))"

text \<open>
  A bus whose LCD registers hold the values the constructor gave them (LCD on, no window,
  LYC = 0), as the reset-state PPU expects.
\<close>

definition lcd_regs_reset :: "Memory \<Rightarrow> bool" where
  "lcd_regs_reset m =
     (length (io m) = 0x80 \<and> io m ! 0x40 = 0x91 \<and> io m ! 0x42 = 0 \<and> io m ! 0x43 = 0
      \<and> io m ! 0x45 = 0 \<and> io m ! 0x47 = 0xFC \<and> io m ! 0x48 = 0xFF \<and> io m ! 0x49 = 0xFF
      \<and> io m ! 0x4A = 0 \<and> io m ! 0x4B = 0)"

(*PROPERTIES*)
section \<open>Properties\<close>

subsection \<open>Word and index facts\<close>

lemma lt8_cases:
  "n < LENGTH(8) \<Longrightarrow> n \<in> {0, 1, 2, 3, 4, 5, 6, 7}"
  by simp arith

lemma nat_cases_16_37:
  "16 \<le> (n::nat) \<Longrightarrow> n \<le> 37 \<Longrightarrow> n \<in> set [16 ..< 38]"
  unfolding set_upt by simp

lemma reg_cases:
  fixes reg :: u8
  assumes "0x10 \<le> reg" "reg \<le> 0x25"
  shows "reg = 0x10 \<or> reg = 0x11 \<or> reg = 0x12 \<or> reg = 0x13 \<or> reg = 0x14 \<or> reg = 0x15
       \<or> reg = 0x16 \<or> reg = 0x17 \<or> reg = 0x18 \<or> reg = 0x19 \<or> reg = 0x1A \<or> reg = 0x1B
       \<or> reg = 0x1C \<or> reg = 0x1D \<or> reg = 0x1E \<or> reg = 0x1F \<or> reg = 0x20 \<or> reg = 0x21
       \<or> reg = 0x22 \<or> reg = 0x23 \<or> reg = 0x24 \<or> reg = 0x25"
proof -
  have "16 \<le> unat reg" "unat reg \<le> 37" using assms by (simp_all add: word_le_nat_alt)
  then have "unat reg \<in> set [16 ..< 38]" by (rule nat_cases_16_37)
  then have "word_of_nat (unat reg) \<in> (word_of_nat ` set [16 ..< 38] :: u8 set)" by (rule imageI)
  then have "reg \<in> set (map of_nat [16 ..< 38])" by (simp only: set_map of_nat_unat ucast_id)
  then show ?thesis by (simp add: upt_rec)
qed

lemma io_reg_unat:
  fixes addr :: u16
  assumes "0xFF00 \<le> addr" "addr < 0xFF80"
  shows "unat (ucast (addr - 0xFF00) :: u8) = unat addr - 0xFF00"
  using assms
  by (simp add: unsigned_ucast_eq take_bit_eq_mod unat_sub word_less_nat_alt word_le_nat_alt)

subsection \<open>APU register writes\<close>

lemma trigger_registers:
  "registers (triggerChannel1 ap) = registers ap" "registers (triggerChannel2 ap) = registers ap"
  "registers (triggerChannel3 ap) = registers ap" "registers (triggerChannel4 ap) = registers ap"
  by (simp_all add: triggerChannel1_def triggerChannel2_def triggerChannel3_def
      triggerChannel4_def Let_def)

lemma trigger_masterEnable_update:
  "triggerChannel1 (ap\<lparr>masterEnable := b\<rparr>) = (triggerChannel1 ap)\<lparr>masterEnable := b\<rparr>"
  "triggerChannel2 (ap\<lparr>masterEnable := b\<rparr>) = (triggerChannel2 ap)\<lparr>masterEnable := b\<rparr>"
  "triggerChannel3 (ap\<lparr>masterEnable := b\<rparr>) = (triggerChannel3 ap)\<lparr>masterEnable := b\<rparr>"
  "triggerChannel4 (ap\<lparr>masterEnable := b\<rparr>) = (triggerChannel4 ap)\<lparr>masterEnable := b\<rparr>"
  by (simp_all add: triggerChannel1_def triggerChannel2_def triggerChannel3_def
      triggerChannel4_def Let_def)

lemma writeRegister_registers:
  assumes "0x10 \<le> reg" "reg \<le> 0x25"
  shows "registers (writeRegister ap reg val) = (registers ap)[unat (reg - 0x10) := val]"
  using reg_cases [OF assms]
  by (elim disjE; simp add: writeRegister_def Let_def trigger_registers)

lemma writeRegister_ignores_masterEnable:
  assumes "0x10 \<le> reg" "reg \<le> 0x25"
  shows "writeRegister (ap\<lparr>masterEnable := b\<rparr>) reg val =
         (writeRegister ap reg val)\<lparr>masterEnable := b\<rparr>"
  using reg_cases [OF assms]
  apply (elim disjE)
  apply (simp_all add: writeRegister_def Let_def trigger_masterEnable_update [symmetric])
  apply (rule impI, rule arg_cong [where f = triggerChannel1], simp)
  apply (rule impI, rule arg_cong [where f = triggerChannel2], simp)
  apply (rule impI, rule arg_cong [where f = triggerChannel3], simp)
  apply (rule impI, rule arg_cong [where f = triggerChannel4], simp)
  done

lemma readRegister_after_write:
  assumes "0x10 \<le> reg" "reg \<le> 0x25" "length (registers ap) = 0x30"
  shows "readRegister (writeRegister ap reg val) reg = val"
proof -
  have i: "unat (reg - 0x10) < 0x30" "(0x30 \<le> reg \<and> reg \<le> 0x3F) = False"
    "(reg < 0x10 \<or> reg > 0x26) = False" "reg \<noteq> 0x26"
    using assms(1,2) by unat_arith+
  show ?thesis
    using assms(3) i(1)
    by (simp add: readRegister_def i writeRegister_registers [OF assms(1,2)])
qed

lemma waveRam_after_write:
  assumes "0x30 \<le> reg" "reg \<le> 0x3F" "length (waveRam ap) = 16"
  shows "readRegister (writeRegister ap reg val) reg = val"
    and "waveRam (writeRegister ap reg val) = (waveRam ap)[unat (reg - 0x30) := val]"
proof -
  have i: "unat (reg - 0x30) < 16" using assms(1,2) by unat_arith
  show "readRegister (writeRegister ap reg val) reg = val"
    using assms i by (simp add: readRegister_def writeRegister_def)
  show "waveRam (writeRegister ap reg val) = (waveRam ap)[unat (reg - 0x30) := val]"
    using assms by (simp add: writeRegister_def)
qed

text \<open>
  C7 (as amended). \<open>writeRegister\<close> never looks at \<open>masterEnable\<close>: a write to NR10..NR25
  made while the master switch is off does what the same write does while it is on. The
  byte goes into the register file, where \<open>readRegister\<close> finds it, the channel fields are
  updated, and \<open>masterEnable\<close> stays off. A wave-RAM write stores its byte as well.
\<close>

theorem apu_write_with_master_off:
  "(0x10 \<le> reg \<and> reg \<le> 0x25 \<longrightarrow>
      writeRegister (ap\<lparr>masterEnable := False\<rparr>) reg val
        = (writeRegister ap reg val)\<lparr>masterEnable := False\<rparr>
      \<and> registers (writeRegister (ap\<lparr>masterEnable := False\<rparr>) reg val)
        = (registers ap)[unat (reg - 0x10) := val]
      \<and> (length (registers ap) = 0x30 \<longrightarrow>
           readRegister (writeRegister (ap\<lparr>masterEnable := False\<rparr>) reg val) reg = val))
   \<and> (0x30 \<le> reg \<and> reg \<le> 0x3F \<longrightarrow>
        waveRam (writeRegister (ap\<lparr>masterEnable := False\<rparr>) reg val)
          = (waveRam ap)[unat (reg - 0x30) := val])"
proof (intro conjI impI)
  assume r: "0x10 \<le> reg \<and> reg \<le> 0x25"
  show "writeRegister (ap\<lparr>masterEnable := False\<rparr>) reg val
        = (writeRegister ap reg val)\<lparr>masterEnable := False\<rparr>"
    using r by (simp add: writeRegister_ignores_masterEnable)
  show "registers (writeRegister (ap\<lparr>masterEnable := False\<rparr>) reg val)
        = (registers ap)[unat (reg - 0x10) := val]"
    using r by (simp add: writeRegister_registers)
  show "readRegister (writeRegister (ap\<lparr>masterEnable := False\<rparr>) reg val) reg = val"
    if "length (registers ap) = 0x30"
    using r that by (simp add: readRegister_after_write)
next
  assume "0x30 \<le> reg \<and> reg \<le> 0x3F"
  then show "waveRam (writeRegister (ap\<lparr>masterEnable := False\<rparr>) reg val)
          = (waveRam ap)[unat (reg - 0x30) := val]"
    by (simp add: writeRegister_def)
qed

theorem apu_write_with_master_off_witness:
  "writeRegister (APU_reset\<lparr>masterEnable := False\<rparr>) 0x24 0x12
     = (writeRegister APU_reset 0x24 0x12)\<lparr>masterEnable := False\<rparr>
   \<and> registers (writeRegister (APU_reset\<lparr>masterEnable := False\<rparr>) 0x24 0x12)
     = (registers APU_reset)[unat (0x24 - 0x10 :: u8) := 0x12]
   \<and> readRegister (writeRegister (APU_reset\<lparr>masterEnable := False\<rparr>) 0x24 0x12) 0x24 = 0x12
   \<and> waveRam (writeRegister (APU_reset\<lparr>masterEnable := False\<rparr>) 0x30 0x12)
     = (waveRam APU_reset)[unat (0x30 - 0x30 :: u8) := 0x12]"
proof -
  have len: "length (registers APU_reset) = 0x30" by (simp add: APU_reset_def)
  have r: "(0x10::u8) \<le> 0x24 \<and> (0x24::u8) \<le> 0x25" by simp
  have w: "(0x30::u8) \<le> 0x30 \<and> (0x30::u8) \<le> 0x3F" by simp
  show ?thesis
    using apu_write_with_master_off [of "0x24" APU_reset "0x12"]
      apu_write_with_master_off [of "0x30" APU_reset "0x12"] len r w
    by blast
qed

text \<open>
  The claim as stated fails: with the master switch off (NR52 written with bit 7 clear), a
  write of 0x12 to NR50 changes the master volume from 0x77 to 0x12.
\<close>

theorem apu_write_with_master_off_counterexample:
  "masterEnable (writeRegister APU_reset 0x26 0x00) = False
   \<and> masterVolume (writeRegister APU_reset 0x26 0x00) = 0x77
   \<and> masterVolume (writeRegister (writeRegister APU_reset 0x26 0x00) 0x24 0x12) = 0x12"
  by (simp add: writeRegister_def APU_reset_def Let_def)

subsection \<open>Joypad register\<close>

lemma joy_select:
  fixes v x :: u8
  shows "(((v AND 0x30) OR (x AND 0xCF)) AND 0x30) AND 0x20 = v AND 0x20"
    and "(((v AND 0x30) OR (x AND 0xCF)) AND 0x30) AND 0x10 = v AND 0x10"
  by (rule bit_word_eqI, drule lt8_cases, auto simp: bit_simps)+

lemma joy_nybble:
  fixes x y :: u8
  shows "((0xC0 OR (y AND 0x0F)) AND 0xF0) OR (x AND 0x0F) = 0xC0 OR (x AND 0x0F)"
    and "(0xC0 OR (x AND 0x0F)) AND 0xC0 = 0xC0"
    and "(0xC0 OR (x AND 0x0F)) AND 0x30 = 0"
    and "(0xC0 OR (x AND 0x0F)) AND 0x0F = x AND 0x0F"
  by (rule bit_word_eqI, drule lt8_cases, auto simp: bit_simps)+

lemma readJoypad_after_select:
  assumes "io m \<noteq> []"
  shows "Memory_read (Memory_write m 0xFF00 v) 0xFF00 =
           (if v AND 0x10 = 0 then 0xC0 OR (joypadDpad m AND 0x0F)
            else if v AND 0x20 = 0 then 0xC0 OR (joypadButtons m AND 0x0F)
            else 0xCF)"
proof -
  have len: "0 < length (io m)" using assms by simp
  show ?thesis
    using len
    by (simp add: Memory_read_def Memory_write_def readJoypad_def Let_def joy_select joy_nybble)
qed

text \<open>
  C3 (as amended). After the programme writes \<open>v\<close> to 0xFF00, a read of 0xFF00 returns a
  byte whose upper two bits are 1 and whose bits 4-5 are 0 whatever was written. Its lower
  nybble is the d-pad nybble whenever row 0 is selected (bit 4 of \<open>v\<close> low), also when row 1
  is selected with it; the buttons nybble when only row 1 is selected (bit 5 low, bit 4
  high); and 0xF when no row is selected.
\<close>

theorem joypad_read_value:
  assumes "io m \<noteq> []"
  shows "Memory_read (Memory_write (setJoypadState m buttons dpad) 0xFF00 v) 0xFF00 AND 0xC0 = 0xC0
       \<and> Memory_read (Memory_write (setJoypadState m buttons dpad) 0xFF00 v) 0xFF00 AND 0x30 = 0
       \<and> Memory_read (Memory_write (setJoypadState m buttons dpad) 0xFF00 v) 0xFF00 AND 0x0F =
            (if v AND 0x10 = 0 then dpad AND 0x0F
             else if v AND 0x20 = 0 then buttons AND 0x0F
             else 0x0F)"
proof -
  have nonempty: "io (setJoypadState m buttons dpad) \<noteq> []"
    using assms by (simp add: setJoypadState_def)
  show ?thesis
    unfolding readJoypad_after_select [OF nonempty]
    by (simp add: joy_nybble setJoypadState_def)
qed

theorem joypad_read_value_witness:
  "Memory_read (Memory_write (setJoypadState Memory_init 0xFE 0xFD) 0xFF00 0x20) 0xFF00 AND 0xC0 = 0xC0
   \<and> Memory_read (Memory_write (setJoypadState Memory_init 0xFE 0xFD) 0xFF00 0x20) 0xFF00 AND 0x30 = 0
   \<and> Memory_read (Memory_write (setJoypadState Memory_init 0xFE 0xFD) 0xFF00 0x20) 0xFF00 AND 0x0F = 0x0D"
proof -
  have "io Memory_init \<noteq> []" by (simp add: Memory_init_def)
  from joypad_read_value [OF this, of "0xFE" "0xFD" "0x20"] show ?thesis by simp
qed

text \<open>
  The claim as stated fails twice. After 0x10 is written (bit 4 set, row 1 selected) the
  byte read has bits 4-5 clear, not 0x10. And with both rows selected, A pressed
  (buttons nybble 0xE) and no direction pressed (d-pad nybble 0xF), the lower nybble read
  is the d-pad's 0xF, not the AND of the two, 0xE.
\<close>

theorem joypad_read_value_counterexample:
  "Memory_read (Memory_write (setJoypadState Memory_init 0xFE 0xFF) 0xFF00 0x10) 0xFF00 AND 0x30 \<noteq> 0x10
   \<and> Memory_read (Memory_write (setJoypadState Memory_init 0xFE 0xFF) 0xFF00 0x00) 0xFF00 AND 0x0F
        \<noteq> (0xFE AND 0x0F) AND (0xFF AND 0x0F)"
  by (simp add: Memory_read_def Memory_write_def readJoypad_def setJoypadState_def Memory_init_def)

subsection \<open>MBC3 bank register\<close>

text \<open>
  C10. On an MBC3 cartridge a write to 0x4000..0x5FFF whose value is 0x04..0x07 or above
  0x0C leaves the RAM bank, the RTC flag and the selected RTC register as they were; the
  write changes nothing in the bus state at all.
\<close>

theorem mbc3_unmapped_bank_write_no_effect:
  assumes "mbcType m = 3" and "0x4000 \<le> addr" and "addr < 0x6000"
    and "(0x04 \<le> val \<and> val \<le> 0x07) \<or> val > 0x0C"
  shows "ramBank (Memory_write m addr val) = ramBank m
       \<and> rtcEnabled (Memory_write m addr val) = rtcEnabled m
       \<and> rtcRegister (Memory_write m addr val) = rtcRegister m
       \<and> handleMBCWrite m addr val = m
       \<and> Memory_write m addr val = m"
proof -
  have a: "addr < 0x8000" "\<not> addr < 0x2000" "\<not> addr < 0x4000"
    using assms(2,3) by unat_arith+
  have v: "\<not> val \<le> 0x03" "\<not> (val \<ge> 0x08 \<and> val \<le> 0x0C)"
    using assms(4) by unat_arith+
  have "handleMBCWrite m addr val = m"
    using assms(1,3) a v by (auto simp add: handleMBCWrite_def)
  then show ?thesis using a by (simp add: Memory_write_def)
qed

theorem mbc3_unmapped_bank_write_no_effect_witness:
  "ramBank (Memory_write (Memory_init\<lparr>mbcType := 3\<rparr>) 0x4000 0x05) = 0
   \<and> rtcEnabled (Memory_write (Memory_init\<lparr>mbcType := 3\<rparr>) 0x4000 0x05) = False
   \<and> rtcRegister (Memory_write (Memory_init\<lparr>mbcType := 3\<rparr>) 0x4000 0x05) = 0"
  using mbc3_unmapped_bank_write_no_effect [of "Memory_init\<lparr>mbcType := 3\<rparr>" "0x4000" "0x05"]
  by (simp add: Memory_init_def)

subsection \<open>Cartridge load\<close>







subsection \<open>Reading back what was written\<close>

lemma rw_vram:
  assumes "length (vram m) = 0x2000" "0x8000 \<le> addr" "addr < 0xA000"
  shows "Memory_read (Memory_write m addr val) addr = val"
  using assms
  by (simp add: Memory_read_def Memory_write_def word_less_nat_alt word_le_nat_alt unat_sub)

lemma rw_wram:
  assumes "length (wram m) = 0x2000" "0xC000 \<le> addr" "addr < 0xFE00"
  shows "Memory_read (Memory_write m addr val) addr = val"
  using assms
  by (simp add: Memory_read_def Memory_write_def word_less_nat_alt word_le_nat_alt unat_sub)

lemma rw_oam:
  assumes "length (oam m) = 0xA0" "0xFE00 \<le> addr" "addr < 0xFEA0"
  shows "Memory_read (Memory_write m addr val) addr = val"
  using assms
  by (simp add: Memory_read_def Memory_write_def word_less_nat_alt word_le_nat_alt unat_sub)

lemma rw_hram:
  assumes "length (hram m) = 0x7F" "0xFF80 \<le> addr"
  shows "Memory_read (Memory_write m addr val) addr = val"
proof (cases "addr = 0xFFFF")
  case True
  then show ?thesis by (simp add: Memory_read_def Memory_write_def)
next
  case False
  have "unat addr < 65536" using unsigned_less [of addr, where 'a = nat] by simp
  moreover have "unat addr \<noteq> 65535" using False by (simp add: word_unat_eq_iff)
  ultimately have "addr < 0xFFFF" by (simp add: word_less_nat_alt)
  with assms show ?thesis
    by (simp add: Memory_read_def Memory_write_def word_less_nat_alt word_le_nat_alt unat_sub)
qed

lemma rw_extram:
  assumes "0xA000 \<le> addr" "addr < 0xC000" "ramEnabled m"
    and "(ramBank m * 0x2000 + (uint addr - 0xA000)) mod 2 ^ 64 < int (length (extRam m))"
  shows "Memory_read (Memory_write m addr val) addr = val"
proof -
  have ne: "extRam m \<noteq> []" using assms(4)
    by (cases "extRam m") (simp_all add: not_less)
  have nn: "0 \<le> (ramBank m * 0x2000 + (uint addr - 0xA000)) mod 2 ^ 64" by simp
  show ?thesis using assms ne nn
    by (simp add: Memory_read_def Memory_write_def Let_def word_less_nat_alt word_le_nat_alt)
qed

lemma writeLCDC_io_length:
  "writeLCDC (p, m) val = (p', m') \<Longrightarrow> length (io m') = length (io m)"
  by (auto simp add: writeLCDC_def setMode_def checkSTATInterrupt_def setIF_def Let_def
      split: prod.splits if_splits)

lemma rw_io:
  assumes len: "length (io m) = 0x80"
    and apu_len: "\<And>ap. apu m = Some ap \<Longrightarrow> length (registers ap) = 0x30 \<and> length (waveRam ap) = 16"
    and rng: "0xFF00 \<le> addr" "addr < 0xFF80"
    and ex: "addr \<noteq> 0xFF00" "addr \<noteq> 0xFF04" "addr \<noteq> 0xFF41" "addr \<noteq> 0xFF44"
    and ex_apu: "apu m = None \<or> addr < 0xFF26 \<or> 0xFF2F < addr"
  shows "Memory_read (Memory_write m addr val) addr = val"
proof -
  define reg where "reg = (ucast (addr - 0xFF00) :: u8)"
  have ur: "unat reg = unat addr - 0xFF00"
    unfolding reg_def by (rule io_reg_unat [OF rng])
  have lt: "unat reg < 0x80"
    using ur rng by (simp add: word_less_nat_alt word_le_nat_alt)
  have ua: "unat addr = 0xFF00 + unat reg"
    using ur rng by (simp add: word_less_nat_alt word_le_nat_alt)
  have ne: "reg \<noteq> 0x00" "reg \<noteq> 0x04" "reg \<noteq> 0x41" "reg \<noteq> 0x44"
    using ex ua by (auto simp: word_unat_eq_iff)
  have dec: "\<not> addr < 0x4000" "\<not> addr < 0x8000" "\<not> addr < 0xA000" "\<not> addr < 0xC000"
    "\<not> addr < 0xE000" "\<not> addr < 0xFE00" "\<not> addr < 0xFEA0" "\<not> addr < 0xFF00" "addr < 0xFF80"
    using rng by (simp_all add: word_less_nat_alt word_le_nat_alt)
  have rd: "Memory_read m' addr =
      (if 0x10 \<le> reg \<and> reg \<le> 0x3F \<and> apu m' \<noteq> None
         then (case apu m' of Some ap \<Rightarrow> readRegister ap reg | None \<Rightarrow> io m' ! unat reg)
       else io m' ! unat reg)" for m'
    using dec ne by (simp add: Memory_read_def reg_def [symmetric])
  have wr: "Memory_write m addr val =
      (if reg = 0x40 then
           (let m = (case ppu m of
                       Some p \<Rightarrow> (let (p, m) = writeLCDC (p, m) val in m\<lparr>ppu := Some p\<rparr>)
                     | None \<Rightarrow> m)
            in m\<lparr>io := (io m)[0x40 := val]\<rparr>)
         else if reg = 0x46 then
           m\<lparr>dmaActive := True, dmaCycles := 0, dmaSource := push_bit 8 (ucast val),
             io := (io m)[0x46 := val]\<rparr>
         else
           (let m = (if 0x10 \<le> reg \<and> reg \<le> 0x3F
                     then (case apu m of
                             Some ap \<Rightarrow> m\<lparr>apu := Some (writeRegister ap reg val)\<rparr>
                           | None \<Rightarrow> m)
                     else m)
            in m\<lparr>io := (io m)[unat reg := val]\<rparr>))"
    using dec ne by (simp add: Memory_write_def reg_def [symmetric])
  show ?thesis
  proof (cases "reg = 0x40")
    case True
    then show ?thesis
      using len
      by (auto simp add: rd wr Let_def split: option.splits prod.splits
          dest!: writeLCDC_io_length)
  next
    case n40: False
    show ?thesis
    proof (cases "reg = 0x46")
      case True
      then show ?thesis using len by (simp add: rd wr)
    next
      case n46: False
      show ?thesis
      proof (cases "apu m")
        case None
        then show ?thesis using n40 n46 len lt by (simp add: rd wr)
      next
        case (Some ap)
        have ex': "\<not> (0x26 \<le> reg \<and> reg \<le> 0x2F)"
          using ex_apu Some ua by (auto simp add: word_less_nat_alt word_le_nat_alt)
        have "(0x10 \<le> reg \<and> reg \<le> 0x25) \<or> (0x30 \<le> reg \<and> reg \<le> 0x3F)
              \<or> (reg < 0x10 \<or> reg > 0x3F)"
          using ex' by (simp add: word_less_nat_alt word_le_nat_alt) arith
        then show ?thesis
        proof (elim disjE conjE)
          assume regs: "0x10 \<le> reg" "reg \<le> 0x25"
          then have "reg \<le> 0x3F" by unat_arith
          then show ?thesis
            using regs n40 n46 Some apu_len [OF Some]
            by (simp add: rd wr readRegister_after_write)
        next
          assume wave: "0x30 \<le> reg" "reg \<le> 0x3F"
          then have "0x10 \<le> reg" by unat_arith
          then show ?thesis
            using wave n40 n46 Some apu_len [OF Some]
            by (simp add: rd wr waveRam_after_write)
        next
          assume "reg < 0x10"
          then show ?thesis using n40 n46 len lt Some
            by (auto simp add: rd wr)
        next
          assume "reg > 0x3F"
          then show ?thesis using n40 n46 len lt Some
            by (auto simp add: rd wr)
        qed
      qed
    qed
  qed
qed

lemma write_dropped_unusable:
  assumes "0xFEA0 \<le> addr" "addr < 0xFF00"
  shows "Memory_write m addr val = m" "Memory_read m addr = 0xFF"
  using assms
  by (simp_all add: Memory_read_def Memory_write_def word_less_nat_alt word_le_nat_alt)

lemma write_dropped_extram:
  assumes "0xA000 \<le> addr" "addr < 0xC000"
    and "\<not> (ramEnabled m
            \<and> (ramBank m * 0x2000 + (uint addr - 0xA000)) mod 2 ^ 64 < int (length (extRam m)))"
  shows "Memory_write m addr val = m" "Memory_read m addr = 0xFF"
  using assms
  by (auto simp add: Memory_read_def Memory_write_def Let_def word_less_nat_alt word_le_nat_alt)

lemma write_dropped_ignored:
  assumes "write_dropped m addr"
  shows "Memory_write m addr val = m \<and> Memory_read (Memory_write m addr val) addr = 0xFF"
proof -
  from assms consider
      (unusable) "0xFEA0 \<le> addr" "addr < 0xFF00"
    | (ext) "0xA000 \<le> addr" "addr < 0xC000"
        "\<not> (ramEnabled m
            \<and> (ramBank m * 0x2000 + (uint addr - 0xA000)) mod 2 ^ 64 < int (length (extRam m)))"
    unfolding write_dropped_def by blast
  then show ?thesis
  proof cases
    case unusable
    then show ?thesis by (simp add: write_dropped_unusable)
  next
    case ext
    then show ?thesis by (simp add: write_dropped_extram)
  qed
qed

text \<open>
  C8 (as amended). On a bus whose regions have their fixed sizes, \<open>write(addr, v)\<close> followed
  by \<open>read(addr)\<close> returns \<open>v\<close> at every address of VRAM, work RAM and its echo, OAM, high
  RAM and IE, at an external-RAM address while external RAM is enabled and the banked offset
  lies inside it, and at every I/O register other than 0xFF00, 0xFF04, 0xFF41, 0xFF44 and,
  when an APU is attached, 0xFF26..0xFF2F. A write to 0xFEA0..0xFEFF, or to external RAM
  while it is disabled or the banked offset lies outside it, leaves the bus as it was and
  the read returns 0xFF.
\<close>

theorem bus_read_after_write:
  assumes "sizes_ok m"
  shows "(reads_back m addr \<longrightarrow> Memory_read (Memory_write m addr val) addr = val)
       \<and> (write_dropped m addr \<longrightarrow>
            Memory_write m addr val = m \<and> Memory_read (Memory_write m addr val) addr = 0xFF)"
proof (intro conjI impI)
  assume rb: "reads_back m addr"
  have sz: "length (vram m) = 0x2000" "length (wram m) = 0x2000" "length (oam m) = 0xA0"
    "length (io m) = 0x80" "length (hram m) = 0x7F"
    using assms(1) by (simp_all add: sizes_ok_def)
  have apu_len: "length (registers ap) = 0x30 \<and> length (waveRam ap) = 16" if "apu m = Some ap" for ap
    using assms(1) that by (simp add: sizes_ok_def)
  from rb consider
      (vram) "0x8000 \<le> addr" "addr < 0xA000"
    | (wram) "0xC000 \<le> addr" "addr < 0xFE00"
    | (oam) "0xFE00 \<le> addr" "addr < 0xFEA0"
    | (hram) "0xFF80 \<le> addr"
    | (ext) "0xA000 \<le> addr" "addr < 0xC000" "ramEnabled m"
        "(ramBank m * 0x2000 + (uint addr - 0xA000)) mod 2 ^ 64 < int (length (extRam m))"
    | (io) "0xFF00 \<le> addr" "addr < 0xFF80" "addr \<noteq> 0xFF00" "addr \<noteq> 0xFF04"
        "addr \<noteq> 0xFF41" "addr \<noteq> 0xFF44" "apu m = None \<or> addr < 0xFF26 \<or> 0xFF2F < addr"
    unfolding reads_back_def by (cases "addr < 0xFE00") auto
  then show "Memory_read (Memory_write m addr val) addr = val"
  proof cases
    case vram then show ?thesis by (rule rw_vram [OF sz(1)])
  next
    case wram then show ?thesis by (rule rw_wram [OF sz(2)])
  next
    case oam then show ?thesis by (rule rw_oam [OF sz(3)])
  next
    case hram then show ?thesis by (rule rw_hram [OF sz(5)])
  next
    case ext then show ?thesis by (rule rw_extram)
  next
    case io show ?thesis by (rule rw_io [OF sz(4) _ io]) (rule apu_len)
  qed
next
  assume w: "write_dropped m addr"
  from write_dropped_ignored [OF w, of val] show "Memory_write m addr val = m" by blast
next
  assume w: "write_dropped m addr"
  from write_dropped_ignored [OF w, of val]
  show "Memory_read (Memory_write m addr val) addr = 0xFF" by blast
qed

theorem bus_read_after_write_witness:
  "Memory_read (Memory_write GameBoy_init 0xC000 0x5A) 0xC000 = 0x5A
   \<and> Memory_read (Memory_write GameBoy_init 0xFF11 0x5A) 0xFF11 = 0x5A
   \<and> Memory_write GameBoy_init 0xFEB0 0x5A = GameBoy_init
   \<and> Memory_read (Memory_write GameBoy_init 0xFEB0 0x5A) 0xFEB0 = 0xFF
   \<and> Memory_write (GameBoy_init\<lparr>ramEnabled := True\<rparr>) 0xB234 0x5A
       = GameBoy_init\<lparr>ramEnabled := True\<rparr>
   \<and> Memory_read (Memory_write (GameBoy_init\<lparr>ramEnabled := True\<rparr>) 0xB234 0x5A) 0xB234 = 0xFF"
proof -
  have s: "sizes_ok GameBoy_init" "sizes_ok (GameBoy_init\<lparr>ramEnabled := True\<rparr>)"
    by (simp_all add: sizes_ok_def GameBoy_init_def setAPU_def setPPU_def Memory_init_def
        APU_reset_def)
  have a: "reads_back GameBoy_init 0xC000" "reads_back GameBoy_init 0xFF11"
    by (simp_all add: reads_back_def)
  have d: "write_dropped GameBoy_init 0xFEB0"
    "write_dropped (GameBoy_init\<lparr>ramEnabled := True\<rparr>) 0xB234"
    by (simp_all add: write_dropped_def GameBoy_init_def setAPU_def setPPU_def Memory_init_def)
  show ?thesis
    using bus_read_after_write [OF s(1), of "0xC000" "0x5A"]
      bus_read_after_write [OF s(1), of "0xFF11" "0x5A"]
      bus_read_after_write [OF s(1), of "0xFEB0" "0x5A"]
      bus_read_after_write [OF s(2), of "0xB234" "0x5A"] a d
    by blast
qed

text \<open>
  The claim as stated fails outside the ROM and I/O regions: a write to the unusable block
  at 0xFEA0, or to external RAM while it is disabled, is dropped and the read returns 0xFF.
\<close>

theorem bus_read_after_write_counterexample:
  "Memory_read (Memory_write GameBoy_init 0xFEA0 0x12) 0xFEA0 = 0xFF
   \<and> Memory_read (Memory_write GameBoy_init 0xA000 0x12) 0xA000 = 0xFF"
  by (simp add: Memory_read_def Memory_write_def GameBoy_init_def setAPU_def setPPU_def
      Memory_init_def)

subsection \<open>The address decoder, region by region\<close>

lemma addr_regions:
  fixes a :: u16
  obtains (rom0) "a < 0x4000"
  | (romN) "0x4000 \<le> a" "a < 0x8000"
  | (vram) "0x8000 \<le> a" "a < 0xA000"
  | (ext) "0xA000 \<le> a" "a < 0xC000"
  | (wram) "0xC000 \<le> a" "a < 0xE000"
  | (echo) "0xE000 \<le> a" "a < 0xFE00"
  | (oam) "0xFE00 \<le> a" "a < 0xFEA0"
  | (unusable) "0xFEA0 \<le> a" "a < 0xFF00"
  | (io) "0xFF00 \<le> a" "a < 0xFF80"
  | (hram) "0xFF80 \<le> a" "a < 0xFFFF"
  | (ie) "a = 0xFFFF"
proof -
  have "unat a < 65536" using unsigned_less [of a, where 'a = nat] by simp
  then have "unat a < 0x4000 \<or> (0x4000 \<le> unat a \<and> unat a < 0x8000)
    \<or> (0x8000 \<le> unat a \<and> unat a < 0xA000) \<or> (0xA000 \<le> unat a \<and> unat a < 0xC000)
    \<or> (0xC000 \<le> unat a \<and> unat a < 0xE000) \<or> (0xE000 \<le> unat a \<and> unat a < 0xFE00)
    \<or> (0xFE00 \<le> unat a \<and> unat a < 0xFEA0) \<or> (0xFEA0 \<le> unat a \<and> unat a < 0xFF00)
    \<or> (0xFF00 \<le> unat a \<and> unat a < 0xFF80) \<or> (0xFF80 \<le> unat a \<and> unat a < 0xFFFF)
    \<or> unat a = 0xFFFF"
    by arith
  then show thesis
    using that by (auto simp add: word_less_nat_alt word_le_nat_alt word_unat_eq_iff)
qed

lemma read_rom0: "a < 0x4000 \<Longrightarrow> Memory_read m a = rom m ! unat a"
  by (simp add: Memory_read_def)

lemma read_romN:
  "0x4000 \<le> a \<Longrightarrow> a < 0x8000 \<Longrightarrow>
   Memory_read m a =
     (if (romBank m * 0x4000 + (uint a - 0x4000)) mod 2 ^ 64 < int (length (rom m))
      then rom m ! nat ((romBank m * 0x4000 + (uint a - 0x4000)) mod 2 ^ 64) else 0xFF)"
  by (simp add: Memory_read_def Let_def word_less_nat_alt word_le_nat_alt)

lemma read_vram: "0x8000 \<le> a \<Longrightarrow> a < 0xA000 \<Longrightarrow> Memory_read m a = vram m ! unat (a - 0x8000)"
  by (simp add: Memory_read_def word_less_nat_alt word_le_nat_alt)

lemma read_ext:
  "0xA000 \<le> a \<Longrightarrow> a < 0xC000 \<Longrightarrow>
   Memory_read m a =
     (if ramEnabled m \<and> extRam m \<noteq> []
         \<and> (ramBank m * 0x2000 + (uint a - 0xA000)) mod 2 ^ 64 < int (length (extRam m))
      then extRam m ! nat ((ramBank m * 0x2000 + (uint a - 0xA000)) mod 2 ^ 64) else 0xFF)"
  by (simp add: Memory_read_def Let_def word_less_nat_alt word_le_nat_alt)

lemma read_wram: "0xC000 \<le> a \<Longrightarrow> a < 0xE000 \<Longrightarrow> Memory_read m a = wram m ! unat (a - 0xC000)"
  by (simp add: Memory_read_def word_less_nat_alt word_le_nat_alt)

lemma read_echo: "0xE000 \<le> a \<Longrightarrow> a < 0xFE00 \<Longrightarrow> Memory_read m a = wram m ! unat (a - 0xE000)"
  by (simp add: Memory_read_def word_less_nat_alt word_le_nat_alt)

lemma read_oam: "0xFE00 \<le> a \<Longrightarrow> a < 0xFEA0 \<Longrightarrow> Memory_read m a = oam m ! unat (a - 0xFE00)"
  by (simp add: Memory_read_def word_less_nat_alt word_le_nat_alt)

lemma read_unusable: "0xFEA0 \<le> a \<Longrightarrow> a < 0xFF00 \<Longrightarrow> Memory_read m a = 0xFF"
  by (simp add: Memory_read_def word_less_nat_alt word_le_nat_alt)

lemma read_io:
  "0xFF00 \<le> a \<Longrightarrow> a < 0xFF80 \<Longrightarrow>
   Memory_read m a =
     (let reg = (ucast (a - 0xFF00) :: u8) in
      if reg = 0x00 then readJoypad m
      else if reg = 0x44 then (case ppu m of Some p \<Rightarrow> readLY p | None \<Rightarrow> 0)
      else if reg = 0x41 then (case ppu m of Some p \<Rightarrow> readSTAT p | None \<Rightarrow> 0)
      else if 0x10 \<le> reg \<and> reg \<le> 0x3F \<and> apu m \<noteq> None
        then (case apu m of Some ap \<Rightarrow> readRegister ap reg | None \<Rightarrow> io m ! unat reg)
      else io m ! unat reg)"
  by (simp add: Memory_read_def word_less_nat_alt word_le_nat_alt)

lemma read_hram: "0xFF80 \<le> a \<Longrightarrow> a < 0xFFFF \<Longrightarrow> Memory_read m a = hram m ! unat (a - 0xFF80)"
  by (simp add: Memory_read_def word_less_nat_alt word_le_nat_alt)

lemma read_ie: "Memory_read m 0xFFFF = ie m"
  by (simp add: Memory_read_def)

lemmas read_region =
  read_rom0 read_romN read_vram read_ext read_wram read_echo read_oam read_unusable read_io
  read_hram read_ie

lemma read_oam_indep:
  assumes "a < 0xFE00 \<or> 0xFEA0 \<le> a"
  shows "Memory_read (m\<lparr>oam := x\<rparr>) a = Memory_read m a"
proof (cases a rule: addr_regions)
  case oam
  then show ?thesis using assms by (simp add: word_less_nat_alt word_le_nat_alt)
qed (simp_all add: read_region readJoypad_def Let_def cong: if_cong split: option.splits)

lemma read_dma_fields:
  "Memory_read (m\<lparr>dmaCycles := c\<rparr>) a = Memory_read m a"
  "Memory_read (m\<lparr>dmaActive := b\<rparr>) a = Memory_read m a"
  by (cases a rule: addr_regions; simp add: read_region readJoypad_def Let_def cong: if_cong split: option.splits)+

subsection \<open>Timer\<close>

lemma div_loop_frame:
  "timerCounter (div_loop m) = timerCounter m
   \<and> length (io (div_loop m)) = length (io m)
   \<and> (\<forall>k. k \<noteq> 4 \<longrightarrow> io (div_loop m) ! k = io m ! k)"
proof (induction m rule: div_loop.induct)
  case (1 m)
  show ?case
  proof (cases "divCounter m \<ge> 256")
    case True
    with 1 show ?thesis by (subst (1 2 3) div_loop.simps) simp
  next
    case False
    then show ?thesis by (subst (1 2 3) div_loop.simps) simp
  qed
qed

lemma getTimerFrequency_pos: "0 < getTimerFrequency m"
  by (simp add: getTimerFrequency_def Let_def)

lemma getTimerFrequency_tac5:
  "io m ! 0x07 = 0x05 \<Longrightarrow> getTimerFrequency m = 16"
  by (simp add: getTimerFrequency_def)

lemma updateTimer_no_tick:
  assumes "io m ! 0x07 = 0x05" and "timerCounter m + c < 16"
  shows "timerCounter (updateTimer m c) = timerCounter m + c
       \<and> length (io (updateTimer m c)) = length (io m)
       \<and> (\<forall>k. k \<noteq> 4 \<longrightarrow> io (updateTimer m c) ! k = io m ! k)"
proof -
  define m1 where "m1 = div_loop (m\<lparr>divCounter := divCounter m + c\<rparr>)"
  have f: "timerCounter m1 = timerCounter m" "length (io m1) = length (io m)"
    "\<And>k. k \<noteq> 4 \<Longrightarrow> io m1 ! k = io m ! k"
    using div_loop_frame [of "m\<lparr>divCounter := divCounter m + c\<rparr>"] by (simp_all add: m1_def)
  have tac: "io m1 ! 0x07 = 0x05" using f(3) [of 7] assms(1) by simp
  have "updateTimer m c = timer_loop 16 (m1\<lparr>timerCounter := timerCounter m1 + c\<rparr>)"
    using tac by (simp add: updateTimer_def Let_def m1_def [symmetric] getTimerFrequency_def)
  also have "\<dots> = m1\<lparr>timerCounter := timerCounter m1 + c\<rparr>"
    using assms(2) f(1) by (subst timer_loop.simps) simp
  finally show ?thesis using f by simp
qed

lemma updateTimer_overflow:
  assumes "length (io m) = 0x80" and "io m ! 0x07 = 0x05" and "io m ! 0x05 = 0xFF"
    and "timerCounter m + c = 16"
  shows "timerCounter (updateTimer m c) = 0
       \<and> length (io (updateTimer m c)) = length (io m)
       \<and> io (updateTimer m c) ! 0x05 = io m ! 0x06
       \<and> io (updateTimer m c) ! 0x0F = io m ! 0x0F OR INT_TIMER
       \<and> io (updateTimer m c) ! 0x07 = 0x05"
proof -
  define m1 where "m1 = div_loop (m\<lparr>divCounter := divCounter m + c\<rparr>)"
  have f: "timerCounter m1 = timerCounter m" "length (io m1) = length (io m)"
    "\<And>k. k \<noteq> 4 \<Longrightarrow> io m1 ! k = io m ! k"
    using div_loop_frame [of "m\<lparr>divCounter := divCounter m + c\<rparr>"] by (simp_all add: m1_def)
  have tac: "io m1 ! 0x07 = 0x05" using f(3) [of 7] assms(2) by simp
  have tima: "io m1 ! 0x05 = 0xFF" using f(3) [of 5] assms(3) by simp
  have len: "length (io m1) = 0x80" using f(2) assms(1) by simp
  define m2 where "m2 = m1\<lparr>timerCounter := timerCounter m1 + c\<rparr>"
  have eq: "updateTimer m c = timer_loop 16 m2"
    using tac by (simp add: updateTimer_def Let_def m1_def [symmetric] m2_def getTimerFrequency_def)
  have tick: "timer_tick 16 m2 = m2\<lparr>timerCounter := 0,
      io := (io m1)[0x05 := io m1 ! 0x06, 0x0F := io m1 ! 0x0F OR INT_TIMER]\<rparr>"
    using tima len assms(4) f(1)
    by (simp add: timer_tick_def m2_def Let_def)
  have "timer_loop 16 m2 = timer_loop 16 (timer_tick 16 m2)"
    using assms(4) f(1) by (subst timer_loop.simps) (simp add: m2_def)
  also have "\<dots> = timer_tick 16 m2"
    by (subst timer_loop.simps) (simp add: tick)
  finally have r: "updateTimer m c = m2\<lparr>timerCounter := 0,
      io := (io m1)[0x05 := io m1 ! 0x06, 0x0F := io m1 ! 0x0F OR INT_TIMER]\<rparr>"
    using eq tick by simp
  show ?thesis unfolding r using len f(2) f(3) [of 6] f(3) [of 15] tac by simp
qed

lemma foldl_updateTimer_idle:
  assumes "io m ! 0x07 = 0x05" and "timerCounter m = 0" and "\<forall>c \<in> set cs. c = 0"
  shows "io (foldl updateTimer m cs) ! 0x05 = io m ! 0x05
       \<and> io (foldl updateTimer m cs) ! 0x0F = io m ! 0x0F"
  using assms
proof (induction cs arbitrary: m)
  case Nil
  then show ?case by simp
next
  case (Cons c cs)
  then have c: "c = 0" by simp
  have step: "timerCounter (updateTimer m 0) = 0" "io (updateTimer m 0) ! 0x07 = 0x05"
    "io (updateTimer m 0) ! 0x05 = io m ! 0x05" "io (updateTimer m 0) ! 0x0F = io m ! 0x0F"
    using updateTimer_no_tick [of m 0] Cons.prems(1,2) by simp_all
  show ?case
    using Cons.IH [of "updateTimer m 0"] step Cons.prems(3) c by simp
qed

lemma foldl_updateTimer_16:
  fixes cs :: "nat list"
  assumes "length (io m) = 0x80" and "io m ! 0x07 = 0x05" and "io m ! 0x05 = 0xFF"
    and "0 \<le> timerCounter m" and "timerCounter m < 16"
    and "timerCounter m + int (sum_list cs) = 16"
  shows "io (foldl updateTimer m (map int cs)) ! 0x05 = io m ! 0x06
       \<and> io (foldl updateTimer m (map int cs)) ! 0x0F = io m ! 0x0F OR INT_TIMER"
  using assms
proof (induction cs arbitrary: m)
  case Nil
  then show ?case by simp
next
  case (Cons c cs)
  show ?case
  proof (cases "timerCounter m + int c < 16")
    case True
    have step: "timerCounter (updateTimer m (int c)) = timerCounter m + int c"
      "length (io (updateTimer m (int c))) = length (io m)"
      "\<And>k. k \<noteq> 4 \<Longrightarrow> io (updateTimer m (int c)) ! k = io m ! k"
      using updateTimer_no_tick [OF Cons.prems(2) True] by simp_all
    show ?thesis
      using Cons.IH [of "updateTimer m (int c)"] Cons.prems True step(1,2) step(3) [of 5]
        step(3) [of 6] step(3) [of 7] step(3) [of 15]
      by simp
  next
    case False
    have total: "timerCounter m + int c + int (sum_list cs) = 16"
      using Cons.prems(6) by simp
    have exact: "timerCounter m + int c = 16" using total False by linarith
    have rest: "int (sum_list cs) = 0" using total exact by linarith
    have fire: "timerCounter (updateTimer m (int c)) = 0"
      "io (updateTimer m (int c)) ! 0x05 = io m ! 0x06"
      "io (updateTimer m (int c)) ! 0x0F = io m ! 0x0F OR INT_TIMER"
      "io (updateTimer m (int c)) ! 0x07 = 0x05"
      using updateTimer_overflow [OF Cons.prems(1,2,3) exact] by simp_all
    have zeros: "\<forall>c \<in> set (map int cs). c = 0" using rest by simp
    show ?thesis
      using foldl_updateTimer_idle [OF fire(4) fire(1) zeros] fire by simp
  qed
qed

lemma int_timer_bit: "bit (x OR INT_TIMER) 2"
  by (simp add: INT_TIMER_def bit_simps)

lemma timer_tick_overflow:
  assumes "length (io m) = 0x80" and "io m ! 0x05 = 0xFF"
  shows "io (timer_tick freq m) ! 0x05 = io m ! 0x06 \<and> bit (io (timer_tick freq m) ! 0x0F) 2"
  using assms by (simp add: timer_tick_def Let_def int_timer_bit)

lemma u8_succ_zero:
  fixes x :: u8
  shows "x + 1 = 0 \<longleftrightarrow> x = 0xFF"
proof
  assume "x + 1 = 0"
  then have "x = - 1" by (simp add: eq_neg_iff_add_eq_0)
  then show "x = 0xFF" by simp
next
  assume "x = 0xFF"
  then show "x + 1 = 0" by simp
qed

lemma timer_tick_no_overflow:
  assumes "length (io m) = 0x80" and "io m ! 0x05 \<noteq> 0xFF"
  shows "io (timer_tick freq m) ! 0x05 = io m ! 0x05 + 1 \<and> io (timer_tick freq m) ! 0x0F = io m ! 0x0F"
  using assms by (simp add: timer_tick_def Let_def u8_succ_zero)

text \<open>
  C4. With TAC = 0x05, TIMA = 0xFF, TMA = 0x42 and the timer accumulator at 0, feeding
  \<open>updateTimer\<close> a total of 16 clocks, in any number of calls, leaves 0x42 to be read at
  0xFF05 and bit 2 of IF set. In general one pass of the TIMA loop that finds TIMA at 0xFF
  reloads it from TMA and sets bit 2 of IF.
\<close>

theorem timer_overflow_reloads_TMA:
  fixes cs :: "nat list"
  assumes "length (io m) = 0x80"
  shows "(io m ! 0x07 = 0x05 \<and> io m ! 0x05 = 0xFF \<and> io m ! 0x06 = 0x42 \<and> timerCounter m = 0
            \<and> sum_list cs = 16 \<longrightarrow>
          Memory_read (foldl updateTimer m (map int cs)) 0xFF05 = 0x42
          \<and> bit (getIF (foldl updateTimer m (map int cs))) 2)
       \<and> (io m ! 0x05 = 0xFF \<longrightarrow>
            io (timer_tick freq m) ! 0x05 = io m ! 0x06 \<and> bit (io (timer_tick freq m) ! 0x0F) 2)"
proof (intro conjI impI)
  assume a: "io m ! 0x07 = 0x05 \<and> io m ! 0x05 = 0xFF \<and> io m ! 0x06 = 0x42 \<and> timerCounter m = 0
            \<and> sum_list cs = 16"
  then have "io (foldl updateTimer m (map int cs)) ! 0x05 = io m ! 0x06
       \<and> io (foldl updateTimer m (map int cs)) ! 0x0F = io m ! 0x0F OR INT_TIMER"
    using assms by (intro foldl_updateTimer_16) simp_all
  then show "Memory_read (foldl updateTimer m (map int cs)) 0xFF05 = 0x42"
    and "bit (getIF (foldl updateTimer m (map int cs))) 2"
    using a by (simp_all add: Memory_read_def getIF_def int_timer_bit)
next
  assume "io m ! 0x05 = 0xFF"
  then show "io (timer_tick freq m) ! 0x05 = io m ! 0x06" and "bit (io (timer_tick freq m) ! 0x0F) 2"
    using timer_tick_overflow [OF assms] by simp_all
qed

theorem timer_overflow_reloads_TMA_witness:
  "Memory_read (foldl updateTimer
      (Memory_write (Memory_write (Memory_write Memory_init 0xFF07 0x05) 0xFF05 0xFF) 0xFF06 0x42)
      (map int [4, 12])) 0xFF05 = 0x42
   \<and> bit (getIF (foldl updateTimer
      (Memory_write (Memory_write (Memory_write Memory_init 0xFF07 0x05) 0xFF05 0xFF) 0xFF06 0x42)
      (map int [4, 12]))) 2
   \<and> io (timer_tick 16
      (Memory_write (Memory_write (Memory_write Memory_init 0xFF07 0x05) 0xFF05 0xFF) 0xFF06 0x42)) ! 0x05 = 0x42
   \<and> bit (io (timer_tick 16
      (Memory_write (Memory_write (Memory_write Memory_init 0xFF07 0x05) 0xFF05 0xFF) 0xFF06 0x42)) ! 0x0F) 2"
proof -
  define m0 where
    "m0 = Memory_write (Memory_write (Memory_write Memory_init 0xFF07 0x05) 0xFF05 0xFF) 0xFF06 0x42"
  have m0: "m0 = Memory_init\<lparr>io := (io Memory_init)[0x07 := 0x05, 0x05 := 0xFF, 0x06 := 0x42]\<rparr>"
    by (simp add: m0_def Memory_write_def)
  have len: "length (io m0) = 0x80" by (simp add: m0 Memory_init_def)
  have pre: "io m0 ! 0x07 = 0x05 \<and> io m0 ! 0x05 = 0xFF \<and> io m0 ! 0x06 = 0x42 \<and> timerCounter m0 = 0
            \<and> sum_list [4, 12 :: nat] = 16"
    by (simp add: m0 Memory_init_def)
  show ?thesis
    using timer_overflow_reloads_TMA [where m = m0 and cs = "[4, 12]" and freq = 16, OF len] pre
    unfolding m0_def by simp
qed

subsection \<open>OAM DMA\<close>

lemma dma_source_unat:
  fixes page :: u8
  shows "unat (push_bit 8 (ucast page) :: u16) = unat page * 256"
proof -
  have "unat page < 256" using unsigned_less [of page, where 'a = nat] by simp
  then show ?thesis
    by (simp add: push_bit_eq_mult unat_word_ariths unsigned_ucast_eq take_bit_eq_mod)
qed

lemma dma_addr_unat:
  fixes page :: u8
  assumes "j < 160"
  shows "unat ((push_bit 8 (ucast page) :: u16) + of_nat j) = unat page * 256 + j"
proof -
  have p: "unat page < 256" using unsigned_less [of page, where 'a = nat] by simp
  have j: "unat (of_nat j :: u16) = j" using assms by (simp add: unat_of_nat)
  have "unat ((push_bit 8 (ucast page) :: u16) + of_nat j)
        = unat (push_bit 8 (ucast page) :: u16) + unat (of_nat j :: u16)"
    using p assms by (subst unat_add_lem [THEN iffD1]) (simp_all add: dma_source_unat j)
  then show ?thesis by (simp add: dma_source_unat j)
qed

lemma dma_copy_other_page:
  assumes indep: "\<And>x j. j < 160 \<Longrightarrow>
      Memory_read (m\<lparr>oam := x\<rparr>) (dmaSource m + of_nat j) = Memory_read m (dmaSource m + of_nat j)"
    and "length x = 160" and "0 \<le> i" and "i \<le> 160"
  shows "\<exists>y. dma_copy (m\<lparr>oam := x\<rparr>) i = m\<lparr>oam := y\<rparr> \<and> length y = 160
           \<and> (\<forall>j<160. y ! j = (if nat i \<le> j then Memory_read m (dmaSource m + of_nat j) else x ! j))"
  using assms(2-)
proof (induction "nat (160 - i)" arbitrary: i x)
  case 0
  then have "i = 160" by simp
  then show ?case using 0 by (subst dma_copy.simps) (auto intro!: exI [of _ x])
next
  case (Suc n)
  then have lt: "i < 160" by simp
  define x' where "x' = x[nat i := Memory_read m (dmaSource m + word_of_int i)]"
  have st: "dma_copy (m\<lparr>oam := x\<rparr>) i = dma_copy (m\<lparr>oam := x'\<rparr>) (i + 1)"
    using lt Suc.prems indep [of "nat i" x]
    by (subst dma_copy.simps) (simp add: x'_def)
  have n: "n = nat (160 - (i + 1))" using Suc.hyps(2) by simp
  have len': "length x' = 160" using Suc.prems by (simp add: x'_def)
  have "0 \<le> i + 1" "i + 1 \<le> 160" using Suc.prems lt by simp_all
  from Suc.hyps(1) [OF n len' this]
  obtain y where y: "dma_copy (m\<lparr>oam := x'\<rparr>) (i + 1) = m\<lparr>oam := y\<rparr>" "length y = 160"
    "\<forall>j<160. y ! j = (if nat (i + 1) \<le> j then Memory_read m (dmaSource m + of_nat j) else x' ! j)"
    by blast
  have "\<forall>j<160. y ! j = (if nat i \<le> j then Memory_read m (dmaSource m + of_nat j) else x ! j)"
  proof (intro allI impI)
    fix j :: nat assume j: "j < 160"
    show "y ! j = (if nat i \<le> j then Memory_read m (dmaSource m + of_nat j) else x ! j)"
    proof (cases "j = nat i")
      case True
      have "y ! nat i = x' ! nat i"
        using y(3) [rule_format, of "nat i"] lt Suc.prems by (simp add: nat_add_distrib)
      then show ?thesis using True Suc.prems lt by (simp add: x'_def)
    next
      case False
      have "nat (i + 1) \<le> j \<longleftrightarrow> nat i \<le> j"
        using False Suc.prems by (auto simp add: nat_add_distrib)
      then show ?thesis using y(3) [rule_format, of j] j False by (simp add: x'_def)
    qed
  qed
  then show ?case using st y(1,2) by (intro exI [of _ y]) simp
qed

lemma dma_copy_oam_page:
  assumes same: "\<And>j. j < 160 \<Longrightarrow> Memory_read m (dmaSource m + of_nat j) = oam m ! j"
    and "0 \<le> i" and "i \<le> 160"
  shows "dma_copy m i = m"
  using assms(2-)
proof (induction "nat (160 - i)" arbitrary: i)
  case 0
  then have "i = 160" by simp
  then show ?case by (subst dma_copy.simps) simp
next
  case (Suc n)
  then have lt: "i < 160" by simp
  have "dma_copy m i = dma_copy m (i + 1)"
    using lt Suc.prems same [of "nat i"]
    by (subst dma_copy.simps) simp
  moreover have "dma_copy m (i + 1) = m"
    using Suc.hyps(1) [of "i + 1"] Suc.hyps(2) Suc.prems lt by simp
  ultimately show ?case by simp
qed


lemma dma_addr_oam_page:
  fixes page :: u8
  assumes "j < 160"
  shows "page = 0xFE \<Longrightarrow>
           0xFE00 \<le> (push_bit 8 (ucast page) :: u16) + of_nat j
           \<and> (push_bit 8 (ucast page) :: u16) + of_nat j < 0xFEA0
           \<and> unat ((push_bit 8 (ucast page) :: u16) + of_nat j - 0xFE00) = j"
    and "page \<noteq> 0xFE \<Longrightarrow>
           (push_bit 8 (ucast page) :: u16) + of_nat j < 0xFE00
           \<or> 0xFEA0 \<le> (push_bit 8 (ucast page) :: u16) + of_nat j"
proof -
  note u = dma_addr_unat [OF assms, of page]
  show "0xFE00 \<le> (push_bit 8 (ucast page) :: u16) + of_nat j
           \<and> (push_bit 8 (ucast page) :: u16) + of_nat j < 0xFEA0
           \<and> unat ((push_bit 8 (ucast page) :: u16) + of_nat j - 0xFE00) = j" if "page = 0xFE"
  proof -
    have le: "0xFE00 \<le> (push_bit 8 (ucast page) :: u16) + of_nat j"
      using u that assms by (simp add: word_le_nat_alt)
    have lt: "(push_bit 8 (ucast page) :: u16) + of_nat j < 0xFEA0"
      using u that assms by (simp add: word_less_nat_alt)
    have "unat ((push_bit 8 (ucast page) :: u16) + of_nat j - 0xFE00) = j"
      using u that assms unat_sub [OF le] by simp
    with le lt show ?thesis by simp
  qed
  show "(push_bit 8 (ucast page) :: u16) + of_nat j < 0xFE00
           \<or> 0xFEA0 \<le> (push_bit 8 (ucast page) :: u16) + of_nat j" if "page \<noteq> 0xFE"
  proof -
    have "unat page \<noteq> 254" using that by (simp add: word_unat_eq_iff)
    moreover have "unat page < 256" using unsigned_less [of page, where 'a = nat] by simp
    ultimately have "unat page * 256 + j < 0xFE00 \<or> 0xFEA0 \<le> unat page * 256 + j"
      using assms by arith
    then show ?thesis using u by (simp add: word_less_nat_alt word_le_nat_alt)
  qed
qed

lemma updateDMA_copy:
  fixes page :: u8
  assumes len: "length (oam m) = 160" and act: "dmaActive m"
    and src: "dmaSource m = push_bit 8 (ucast page)"
    and due: "640 \<le> dmaCycles m + c"
  shows "\<not> dmaActive (updateDMA m c) \<and> length (oam (updateDMA m c)) = 160
       \<and> (\<forall>j<160. oam (updateDMA m c) ! j = Memory_read m (dmaSource m + of_nat j))"
proof -
  define m' where "m' = m\<lparr>dmaCycles := dmaCycles m + c\<rparr>"
  have upd: "updateDMA m c = (dma_copy m' 0)\<lparr>dmaActive := False\<rparr>"
    using act due by (simp add: updateDMA_def m'_def Let_def)
  have rd: "Memory_read m' a = Memory_read m a" for a
    by (simp add: m'_def read_dma_fields)
  have f: "dmaSource m' = dmaSource m" "oam m' = oam m" by (simp_all add: m'_def)
  show ?thesis
  proof (cases "page = 0xFE")
    case True
    have same: "Memory_read m' (dmaSource m' + of_nat j) = oam m' ! j" if "j < 160" for j
      using dma_addr_oam_page(1) [OF that True] by (simp add: f src rd read_oam)
    have "dma_copy m' 0 = m'" by (rule dma_copy_oam_page [OF same]) simp_all
    then show ?thesis using upd len same by (simp add: f rd)
  next
    case False
    have indep: "Memory_read (m'\<lparr>oam := x\<rparr>) (dmaSource m' + of_nat j)
                 = Memory_read m' (dmaSource m' + of_nat j)" if "j < 160" for x j
      using dma_addr_oam_page(2) [OF that False] by (simp add: f src read_oam_indep)
    have "length (oam m') = 160" using len by (simp add: f)
    from dma_copy_other_page [of m' "oam m'" 0, OF indep this]
    obtain y where y: "dma_copy m' 0 = m'\<lparr>oam := y\<rparr>" "length y = 160"
      "\<forall>j<160. y ! j = Memory_read m' (dmaSource m' + of_nat j)"
      by auto
    then show ?thesis using upd by (simp add: f rd)
  qed
qed

lemma updateDMA_wait:
  assumes "dmaActive m" and "dmaCycles m + c < 640"
  shows "updateDMA m c = m\<lparr>dmaCycles := dmaCycles m + c\<rparr>"
  using assms by (simp add: updateDMA_def Let_def)

lemma foldl_updateDMA_inactive:
  "\<not> dmaActive m \<Longrightarrow> foldl updateDMA m cs = m"
  by (induction cs) (simp_all add: updateDMA_def)

lemma foldl_updateDMA:
  fixes page :: u8
  assumes "length (oam m) = 160" and "dmaActive m"
    and "dmaSource m = push_bit 8 (ucast page)"
    and "dmaCycles m < 640" and "640 \<le> dmaCycles m + sum_list cs"
  shows "\<not> dmaActive (foldl updateDMA m cs)
       \<and> (\<forall>j<160. oam (foldl updateDMA m cs) ! j = Memory_read m (dmaSource m + of_nat j))"
  using assms
proof (induction cs arbitrary: m)
  case Nil
  then show ?case by simp
next
  case (Cons c cs)
  show ?case
  proof (cases "640 \<le> dmaCycles m + c")
    case True
    note cp = updateDMA_copy [OF Cons.prems(1,2,3) True]
    then have "foldl updateDMA (updateDMA m c) cs = updateDMA m c"
      by (simp add: foldl_updateDMA_inactive)
    then show ?thesis using cp by simp
  next
    case False
    then have w: "updateDMA m c = m\<lparr>dmaCycles := dmaCycles m + c\<rparr>"
      using updateDMA_wait [OF Cons.prems(2)] by simp
    have "\<not> dmaActive (foldl updateDMA (m\<lparr>dmaCycles := dmaCycles m + c\<rparr>) cs)
       \<and> (\<forall>j<160. oam (foldl updateDMA (m\<lparr>dmaCycles := dmaCycles m + c\<rparr>) cs) ! j
              = Memory_read (m\<lparr>dmaCycles := dmaCycles m + c\<rparr>)
                  (dmaSource (m\<lparr>dmaCycles := dmaCycles m + c\<rparr>) + of_nat j))"
      using Cons.prems False by (intro Cons.IH) simp_all
    then show ?thesis by (simp add: w read_dma_fields)
  qed
qed

lemma write_dma_register:
  fixes page :: u8
  shows "Memory_write m 0xFF46 page =
     m\<lparr>dmaActive := True, dmaCycles := 0, dmaSource := push_bit 8 (ucast page),
       io := (io m)[0x46 := page]\<rparr>"
  by (simp add: Memory_write_def)

text \<open>
  C5. After \<open>write(0xFF46, page)\<close> and \<open>updateDMA\<close> calls whose clocks add up to at least
  640, the DMA is inactive and \<open>oam[i]\<close> is what \<open>read((page << 8) + i)\<close> gave when the
  copy ran, for every \<open>i\<close> below 160; between the write and the copy only the DMA clock
  count changes, so that is the read in the state the write left. The second part is the
  copying call on its own, from any state with a DMA pending. Source pages in the fixed ROM
  bank are read by the unchecked \<open>rom[addr]\<close>, so the image is required to cover them.
\<close>

theorem dma_copies_source_page:
  fixes page :: u8
  assumes "length (oam m) = 0xA0"
    and "page < 0x40 \<longrightarrow> unat page * 0x100 + 0xA0 \<le> length (rom m)"
  shows "(640 \<le> sum_list cs \<longrightarrow>
            \<not> dmaActive (foldl updateDMA (Memory_write m 0xFF46 page) cs)
            \<and> (\<forall>i<160. oam (foldl updateDMA (Memory_write m 0xFF46 page) cs) ! i
                   = Memory_read (Memory_write m 0xFF46 page) (push_bit 8 (ucast page) + of_nat i)))
       \<and> (dmaActive m \<and> dmaSource m = push_bit 8 (ucast page) \<and> 640 \<le> dmaCycles m + c \<longrightarrow>
            \<not> dmaActive (updateDMA m c)
            \<and> (\<forall>i<160. oam (updateDMA m c) ! i = Memory_read m (push_bit 8 (ucast page) + of_nat i)))"
proof (intro conjI impI)
  assume total: "640 \<le> sum_list cs"
  define m1 where "m1 = Memory_write m 0xFF46 page"
  have m1: "length (oam m1) = 160" "dmaActive m1" "dmaSource m1 = push_bit 8 (ucast page)"
    "dmaCycles m1 < 640" "640 \<le> dmaCycles m1 + sum_list cs"
    using assms(1) total by (simp_all add: m1_def write_dma_register)
  from foldl_updateDMA [OF m1]
  show "\<not> dmaActive (foldl updateDMA (Memory_write m 0xFF46 page) cs)"
    and "\<forall>i<160. oam (foldl updateDMA (Memory_write m 0xFF46 page) cs) ! i
                   = Memory_read (Memory_write m 0xFF46 page) (push_bit 8 (ucast page) + of_nat i)"
    using m1(3) by (simp_all add: m1_def)
next
  assume a: "dmaActive m \<and> dmaSource m = push_bit 8 (ucast page) \<and> 640 \<le> dmaCycles m + c"
  then have "\<not> dmaActive (updateDMA m c) \<and> length (oam (updateDMA m c)) = 160
       \<and> (\<forall>j<160. oam (updateDMA m c) ! j = Memory_read m (dmaSource m + of_nat j))"
    using assms(1) by (intro updateDMA_copy) simp_all
  then show "\<not> dmaActive (updateDMA m c)"
    and "\<forall>i<160. oam (updateDMA m c) ! i = Memory_read m (push_bit 8 (ucast page) + of_nat i)"
    using a by simp_all
qed

theorem dma_copies_source_page_witness:
  "\<not> dmaActive (foldl updateDMA (Memory_write (Memory_write GameBoy_init 0xC005 0x77) 0xFF46 0xC0) [320, 320])
   \<and> oam (foldl updateDMA (Memory_write (Memory_write GameBoy_init 0xC005 0x77) 0xFF46 0xC0) [320, 320]) ! 5 = 0x77
   \<and> \<not> dmaActive (updateDMA (Memory_write (Memory_write GameBoy_init 0xC005 0x77) 0xFF46 0xC0) 640)
   \<and> oam (updateDMA (Memory_write (Memory_write GameBoy_init 0xC005 0x77) 0xFF46 0xC0) 640) ! 5 = 0x77"
proof -
  define m0 where "m0 = Memory_write GameBoy_init 0xC005 0x77"
  define m1 where "m1 = Memory_write m0 0xFF46 0xC0"
  have m0: "m0 = GameBoy_init\<lparr>wram := (wram GameBoy_init)[5 := 0x77]\<rparr>"
    by (simp add: m0_def Memory_write_def)
  have len0: "length (oam m0) = 0xA0"
    by (simp add: m0 GameBoy_init_def setAPU_def setPPU_def Memory_init_def)
  have m1: "m1 = m0\<lparr>dmaActive := True, dmaCycles := 0, dmaSource := 0xC000,
                      io := (io m0)[0x46 := 0xC0]\<rparr>"
    by (simp add: m1_def Memory_write_def)
  have len1: "length (oam m1) = 0xA0" using len0 by (simp add: m1)
  have rom: "(0xC0 :: u8) < 0x40 \<longrightarrow> unat (0xC0 :: u8) * 0x100 + 0xA0 \<le> length (rom m)" for m
    by simp
  have rd: "Memory_read m1 (push_bit 8 (ucast (0xC0 :: u8)) + of_nat 5) = 0x77"
    by (simp add: m1 m0 Memory_read_def GameBoy_init_def setAPU_def setPPU_def Memory_init_def)
  have pre: "dmaActive m1 \<and> dmaSource m1 = push_bit 8 (ucast (0xC0 :: u8)) \<and> 640 \<le> dmaCycles m1 + 640"
    by (simp add: m1)
  have tot: "640 \<le> sum_list [320, 320 :: int]" by simp
  from dma_copies_source_page [where m = m0 and page = "0xC0" and cs = "[320, 320]", OF len0 rom] tot
  have a: "\<not> dmaActive (foldl updateDMA m1 [320, 320])"
    "oam (foldl updateDMA m1 [320, 320]) ! 5 = Memory_read m1 (push_bit 8 (ucast (0xC0 :: u8)) + of_nat 5)"
    unfolding m1_def by simp_all
  from dma_copies_source_page [where m = m1 and page = "0xC0" and c = 640, OF len1 rom] pre
  have b: "\<not> dmaActive (updateDMA m1 640)"
    "oam (updateDMA m1 640) ! 5 = Memory_read m1 (push_bit 8 (ucast (0xC0 :: u8)) + of_nat 5)"
    by simp_all
  show ?thesis using a b rd unfolding m1_def m0_def by simp
qed

subsection \<open>PPU mode machine\<close>

lemma seen_by_bus_fst: "fst (seen_by_bus pm) = fst pm"
  by (simp add: seen_by_bus_def case_prod_beta)

lemma seen_by_bus_io: "io (snd (seen_by_bus pm)) = io (snd pm)"
  by (simp add: seen_by_bus_def case_prod_beta split: option.splits)

lemma seen_by_bus_pair: "seen_by_bus (p, m) = (p, snd (seen_by_bus (p, m)))"
  by (simp add: seen_by_bus_def)

lemma checkSTATInterrupt_fst: "fst (checkSTATInterrupt pm) = fst pm"
  by (simp add: checkSTATInterrupt_def Let_def case_prod_beta)

lemma setMode_fst:
  "fst (setMode pm k) =
     (fst pm)\<lparr>mode := k, stat := (stat (fst pm) AND 0xFC) OR word_of_int (k AND 0x03)\<rparr>"
  by (simp add: setMode_def Let_def case_prod_beta checkSTATInterrupt_fst)

lemma checkLYC_fst:
  "fst (checkLYC pm) =
     (if ly (fst pm) = lyc (fst pm) then (fst pm)\<lparr>stat := stat (fst pm) OR 0x04\<rparr>
      else (fst pm)\<lparr>stat := stat (fst pm) AND NOT 0x04\<rparr>)"
  by (simp add: checkLYC_def Let_def case_prod_beta checkSTATInterrupt_fst)

lemma renderScanline_frame:
  "ly (renderScanline p) = ly p" "mode (renderScanline p) = mode p"
  "stat (renderScanline p) = stat p" "lyc (renderScanline p) = lyc p"
  by (simp_all add: renderScanline_def renderWindow_def Let_def)

lemma PPU_step_fst:
  "fst (PPU_step (p, m) c) =
     (let p = io_regs p m in
      if lcdc p AND 0x80 = 0 then p
      else
        let p = p\<lparr>scanlineCycles := scanlineCycles p + c\<rparr> in
        if mode p = 2 then
          (if scanlineCycles p \<ge> 80
           then p\<lparr>scanlineCycles := scanlineCycles p - 80, mode := 3, stat := (stat p AND 0xFC) OR 3\<rparr>
           else p)
        else if mode p = 3 then
          (if scanlineCycles p \<ge> 172
           then (renderScanline (p\<lparr>scanlineCycles := scanlineCycles p - 172\<rparr>))
                  \<lparr>mode := 0, stat := (stat p AND 0xFC)\<rparr>
           else p)
        else if mode p = 0 then
          (if scanlineCycles p \<ge> 204
           then
             (let q = (if ly p + 1 = 144
                       then p\<lparr>scanlineCycles := scanlineCycles p - 204, ly := ly p + 1,
                              mode := 1, stat := (stat p AND 0xFC) OR 1,
                              frameReady := True, windowLine := 0\<rparr>
                       else p\<lparr>scanlineCycles := scanlineCycles p - 204, ly := ly p + 1,
                              mode := 2, stat := (stat p AND 0xFC) OR 2\<rparr>)
              in if ly q = lyc q then q\<lparr>stat := stat q OR 0x04\<rparr>
                 else q\<lparr>stat := stat q AND NOT 0x04\<rparr>)
           else p)
        else if mode p = 1 then
          (if scanlineCycles p \<ge> 456
           then
             (let q = (if ly p + 1 > 153
                       then p\<lparr>scanlineCycles := scanlineCycles p - 456, ly := 0,
                              mode := 2, stat := (stat p AND 0xFC) OR 2\<rparr>
                       else p\<lparr>scanlineCycles := scanlineCycles p - 456, ly := ly p + 1\<rparr>)
              in if ly q = lyc q then q\<lparr>stat := stat q OR 0x04\<rparr>
                 else q\<lparr>stat := stat q AND NOT 0x04\<rparr>)
           else p)
        else p)"
  by (simp add: PPU_step_def seen_by_bus_fst io_regs_def Let_def case_prod_beta setMode_fst
      checkLYC_fst renderScanline_frame if_distrib [where f = fst] cong: if_cong)

text \<open>
  The bus reads STAT and LY from the PPU as \<open>step\<close> has left it.
\<close>

lemma seen_by_bus_ppu:
  "ppu (snd pm) = Some q \<Longrightarrow> ppu (snd (seen_by_bus pm)) = Some (fst pm)"
  by (simp add: seen_by_bus_def case_prod_beta)

lemma checkSTATInterrupt_ppu: "ppu (snd (checkSTATInterrupt pm)) = ppu (snd pm)"
  by (simp add: checkSTATInterrupt_def Let_def case_prod_beta setIF_def)

lemma setMode_ppu: "ppu (snd (setMode pm k)) = ppu (snd pm)"
  by (simp add: setMode_def Let_def case_prod_beta checkSTATInterrupt_ppu)

lemma checkLYC_ppu: "ppu (snd (checkLYC pm)) = ppu (snd pm)"
  by (simp add: checkLYC_def Let_def case_prod_beta checkSTATInterrupt_ppu)

lemma PPU_step_seen:
  assumes "ppu m = Some q"
  shows "ppu (snd (PPU_step (p, m) c)) = Some (fst (PPU_step (p, m) c))"
  unfolding PPU_step_def seen_by_bus_fst
  by (rule seen_by_bus_ppu [where q = q])
    (simp add: assms Let_def case_prod_beta setMode_ppu checkLYC_ppu writeIO_def setIF_def
      if_distrib [where f = snd] if_distrib [where f = ppu] cong: if_cong)

lemma bus_reads_stepped_ppu:
  assumes "ppu m = Some q"
  shows "Memory_read (snd (PPU_step (p, m) c)) 0xFF41 = readSTAT (fst (PPU_step (p, m) c))"
    "Memory_read (snd (PPU_step (p, m) c)) 0xFF44 = readLY (fst (PPU_step (p, m) c))"
  by (simp_all add: Memory_read_def PPU_step_seen [OF assms])

lemma u8_succ_unat:
  fixes x :: u8
  assumes "unat x \<le> 153"
  shows "unat (x + 1) = unat x + 1"
  using assms by (simp add: unat_word_ariths)

lemma ppu_inv_step:
  assumes "ppu_inv p"
  shows "ppu_inv (fst (PPU_step (p, m) c))"
proof -
  have s: "unat (ly p + 1) = unat (ly p) + 1" using assms by (simp add: ppu_inv_def u8_succ_unat)
  show ?thesis
    using assms s
    by (auto simp add: ppu_inv_def PPU_step_fst Let_def io_regs_def renderScanline_frame
        word_less_nat_alt word_le_nat_alt word_unat_eq_iff)
qed

lemma ppu_inv_writes:
  assumes "ppu_inv p"
  shows "ppu_inv (fst (writeLCDC (p, m) val))" "ppu_inv (writeSTAT p val)" "ppu_inv (writeLY p val)"
    "ppu_inv (clearFrameReady p)"
  using assms
  by (auto simp add: ppu_inv_def writeLCDC_def writeSTAT_def writeLY_def clearFrameReady_def
      Let_def case_prod_beta setMode_fst)

lemma ppu_inv_reset: "ppu_inv PPU_reset"
  by (simp add: ppu_inv_def PPU_reset_def)

lemma low2:
  fixes x v :: u8
  shows "((x AND 0xFC) OR 3) AND 3 = 3" "((x AND 0xFC) OR 2) AND 3 = 2"
    "((x AND 0xFC) OR 1) AND 3 = 1" "(x AND 0xFC) AND 3 = 0"
    "(x OR 4) AND 3 = x AND 3" "(x AND NOT 4) AND 3 = x AND 3" "(x AND - 5) AND 3 = x AND 3"
    "((v AND 0x78) OR (x AND 0x07)) AND 3 = x AND 3"
  by (rule bit_word_eqI, drule lt8_cases, auto simp: bit_simps)+

lemma stat_mode_step:
  assumes "stat_mode p"
  shows "stat_mode (fst (PPU_step (p, m) c))"
  using assms
  by (auto simp add: stat_mode_def PPU_step_fst Let_def io_regs_def renderScanline_frame low2)

lemma stat_mode_writes:
  assumes "stat_mode p"
  shows "stat_mode (fst (writeLCDC (p, m) val))" "stat_mode (writeSTAT p val)"
    "stat_mode (writeLY p val)" "stat_mode (clearFrameReady p)"
  using assms
  by (auto simp add: stat_mode_def writeLCDC_def writeSTAT_def writeLY_def clearFrameReady_def
      Let_def case_prod_beta setMode_fst low2)

lemma step_mode_change:
  assumes "mode (fst (PPU_step (p, m) c)) \<noteq> mode p"
  shows "stat_mode (fst (PPU_step (p, m) c))"
  using assms
  by (auto simp add: stat_mode_def PPU_step_fst Let_def io_regs_def renderScanline_frame low2
      split: if_splits)

lemma step_mode_same:
  assumes "mode (fst (PPU_step (p, m) c)) = mode p" and "mode p = 2"
  shows "stat (fst (PPU_step (p, m) c)) = stat p"
  using assms
  by (auto simp add: PPU_step_fst Let_def io_regs_def split: if_splits)

lemma bit2:
  fixes x :: u8
  shows "bit (x OR 4) 2" "\<not> bit (x AND NOT 4) 2" "\<not> bit (x AND - 5) 2"
  by (simp_all add: bit_simps)

lemma bit2_kept:
  fixes x v :: u8
  shows "bit ((x AND 0xFC) OR 3) 2 = bit x 2" "bit ((x AND 0xFC) OR 2) 2 = bit x 2"
    "bit ((x AND 0xFC) OR 1) 2 = bit x 2" "bit (x AND 0xFC) 2 = bit x 2"
    "bit ((v AND 0x78) OR (x AND 0x07)) 2 = bit x 2"
  by (simp_all add: bit_simps)

lemma step_ly_change:
  assumes "ly (fst (PPU_step (p, m) c)) \<noteq> ly p"
  shows "bit (stat (fst (PPU_step (p, m) c))) 2
          \<longleftrightarrow> ly (fst (PPU_step (p, m) c)) = lyc (fst (PPU_step (p, m) c))"
  using assms
  by (auto simp add: PPU_step_fst Let_def io_regs_def renderScanline_frame bit2
      split: if_splits)

lemma step_ly_same:
  assumes "ly (fst (PPU_step (p, m) c)) = ly p"
  shows "bit (stat (fst (PPU_step (p, m) c))) 2 = bit (stat p) 2"
  using assms
  by (auto simp add: PPU_step_fst Let_def io_regs_def renderScanline_frame bit2_kept
      split: if_splits)

lemma step_vblank:
  assumes "ppu_inv p" and "mode p = 1 \<longrightarrow> 144 \<le> unat (ly p)"
    and "mode (fst (PPU_step (p, m) c)) = 1"
  shows "144 \<le> unat (ly (fst (PPU_step (p, m) c)))"
proof -
  have s: "unat (ly p + 1) = unat (ly p) + 1" using assms(1) by (simp add: ppu_inv_def u8_succ_unat)
  show ?thesis
    using assms s
    by (auto simp add: ppu_inv_def PPU_step_fst Let_def io_regs_def renderScanline_frame
        word_less_nat_alt word_le_nat_alt word_unat_eq_iff split: if_splits)
qed

lemma hist_inv_step:
  assumes "ppu_hist_inv h p" and "p' = fst (PPU_step (p, m) c)"
  shows "ppu_hist_inv
       \<lparr>modeSet = (modeSet h \<or> mode p' \<noteq> mode p),
        lyWritten = (lyWritten h \<and> mode p' = 1),
        lycCompared = (ly p' \<noteq> ly p \<or> (lycCompared h \<and> lyc p' = lyc p))\<rparr> p'"
proof -
  note i = assms(1) [unfolded ppu_hist_inv_def]
  have inv: "ppu_inv p" using i by simp
  have a: "ppu_inv p'" unfolding assms(2) using inv by (rule ppu_inv_step)
  have b: "mode p' = 1 \<and> \<not> lyWritten h \<longrightarrow> 144 \<le> unat (ly p')"
  proof (intro impI, elim conjE)
    assume m1: "mode p' = 1" and nw: "\<not> lyWritten h"
    have "mode p = 1 \<longrightarrow> 144 \<le> unat (ly p)" using i nw by simp
    from step_vblank [OF inv this m1 [unfolded assms(2)]]
    show "144 \<le> unat (ly p')" unfolding assms(2) .
  qed
  have c: "modeSet h \<or> mode p' \<noteq> mode p \<longrightarrow> stat_mode p'"
    unfolding assms(2) using i stat_mode_step [of p m c] step_mode_change [of p m c] by blast
  have d: "\<not> (modeSet h \<or> mode p' \<noteq> mode p) \<longrightarrow> stat p' AND 0x03 = 0 \<and> mode p' = 2"
  proof (intro impI)
    assume n: "\<not> (modeSet h \<or> mode p' \<noteq> mode p)"
    then have s: "stat p AND 0x03 = 0" "mode p = 2" "mode p' = mode p" using i by simp_all
    have "stat p' = stat p"
      unfolding assms(2) by (rule step_mode_same) (simp_all add: s(2) s(3) [unfolded assms(2)])
    then show "stat p' AND 0x03 = 0 \<and> mode p' = 2" using s by simp
  qed
  have e: "ly p' \<noteq> ly p \<or> (lycCompared h \<and> lyc p' = lyc p) \<longrightarrow>
           (bit (stat p') 2 \<longleftrightarrow> ly p' = lyc p')"
  proof (cases "ly p' = ly p")
    case False
    then show ?thesis unfolding assms(2) using step_ly_change [of p m c] by blast
  next
    case True
    have "bit (stat p') 2 = bit (stat p) 2"
      unfolding assms(2) by (rule step_ly_same) (rule True [unfolded assms(2)])
    then show ?thesis using True i by auto
  qed
  show ?thesis
    unfolding ppu_hist_inv_def using a b c d e by auto
qed

lemma hist_inv_writeLCDC:
  assumes "ppu_hist_inv h p" and "p' = fst (writeLCDC (p, m) val)"
  shows "ppu_hist_inv
       \<lparr>modeSet = (modeSet h \<or> (lcdc p AND 0x80 \<noteq> 0 \<and> val AND 0x80 = 0)),
        lyWritten = (lyWritten h \<and> mode p' = 1),
        lycCompared = (lycCompared h \<and> ly p' = ly p)\<rparr> p'"
proof -
  note i = assms(1) [unfolded ppu_hist_inv_def]
  have p': "p' = (if lcdc p AND 0x80 \<noteq> 0 \<and> val AND 0x80 = 0
                  then p\<lparr>ly := 0, scanlineCycles := 0, mode := 0, stat := stat p AND 0xFC,
                         lcdc := val\<rparr>
                  else p\<lparr>lcdc := val\<rparr>)"
    unfolding assms(2) by (simp add: writeLCDC_def Let_def case_prod_beta setMode_fst)
  show ?thesis
    using i unfolding ppu_hist_inv_def p'
    by (auto simp add: ppu_inv_def stat_mode_def low2 bit2_kept)
qed

lemma hist_inv_writeSTAT:
  assumes "ppu_hist_inv h p"
  shows "ppu_hist_inv h (writeSTAT p val)"
  using assms unfolding ppu_hist_inv_def
  by (auto simp add: ppu_inv_def stat_mode_def writeSTAT_def low2 bit2_kept)

lemma hist_inv_writeLY:
  assumes "ppu_hist_inv h p"
  shows "ppu_hist_inv
       \<lparr>modeSet = modeSet h,
        lyWritten = (lyWritten h \<or> mode p = 1),
        lycCompared = (lycCompared h \<and> ly p = 0)\<rparr> (writeLY p val)"
  using assms unfolding ppu_hist_inv_def
  by (auto simp add: ppu_inv_def stat_mode_def writeLY_def)

lemma hist_inv_clearFrameReady:
  assumes "ppu_hist_inv h p"
  shows "ppu_hist_inv h (clearFrameReady p)"
  using assms unfolding ppu_hist_inv_def
  by (auto simp add: ppu_inv_def stat_mode_def clearFrameReady_def)

lemma hist_inv_reset:
  "ppu_hist_inv \<lparr>modeSet = False, lyWritten = False, lycCompared = False\<rparr> PPU_reset"
  by (simp add: ppu_hist_inv_def ppu_inv_def PPU_reset_def)

lemma hist_inv_reach:
  assumes "ppu_reach p0 h p"
    and "ppu_hist_inv \<lparr>modeSet = False, lyWritten = False, lycCompared = False\<rparr> p0"
  shows "ppu_hist_inv h p"
  using assms
proof (induction rule: ppu_reach.induct)
  case start
  then show ?case by simp
next
  case (by_step h p p' m cycles)
  from by_step.IH [OF by_step.prems] by_step.hyps(2) show ?case by (rule hist_inv_step)
next
  case (by_writeLCDC h p p' m val)
  from by_writeLCDC.IH [OF by_writeLCDC.prems] by_writeLCDC.hyps(2)
  show ?case by (rule hist_inv_writeLCDC)
next
  case (by_writeSTAT h p val)
  from by_writeSTAT.IH [OF by_writeSTAT.prems] show ?case by (rule hist_inv_writeSTAT)
next
  case (by_writeLY h p val)
  from by_writeLY.IH [OF by_writeLY.prems] show ?case by (rule hist_inv_writeLY)
next
  case (by_clearFrameReady h p)
  from by_clearFrameReady.IH [OF by_clearFrameReady.prems]
  show ?case by (rule hist_inv_clearFrameReady)
next
  case (by_reset h p)
  show ?case by (rule hist_inv_reset)
qed

text \<open>
  C2 (as amended). For every PPU state reachable from reset by \<open>step\<close> calls,
  \<open>clearFrameReady\<close>, writes to LCDC, STAT and LY and further resets: LY is at most 153; LY at or above 144
  implies mode 1, and mode 1 implies LY at or above 144 unless LY was written during the
  VBlank in progress; STAT's low two bits equal the mode exactly when \<open>setMode\<close> has run
  since reset (by a step that changed the mode or by switching the LCD off); and STAT bit 2
  is set exactly when LY equals LYC, provided a step has advanced LY and since then LY has
  not been zeroed (by a write to LY or by switching the LCD off) while it was not 0, and LYC
  has not changed.
\<close>

theorem ppu_invariants:
  assumes "ppu_reach PPU_reset h p"
  shows "unat (ly p) \<le> 153
       \<and> (144 \<le> unat (ly p) \<longrightarrow> mode p = 1)
       \<and> (mode p = 1 \<and> \<not> lyWritten h \<longrightarrow> 144 \<le> unat (ly p))
       \<and> (stat p AND 0x03 = word_of_int (mode p) \<longleftrightarrow> modeSet h)
       \<and> (lycCompared h \<longrightarrow> (bit (stat p) 2 \<longleftrightarrow> ly p = lyc p))"
proof -
  have i: "ppu_hist_inv h p" using assms hist_inv_reset by (rule hist_inv_reach)
  note u = i [unfolded ppu_hist_inv_def ppu_inv_def stat_mode_def]
  have a: "unat (ly p) \<le> 153" and b: "144 \<le> unat (ly p) \<longrightarrow> mode p = 1"
    and c: "mode p = 1 \<and> \<not> lyWritten h \<longrightarrow> 144 \<le> unat (ly p)"
    and e: "lycCompared h \<longrightarrow> (bit (stat p) 2 \<longleftrightarrow> ly p = lyc p)"
    using u by auto
  have d: "stat p AND 0x03 = word_of_int (mode p) \<longleftrightarrow> modeSet h"
  proof (cases "modeSet h")
    case True
    then show ?thesis using u by simp
  next
    case False
    then have "stat p AND 0x03 = 0" "mode p = 2" using u by simp_all
    then show ?thesis using False by simp
  qed
  from a b c d e show ?thesis by blast
qed

lemma reach_step:
  assumes "ppu_reach p0 h p" and "PPU_step (p, m) c = (p', m')"
  shows "\<exists>h'. ppu_reach p0 h' p'
           \<and> modeSet h' = (modeSet h \<or> mode p' \<noteq> mode p)
           \<and> lyWritten h' = (lyWritten h \<and> mode p' = 1)
           \<and> lycCompared h' = (ly p' \<noteq> ly p \<or> (lycCompared h \<and> lyc p' = lyc p))"
proof -
  have e: "p' = fst (PPU_step (p, m) c)" by (simp add: assms(2))
  note r = ppu_reach.by_step [OF assms(1) e]
  show ?thesis by (rule exI, intro conjI, rule r) simp_all
qed

lemma u8_of_nat_facts:
  assumes "n < 143"
  shows "(of_nat n + 1 :: u8) = of_nat (Suc n)" "(of_nat (Suc n) :: u8) \<noteq> 144"
    "(of_nat (Suc n) :: u8) \<noteq> 0" "(of_nat (Suc n) :: u8) \<noteq> of_nat n"
proof -
  show "(of_nat n + 1 :: u8) = of_nat (Suc n)" by simp
  have "unat (of_nat (Suc n) :: u8) = Suc n mod 2 ^ LENGTH(8)" by (rule unat_of_nat)
  also have "\<dots> = Suc n" using assms by simp
  finally have u: "unat (of_nat (Suc n) :: u8) = Suc n" .
  show "(of_nat (Suc n) :: u8) \<noteq> 144"
  proof
    assume "(of_nat (Suc n) :: u8) = 144"
    then have "unat (of_nat (Suc n) :: u8) = unat (144 :: u8)" by (rule arg_cong)
    with u show False using assms by simp
  qed
  show "(of_nat (Suc n) :: u8) \<noteq> 0"
  proof
    assume "(of_nat (Suc n) :: u8) = 0"
    then have "unat (of_nat (Suc n) :: u8) = unat (0 :: u8)" by (rule arg_cong)
    with u show False by simp
  qed
  show "(of_nat (Suc n) :: u8) \<noteq> of_nat n" by simp
qed

lemma lcd_regs_reset_init: "lcd_regs_reset Memory_init"
  by (simp add: lcd_regs_reset_def Memory_init_def)

lemma lcd_regs_reset_ly: "lcd_regs_reset m \<Longrightarrow> lcd_regs_reset (m\<lparr>io := (io m)[0x44 := v]\<rparr>)"
  by (simp add: lcd_regs_reset_def)

lemma lcd_regs_reset_seen:
  "lcd_regs_reset (snd (seen_by_bus (p, m))) = lcd_regs_reset m"
  unfolding lcd_regs_reset_def seen_by_bus_io by simp

lemma getIF_seen: "getIF (snd (seen_by_bus (p, m))) = getIF m"
  unfolding getIF_def seen_by_bus_io by simp

lemma line_step_oam:
  assumes "s = 0 \<or> s = 2" and "lcd_regs_reset m"
  shows "\<exists>m'. PPU_step (PPU_reset\<lparr>stat := s, ly := y\<rparr>, m) 80
              = (PPU_reset\<lparr>stat := 3, ly := y, mode := 3\<rparr>, m')
            \<and> lcd_regs_reset m'"
proof -
  have "PPU_step (PPU_reset\<lparr>stat := s, ly := y\<rparr>, m) 80
         = seen_by_bus (PPU_reset\<lparr>stat := 3, ly := y, mode := 3\<rparr>, m)"
    using assms(1) assms(2) [unfolded lcd_regs_reset_def]
    by (auto simp add: PPU_step_def Let_def readIO_def PPU_reset_def setMode_def
        checkSTATInterrupt_def)
  then have "PPU_step (PPU_reset\<lparr>stat := s, ly := y\<rparr>, m) 80
         = (PPU_reset\<lparr>stat := 3, ly := y, mode := 3\<rparr>,
            snd (seen_by_bus (PPU_reset\<lparr>stat := 3, ly := y, mode := 3\<rparr>, m)))"
    by (simp only: seen_by_bus_pair [symmetric])
  then show ?thesis using assms(2) lcd_regs_reset_seen by blast
qed

lemma line_step_transfer:
  assumes "lcd_regs_reset m"
  shows "\<exists>m'. PPU_step (PPU_reset\<lparr>stat := 3, ly := y, mode := 3\<rparr>, m) 172
              = (PPU_reset\<lparr>stat := 0, ly := y, mode := 0\<rparr>, m')
            \<and> lcd_regs_reset m'"
proof -
  have "PPU_step (PPU_reset\<lparr>stat := 3, ly := y, mode := 3\<rparr>, m) 172
         = seen_by_bus (PPU_reset\<lparr>stat := 0, ly := y, mode := 0\<rparr>, m)"
    using assms [unfolded lcd_regs_reset_def]
    by (simp add: PPU_step_def Let_def readIO_def PPU_reset_def setMode_def
        checkSTATInterrupt_def renderScanline_def)
  then have "PPU_step (PPU_reset\<lparr>stat := 3, ly := y, mode := 3\<rparr>, m) 172
         = (PPU_reset\<lparr>stat := 0, ly := y, mode := 0\<rparr>,
            snd (seen_by_bus (PPU_reset\<lparr>stat := 0, ly := y, mode := 0\<rparr>, m)))"
    by (simp only: seen_by_bus_pair [symmetric])
  then show ?thesis using assms lcd_regs_reset_seen by blast
qed

lemma line_step_hblank:
  assumes "n < 143" and "lcd_regs_reset m"
  shows "\<exists>m'. PPU_step (PPU_reset\<lparr>stat := 0, ly := of_nat n, mode := 0\<rparr>, m) 204
              = (PPU_reset\<lparr>stat := 2, ly := of_nat (Suc n)\<rparr>, m')
            \<and> lcd_regs_reset m'"
proof -
  note f = u8_of_nat_facts [OF assms(1)]
  have "PPU_step (PPU_reset\<lparr>stat := 0, ly := of_nat n, mode := 0\<rparr>, m) 204
         = seen_by_bus (PPU_reset\<lparr>stat := 2, ly := of_nat (Suc n)\<rparr>,
                        m\<lparr>io := (io m)[0x44 := of_nat (Suc n)]\<rparr>)"
    using f(2,3) assms(2) [unfolded lcd_regs_reset_def]
    by (simp add: PPU_step_def Let_def readIO_def writeIO_def PPU_reset_def
        setMode_def checkLYC_def checkSTATInterrupt_def f(1))
  then have "PPU_step (PPU_reset\<lparr>stat := 0, ly := of_nat n, mode := 0\<rparr>, m) 204
         = (PPU_reset\<lparr>stat := 2, ly := of_nat (Suc n)\<rparr>,
            snd (seen_by_bus (PPU_reset\<lparr>stat := 2, ly := of_nat (Suc n)\<rparr>,
                              m\<lparr>io := (io m)[0x44 := of_nat (Suc n)]\<rparr>)))"
    by (simp only: seen_by_bus_pair [symmetric])
  then show ?thesis using lcd_regs_reset_ly [OF assms(2)] lcd_regs_reset_seen by blast
qed

lemma line_step_hblank_last:
  assumes "lcd_regs_reset m"
  shows "\<exists>m'. PPU_step (PPU_reset\<lparr>stat := 0, ly := 143, mode := 0\<rparr>, m) 204
              = (PPU_reset\<lparr>stat := 1, ly := 144, mode := 1, frameReady := True\<rparr>, m')
            \<and> bit (getIF m') 0"
proof -
  define m1 where "m1 = m\<lparr>io := (io m)[0x0F := io m ! 0x0F OR INT_VBLANK, 0x44 := 144]\<rparr>"
  have "PPU_step (PPU_reset\<lparr>stat := 0, ly := 143, mode := 0\<rparr>, m) 204
         = seen_by_bus (PPU_reset\<lparr>stat := 1, ly := 144, mode := 1, frameReady := True\<rparr>, m1)"
    unfolding m1_def using assms [unfolded lcd_regs_reset_def]
    by (simp add: PPU_step_def Let_def readIO_def writeIO_def PPU_reset_def
        setMode_def checkLYC_def checkSTATInterrupt_def getIF_def setIF_def)
  then have "PPU_step (PPU_reset\<lparr>stat := 0, ly := 143, mode := 0\<rparr>, m) 204
         = (PPU_reset\<lparr>stat := 1, ly := 144, mode := 1, frameReady := True\<rparr>,
            snd (seen_by_bus (PPU_reset\<lparr>stat := 1, ly := 144, mode := 1, frameReady := True\<rparr>, m1)))"
    by (simp only: seen_by_bus_pair [symmetric])
  moreover have "bit (getIF m1) 0"
    unfolding m1_def using assms
    by (simp add: getIF_def lcd_regs_reset_def INT_VBLANK_def bit_simps)
  then have "bit (getIF (snd (seen_by_bus
      (PPU_reset\<lparr>stat := 1, ly := 144, mode := 1, frameReady := True\<rparr>, m1)))) 0"
    by (simp only: getIF_seen)
  ultimately show ?thesis by blast
qed

lemma reach_oam_transfer:
  assumes "ppu_reach PPU_reset h (PPU_reset\<lparr>stat := s, ly := y\<rparr>)"
    and "s = 0 \<or> s = 2" and "lcd_regs_reset m"
  shows "\<exists>h2 m2. PPU_step (PPU_step (PPU_reset\<lparr>stat := s, ly := y\<rparr>, m) 80) 172
                  = (PPU_reset\<lparr>stat := 0, ly := y, mode := 0\<rparr>, m2)
           \<and> lcd_regs_reset m2
           \<and> ppu_reach PPU_reset h2 (PPU_reset\<lparr>stat := 0, ly := y, mode := 0\<rparr>)
           \<and> modeSet h2 \<and> \<not> lyWritten h2"
proof -
  from line_step_oam [OF assms(2,3)]
  obtain m1 where s1: "PPU_step (PPU_reset\<lparr>stat := s, ly := y\<rparr>, m) 80
                        = (PPU_reset\<lparr>stat := 3, ly := y, mode := 3\<rparr>, m1)"
    and l1: "lcd_regs_reset m1"
    by blast
  from reach_step [OF assms(1) s1]
  obtain h1 where h1: "ppu_reach PPU_reset h1 (PPU_reset\<lparr>stat := 3, ly := y, mode := 3\<rparr>)"
    by blast
  from line_step_transfer [OF l1]
  obtain m2 where s2: "PPU_step (PPU_reset\<lparr>stat := 3, ly := y, mode := 3\<rparr>, m1) 172
                        = (PPU_reset\<lparr>stat := 0, ly := y, mode := 0\<rparr>, m2)"
    and l2: "lcd_regs_reset m2"
    by blast
  from reach_step [OF h1 s2]
  obtain h2 where h2: "ppu_reach PPU_reset h2 (PPU_reset\<lparr>stat := 0, ly := y, mode := 0\<rparr>)"
    "modeSet h2" "\<not> lyWritten h2"
    by auto
  have "PPU_step (PPU_step (PPU_reset\<lparr>stat := s, ly := y\<rparr>, m) 80) 172
          = (PPU_reset\<lparr>stat := 0, ly := y, mode := 0\<rparr>, m2)"
    by (simp only: s1 s2)
  with l2 h2 show ?thesis by blast
qed

lemma reach_line_visible:
  assumes "ppu_reach PPU_reset h (PPU_reset\<lparr>stat := s, ly := of_nat n\<rparr>)"
    and "n < 143" and "s = 0 \<or> s = 2" and "lcd_regs_reset m"
  shows "\<exists>h' m'. ppu_line (PPU_reset\<lparr>stat := s, ly := of_nat n\<rparr>, m)
                  = (PPU_reset\<lparr>stat := 2, ly := of_nat (Suc n)\<rparr>, m')
           \<and> lcd_regs_reset m'
           \<and> ppu_reach PPU_reset h' (PPU_reset\<lparr>stat := 2, ly := of_nat (Suc n)\<rparr>)
           \<and> modeSet h' \<and> \<not> lyWritten h' \<and> lycCompared h'"
proof -
  from reach_oam_transfer [OF assms(1,3,4)]
  obtain h2 m2 where s2: "PPU_step (PPU_step (PPU_reset\<lparr>stat := s, ly := of_nat n\<rparr>, m) 80) 172
                  = (PPU_reset\<lparr>stat := 0, ly := of_nat n, mode := 0\<rparr>, m2)"
    and l2: "lcd_regs_reset m2"
    and h2: "ppu_reach PPU_reset h2 (PPU_reset\<lparr>stat := 0, ly := of_nat n, mode := 0\<rparr>)"
      "modeSet h2" "\<not> lyWritten h2"
    by blast
  from line_step_hblank [OF assms(2) l2]
  obtain m3 where s3: "PPU_step (PPU_reset\<lparr>stat := 0, ly := of_nat n, mode := 0\<rparr>, m2) 204
                        = (PPU_reset\<lparr>stat := 2, ly := of_nat (Suc n)\<rparr>, m3)"
    and l3: "lcd_regs_reset m3"
    by blast
  note f = u8_of_nat_facts(4) [OF assms(2)]
  from reach_step [OF h2(1) s3]
  obtain h3 where h3: "ppu_reach PPU_reset h3 (PPU_reset\<lparr>stat := 2, ly := of_nat (Suc n)\<rparr>)"
    "modeSet h3" "\<not> lyWritten h3" "lycCompared h3"
    using h2(2,3) f by (auto simp add: PPU_reset_def simp del: of_nat_Suc)
  have "ppu_line (PPU_reset\<lparr>stat := s, ly := of_nat n\<rparr>, m)
          = (PPU_reset\<lparr>stat := 2, ly := of_nat (Suc n)\<rparr>, m3)"
    by (simp only: ppu_line_def s2 s3)
  with l3 h3 show ?thesis by blast
qed

lemma reach_line_last:
  assumes "ppu_reach PPU_reset h (PPU_reset\<lparr>stat := s, ly := 143\<rparr>)"
    and "s = 0 \<or> s = 2" and "lcd_regs_reset m"
  shows "\<exists>h' m'. ppu_line (PPU_reset\<lparr>stat := s, ly := 143\<rparr>, m)
                  = (PPU_reset\<lparr>stat := 1, ly := 144, mode := 1, frameReady := True\<rparr>, m')
           \<and> bit (getIF m') 0
           \<and> ppu_reach PPU_reset h'
                 (PPU_reset\<lparr>stat := 1, ly := 144, mode := 1, frameReady := True\<rparr>)
           \<and> modeSet h' \<and> \<not> lyWritten h' \<and> lycCompared h'"
proof -
  from reach_oam_transfer [OF assms]
  obtain h2 m2 where s2: "PPU_step (PPU_step (PPU_reset\<lparr>stat := s, ly := 143\<rparr>, m) 80) 172
                  = (PPU_reset\<lparr>stat := 0, ly := 143, mode := 0\<rparr>, m2)"
    and l2: "lcd_regs_reset m2"
    and h2: "ppu_reach PPU_reset h2 (PPU_reset\<lparr>stat := 0, ly := 143, mode := 0\<rparr>)"
      "modeSet h2" "\<not> lyWritten h2"
    by blast
  from line_step_hblank_last [OF l2]
  obtain m3 where s3: "PPU_step (PPU_reset\<lparr>stat := 0, ly := 143, mode := 0\<rparr>, m2) 204
                  = (PPU_reset\<lparr>stat := 1, ly := 144, mode := 1, frameReady := True\<rparr>, m3)"
    and i3: "bit (getIF m3) 0"
    by blast
  from reach_step [OF h2(1) s3]
  obtain h3 where h3: "ppu_reach PPU_reset h3
        (PPU_reset\<lparr>stat := 1, ly := 144, mode := 1, frameReady := True\<rparr>)"
    "modeSet h3" "\<not> lyWritten h3" "lycCompared h3"
    using h2(2,3) by (auto simp add: PPU_reset_def)
  have "ppu_line (PPU_reset\<lparr>stat := s, ly := 143\<rparr>, m)
          = (PPU_reset\<lparr>stat := 1, ly := 144, mode := 1, frameReady := True\<rparr>, m3)"
    by (simp only: ppu_line_def s2 s3)
  with i3 h3 show ?thesis by blast
qed

lemma reach_lines_visible:
  assumes "lcd_regs_reset m" and "n \<le> 143"
  shows "\<exists>h m' s. (ppu_line ^^ n) (PPU_reset, m) = (PPU_reset\<lparr>stat := s, ly := of_nat n\<rparr>, m')
           \<and> (s = 0 \<or> s = 2) \<and> lcd_regs_reset m'
           \<and> ppu_reach PPU_reset h (PPU_reset\<lparr>stat := s, ly := of_nat n\<rparr>)
           \<and> \<not> lyWritten h \<and> (0 < n \<longrightarrow> modeSet h \<and> lycCompared h)"
  using assms(2)
proof (induction n)
  case 0
  have e: "PPU_reset = PPU_reset\<lparr>stat := 0, ly := of_nat 0\<rparr>" by (simp add: PPU_reset_def)
  have "ppu_reach PPU_reset \<lparr>modeSet = False, lyWritten = False, lycCompared = False\<rparr>
          (PPU_reset\<lparr>stat := 0, ly := of_nat 0\<rparr>)"
    using ppu_reach.start [of PPU_reset] e by simp
  moreover have "(ppu_line ^^ 0) (PPU_reset, m) = (PPU_reset\<lparr>stat := 0, ly := of_nat 0\<rparr>, m)"
    using e by simp
  moreover have "\<not> lyWritten \<lparr>modeSet = False, lyWritten = False, lycCompared = False\<rparr>"
    by simp
  ultimately show ?case using assms(1) by blast
next
  case (Suc n)
  then obtain h m' s where ih:
    "(ppu_line ^^ n) (PPU_reset, m) = (PPU_reset\<lparr>stat := s, ly := of_nat n\<rparr>, m')"
    "s = 0 \<or> s = 2" "lcd_regs_reset m'"
    "ppu_reach PPU_reset h (PPU_reset\<lparr>stat := s, ly := of_nat n\<rparr>)"
    by auto
  have lt: "n < 143" using Suc.prems by simp
  from reach_line_visible [OF ih(4) lt ih(2,3)]
  obtain h' m'' where st:
    "ppu_line (PPU_reset\<lparr>stat := s, ly := of_nat n\<rparr>, m')
       = (PPU_reset\<lparr>stat := 2, ly := of_nat (Suc n)\<rparr>, m'')"
    "lcd_regs_reset m''"
    "ppu_reach PPU_reset h' (PPU_reset\<lparr>stat := 2, ly := of_nat (Suc n)\<rparr>)"
    "modeSet h'" "\<not> lyWritten h'" "lycCompared h'"
    by blast
  have "(ppu_line ^^ Suc n) (PPU_reset, m)
        = (PPU_reset\<lparr>stat := 2, ly := of_nat (Suc n)\<rparr>, m'')"
    using ih(1) st(1) by (simp del: of_nat_Suc)
  with st show ?case by blast
qed

lemma reach_vblank_entry:
  assumes "lcd_regs_reset m"
  shows "\<exists>h m'. (ppu_line ^^ 144) (PPU_reset, m)
            = (PPU_reset\<lparr>stat := 1, ly := 144, mode := 1, frameReady := True\<rparr>, m')
          \<and> bit (getIF m') 0
          \<and> ppu_reach PPU_reset h
                (PPU_reset\<lparr>stat := 1, ly := 144, mode := 1, frameReady := True\<rparr>)
          \<and> modeSet h \<and> \<not> lyWritten h \<and> lycCompared h"
proof -
  from reach_lines_visible [OF assms, of 143]
  obtain h m' s where l: "(ppu_line ^^ 143) (PPU_reset, m) = (PPU_reset\<lparr>stat := s, ly := 143\<rparr>, m')"
    "s = 0 \<or> s = 2" "lcd_regs_reset m'"
    "ppu_reach PPU_reset h (PPU_reset\<lparr>stat := s, ly := 143\<rparr>)"
    by auto
  from reach_line_last [OF l(4,2,3)]
  obtain h' m'' where st:
    "ppu_line (PPU_reset\<lparr>stat := s, ly := 143\<rparr>, m')
       = (PPU_reset\<lparr>stat := 1, ly := 144, mode := 1, frameReady := True\<rparr>, m'')"
    "bit (getIF m'') 0"
    "ppu_reach PPU_reset h' (PPU_reset\<lparr>stat := 1, ly := 144, mode := 1, frameReady := True\<rparr>)"
    "modeSet h'" "\<not> lyWritten h'" "lycCompared h'"
    by blast
  have "(ppu_line ^^ 144) (PPU_reset, m) = ppu_line ((ppu_line ^^ 143) (PPU_reset, m))"
    by (simp add: numeral_eq_Suc)
  also have "\<dots> = (PPU_reset\<lparr>stat := 1, ly := 144, mode := 1, frameReady := True\<rparr>, m'')"
    by (simp only: l(1) st(1))
  finally have "(ppu_line ^^ 144) (PPU_reset, m)
      = (PPU_reset\<lparr>stat := 1, ly := 144, mode := 1, frameReady := True\<rparr>, m'')" .
  with st show ?thesis by blast
qed

lemma vblank_state:
  "fst ((ppu_line ^^ 144) (PPU_reset, Memory_init))
     = PPU_reset\<lparr>stat := 1, ly := 144, mode := 1, frameReady := True\<rparr>"
  using reach_vblank_entry [OF lcd_regs_reset_init] by auto

lemma first_line_state:
  "fst (ppu_line (PPU_reset, Memory_init)) = PPU_reset\<lparr>stat := 2, ly := 1\<rparr>"
proof -
  have e: "PPU_reset = PPU_reset\<lparr>stat := 0, ly := of_nat 0\<rparr>" by (simp add: PPU_reset_def)
  have r: "ppu_reach PPU_reset \<lparr>modeSet = False, lyWritten = False, lycCompared = False\<rparr>
          (PPU_reset\<lparr>stat := 0, ly := of_nat 0\<rparr>)"
    using ppu_reach.start [of PPU_reset] e by simp
  have z: "(0::u8) = 0 \<or> (0::u8) = 2" by simp
  from reach_line_visible [OF r _ z lcd_regs_reset_init]
  obtain m' where "ppu_line (PPU_reset\<lparr>stat := 0, ly := of_nat 0\<rparr>, Memory_init)
       = (PPU_reset\<lparr>stat := 2, ly := of_nat (Suc 0)\<rparr>, m')"
    by auto
  then show ?thesis using e by simp
qed

lemma lyc_bus_regs:
  "readIO lyc_bus 0x40 = 0x91" "readIO lyc_bus 0x42 = 0" "readIO lyc_bus 0x43 = 0"
  "readIO lyc_bus 0x45 = 1" "readIO lyc_bus 0x47 = 0xFC" "readIO lyc_bus 0x48 = 0xFF"
  "readIO lyc_bus 0x49 = 0xFF" "readIO lyc_bus 0x4A = 0" "readIO lyc_bus 0x4B = 0"
  by (simp_all add: lyc_bus_def Memory_write_def Memory_init_def readIO_def)

lemma lyc_line_steps:
  "fst (PPU_step (PPU_reset, lyc_bus) 80) = PPU_reset\<lparr>lyc := 1, mode := 3, stat := 3\<rparr>"
  "fst (PPU_step (PPU_reset\<lparr>lyc := 1, mode := 3, stat := 3\<rparr>, lyc_bus) 172)
     = PPU_reset\<lparr>lyc := 1, mode := 0, stat := 0\<rparr>"
  "fst (PPU_step (PPU_reset\<lparr>lyc := 1, mode := 0, stat := 0\<rparr>, lyc_bus) 204)
     = PPU_reset\<lparr>lyc := 1, ly := 1, stat := 6\<rparr>"
  by (simp_all add: PPU_step_fst io_regs_def lyc_bus_regs PPU_reset_def Let_def
      renderScanline_def)

lemma lyc_line_state:
  "ppu_line_on lyc_bus PPU_reset = PPU_reset\<lparr>lyc := 1, ly := 1, stat := 6\<rparr>"
  by (simp only: ppu_line_on_def lyc_line_steps)

lemma lyc_line_reach:
  "\<exists>h. ppu_reach PPU_reset h (ppu_line_on lyc_bus PPU_reset) \<and> modeSet h \<and> lycCompared h"
proof -
  have s1: "PPU_step (PPU_reset, lyc_bus) 80
      = (PPU_reset\<lparr>lyc := 1, mode := 3, stat := 3\<rparr>, snd (PPU_step (PPU_reset, lyc_bus) 80))"
    using lyc_line_steps(1) by (simp add: prod_eq_iff)
  from reach_step [OF ppu_reach.start s1]
  obtain h1 where h1: "ppu_reach PPU_reset h1 (PPU_reset\<lparr>lyc := 1, mode := 3, stat := 3\<rparr>)"
    by blast
  have s2: "PPU_step (PPU_reset\<lparr>lyc := 1, mode := 3, stat := 3\<rparr>, lyc_bus) 172
      = (PPU_reset\<lparr>lyc := 1, mode := 0, stat := 0\<rparr>,
         snd (PPU_step (PPU_reset\<lparr>lyc := 1, mode := 3, stat := 3\<rparr>, lyc_bus) 172))"
    using lyc_line_steps(2) by (simp add: prod_eq_iff)
  from reach_step [OF h1 s2]
  obtain h2 where h2: "ppu_reach PPU_reset h2 (PPU_reset\<lparr>lyc := 1, mode := 0, stat := 0\<rparr>)"
    by blast
  have s3: "PPU_step (PPU_reset\<lparr>lyc := 1, mode := 0, stat := 0\<rparr>, lyc_bus) 204
      = (PPU_reset\<lparr>lyc := 1, ly := 1, stat := 6\<rparr>,
         snd (PPU_step (PPU_reset\<lparr>lyc := 1, mode := 0, stat := 0\<rparr>, lyc_bus) 204))"
    using lyc_line_steps(3) by (simp add: prod_eq_iff)
  from reach_step [OF h2 s3]
  obtain h3 where "ppu_reach PPU_reset h3 (PPU_reset\<lparr>lyc := 1, ly := 1, stat := 6\<rparr>)"
    "modeSet h3" "lycCompared h3"
    by (auto simp add: PPU_reset_def)
  then show ?thesis unfolding lyc_line_state by blast
qed

theorem ppu_invariants_witness:
  "unat (ly (fst ((ppu_line ^^ 144) (PPU_reset, Memory_init)))) \<le> 153
   \<and> mode (fst ((ppu_line ^^ 144) (PPU_reset, Memory_init))) = 1
   \<and> 144 \<le> unat (ly (fst ((ppu_line ^^ 144) (PPU_reset, Memory_init))))
   \<and> stat (fst ((ppu_line ^^ 144) (PPU_reset, Memory_init))) AND 0x03
       = word_of_int (mode (fst ((ppu_line ^^ 144) (PPU_reset, Memory_init))))
   \<and> ly (fst ((ppu_line ^^ 144) (PPU_reset, Memory_init)))
       \<noteq> lyc (fst ((ppu_line ^^ 144) (PPU_reset, Memory_init)))
   \<and> bit (stat (fst ((ppu_line ^^ 144) (PPU_reset, Memory_init)))) 2 = False
   \<and> ly (ppu_line_on lyc_bus PPU_reset) = lyc (ppu_line_on lyc_bus PPU_reset)
   \<and> bit (stat (ppu_line_on lyc_bus PPU_reset)) 2
   \<and> stat (ppu_line_on lyc_bus PPU_reset) AND 0x03
       = word_of_int (mode (ppu_line_on lyc_bus PPU_reset))"
proof -
  define pv where "pv = fst ((ppu_line ^^ 144) (PPU_reset, Memory_init))"
  define pa where "pa = ppu_line_on lyc_bus PPU_reset"
  have pv: "pv = PPU_reset\<lparr>stat := 1, ly := 144, mode := 1, frameReady := True\<rparr>"
    unfolding pv_def by (rule vblank_state)
  from reach_vblank_entry [OF lcd_regs_reset_init]
  obtain h where h: "ppu_reach PPU_reset h pv" "modeSet h" "\<not> lyWritten h" "lycCompared h"
    unfolding pv by auto
  note t = ppu_invariants [OF h(1)]
  have m1: "mode pv = 1" by (simp add: pv)
  have ne: "ly pv \<noteq> lyc pv" by (simp add: pv PPU_reset_def)
  from lyc_line_reach
  obtain ha where ha: "ppu_reach PPU_reset ha pa" "modeSet ha" "lycCompared ha"
    unfolding pa_def by blast
  note ta = ppu_invariants [OF ha(1)]
  have eq: "ly pa = lyc pa" unfolding pa_def lyc_line_state by simp
  show ?thesis
    unfolding pv_def [symmetric] pa_def [symmetric]
    using t ta h(2-4) ha(2,3) m1 ne eq by blast
qed

text \<open>
  The claim as stated fails. Right after reset STAT is 0 while the mode is 2, and LY equals
  LYC (both 0) with bit 2 of STAT clear. After the first scanline (LY = 1, LYC = 0, bit 2
  clear) each of three things makes LY equal LYC and leaves bit 2 clear: a write to LY, a
  write to LCDC that switches the LCD off, and a step that finds LYC set to 1 on the bus.
  A write to LY at VBlank entry, 144 scanlines after reset, leaves the PPU in mode 1 with
  LY = 0.
\<close>

theorem ppu_invariants_counterexample:
  "stat PPU_reset AND 0x03 \<noteq> word_of_int (mode PPU_reset)
   \<and> ly PPU_reset = lyc PPU_reset \<and> \<not> bit (stat PPU_reset) 2
   \<and> ly (writeLY (fst (ppu_line (PPU_reset, Memory_init))) 0)
       = lyc (writeLY (fst (ppu_line (PPU_reset, Memory_init))) 0)
   \<and> \<not> bit (stat (writeLY (fst (ppu_line (PPU_reset, Memory_init))) 0)) 2
   \<and> ly (fst (writeLCDC (fst (ppu_line (PPU_reset, Memory_init)), Memory_init) 0x11))
       = lyc (fst (writeLCDC (fst (ppu_line (PPU_reset, Memory_init)), Memory_init) 0x11))
   \<and> \<not> bit (stat (fst (writeLCDC (fst (ppu_line (PPU_reset, Memory_init)), Memory_init) 0x11))) 2
   \<and> ly (fst (PPU_step (fst (ppu_line (PPU_reset, Memory_init)), lyc_bus) 4))
       = lyc (fst (PPU_step (fst (ppu_line (PPU_reset, Memory_init)), lyc_bus) 4))
   \<and> \<not> bit (stat (fst (PPU_step (fst (ppu_line (PPU_reset, Memory_init)), lyc_bus) 4))) 2
   \<and> mode (writeLY (fst ((ppu_line ^^ 144) (PPU_reset, Memory_init))) 0) = 1
   \<and> unat (ly (writeLY (fst ((ppu_line ^^ 144) (PPU_reset, Memory_init))) 0)) < 144"
proof -
  have a: "stat PPU_reset AND 0x03 \<noteq> word_of_int (mode PPU_reset)"
    "ly PPU_reset = lyc PPU_reset" "\<not> bit (stat PPU_reset) 2"
    by (simp_all add: PPU_reset_def)
  have b: "ly (writeLY (PPU_reset\<lparr>stat := 2, ly := 1\<rparr>) 0)
             = lyc (writeLY (PPU_reset\<lparr>stat := 2, ly := 1\<rparr>) 0)"
    "\<not> bit (stat (writeLY (PPU_reset\<lparr>stat := 2, ly := 1\<rparr>) 0)) 2"
    by (simp_all add: writeLY_def PPU_reset_def)
  have c0: "fst (writeLCDC (PPU_reset\<lparr>stat := 2, ly := 1\<rparr>, Memory_init) 0x11)
      = PPU_reset\<lparr>ly := 0, scanlineCycles := 0, mode := 0, stat := 0, lcdc := 0x11\<rparr>"
    by (simp add: writeLCDC_def Let_def case_prod_beta setMode_fst PPU_reset_def)
  have c: "ly (fst (writeLCDC (PPU_reset\<lparr>stat := 2, ly := 1\<rparr>, Memory_init) 0x11))
             = lyc (fst (writeLCDC (PPU_reset\<lparr>stat := 2, ly := 1\<rparr>, Memory_init) 0x11))"
    "\<not> bit (stat (fst (writeLCDC (PPU_reset\<lparr>stat := 2, ly := 1\<rparr>, Memory_init) 0x11))) 2"
    unfolding c0 by (simp_all add: PPU_reset_def)
  have d0: "fst (PPU_step (PPU_reset\<lparr>stat := 2, ly := 1\<rparr>, lyc_bus) 4)
      = PPU_reset\<lparr>stat := 2, ly := 1, lyc := 1, scanlineCycles := 4\<rparr>"
    by (simp add: PPU_step_fst io_regs_def lyc_bus_regs PPU_reset_def Let_def)
  have d: "ly (fst (PPU_step (PPU_reset\<lparr>stat := 2, ly := 1\<rparr>, lyc_bus) 4))
             = lyc (fst (PPU_step (PPU_reset\<lparr>stat := 2, ly := 1\<rparr>, lyc_bus) 4))"
    "\<not> bit (stat (fst (PPU_step (PPU_reset\<lparr>stat := 2, ly := 1\<rparr>, lyc_bus) 4))) 2"
    unfolding d0 by (simp_all add: PPU_reset_def)
  have e: "mode (writeLY (PPU_reset\<lparr>stat := 1, ly := 144, mode := 1, frameReady := True\<rparr>) 0) = 1"
    "unat (ly (writeLY (PPU_reset\<lparr>stat := 1, ly := 144, mode := 1, frameReady := True\<rparr>) 0)) < 144"
    by (simp_all add: writeLY_def PPU_reset_def)
  show ?thesis
    unfolding vblank_state first_line_state
    using a b c d e by blast
qed

subsection \<open>Dispatch of a pending interrupt\<close>

lemma bit_tests:
  fixes p :: u8
  shows "(p AND 1 \<noteq> 0) = bit p 0" "(p AND 2 \<noteq> 0) = bit p 1" "(p AND 4 \<noteq> 0) = bit p 2"
    "(p AND 8 \<noteq> 0) = bit p 3" "(p AND 16 \<noteq> 0) = bit p 4"
  using bit_iff_and_push_bit_not_eq_0 [of p 0] bit_iff_and_push_bit_not_eq_0 [of p 1]
    bit_iff_and_push_bit_not_eq_0 [of p 2] bit_iff_and_push_bit_not_eq_0 [of p 3]
    bit_iff_and_push_bit_not_eq_0 [of p 4]
  by (simp_all add: push_bit_eq_mult)

lemma pending_has_low_bit:
  fixes p x :: u8
  assumes "p = x AND 0x1F" and "p \<noteq> 0"
  shows "bit p 0 \<or> bit p 1 \<or> bit p 2 \<or> bit p 3 \<or> bit p 4"
proof (rule ccontr)
  assume n: "\<not> ?thesis"
  have "p = 0"
  proof (rule bit_word_eqI)
    fix n assume "n < LENGTH(8)"
    then have "n \<in> {0, 1, 2, 3, 4, 5, 6, 7}" by (rule lt8_cases)
    then show "bit p n = bit (0::u8) n"
      using n unfolding assms(1) by (auto simp add: bit_simps)
  qed
  with assms(2) show False by simp
qed



lemma below_bits:
  fixes p :: u8
  assumes "i \<le> 4" and "0 < i \<longrightarrow> \<not> bit p 0" and "1 < i \<longrightarrow> \<not> bit p 1"
      and "2 < i \<longrightarrow> \<not> bit p 2" and "3 < i \<longrightarrow> \<not> bit p 3"
  shows "\<forall>j<i. \<not> bit p j"
proof (intro allI impI)
  fix j :: nat
  assume "j < i"
  then have "(j = 0 \<and> 0 < i) \<or> (j = 1 \<and> 1 < i) \<or> (j = 2 \<and> 2 < i) \<or> (j = 3 \<and> 3 < i)"
    using assms(1) by arith
  then show "\<not> bit p j" using assms(2-5) by blast
qed

lemma highest_priority_values:
  fixes p :: u8
  shows "bit p 0 \<Longrightarrow> highest_priority p = (0x40, 1)"
    "\<not> bit p 0 \<Longrightarrow> bit p 1 \<Longrightarrow> highest_priority p = (0x48, 2)"
    "\<not> bit p 0 \<Longrightarrow> \<not> bit p 1 \<Longrightarrow> bit p 2 \<Longrightarrow> highest_priority p = (0x50, 4)"
    "\<not> bit p 0 \<Longrightarrow> \<not> bit p 1 \<Longrightarrow> \<not> bit p 2 \<Longrightarrow> bit p 3 \<Longrightarrow> highest_priority p = (0x58, 8)"
    "\<not> bit p 0 \<Longrightarrow> \<not> bit p 1 \<Longrightarrow> \<not> bit p 2 \<Longrightarrow> \<not> bit p 3 \<Longrightarrow> bit p 4 \<Longrightarrow> highest_priority p = (0x60, 16)"
  by (simp_all add: highest_priority_def INT_VBLANK_def INT_STAT_def INT_TIMER_def INT_SERIAL_def
          INT_JOYPAD_def bit_tests)

lemma vector_values:
  "(0x40 + 8 * of_nat 0 :: u16) = 0x40" "(2 ^ 0 :: u8) = 1"
  "(0x40 + 8 * of_nat 1 :: u16) = 0x48" "(2 ^ 1 :: u8) = 2"
  "(0x40 + 8 * of_nat 2 :: u16) = 0x50" "(2 ^ 2 :: u8) = 4"
  "(0x40 + 8 * of_nat 3 :: u16) = 0x58" "(2 ^ 3 :: u8) = 8"
  "(0x40 + 8 * of_nat 4 :: u16) = 0x60" "(2 ^ 4 :: u8) = 16"
  by simp_all

lemma lowest_pending:
  fixes p x :: u8
  assumes "p = x AND 0x1F" and "p \<noteq> 0"
  shows "\<exists>i<5. bit p i \<and> (\<forall>j<i. \<not> bit p j) \<and> highest_priority p = (0x40 + 8 * of_nat i, 2 ^ i)"
proof -
  consider (b0) "bit p 0"
    | (b1) "\<not> bit p 0" "bit p 1"
    | (b2) "\<not> bit p 0" "\<not> bit p 1" "bit p 2"
    | (b3) "\<not> bit p 0" "\<not> bit p 1" "\<not> bit p 2" "bit p 3"
    | (b4) "\<not> bit p 0" "\<not> bit p 1" "\<not> bit p 2" "\<not> bit p 3" "bit p 4"
    using pending_has_low_bit [OF assms] by blast
  then show ?thesis
  proof cases
    case b0
    have "(0::nat) < 5" by simp
    moreover have "\<forall>j<0. \<not> bit p j" by simp
    moreover have "highest_priority p = (0x40 + 8 * of_nat 0, 2 ^ 0)"
      unfolding vector_values by (rule highest_priority_values(1) [OF b0])
    ultimately show ?thesis using b0 by blast
  next
    case b1
    have "(1::nat) < 5" by simp
    moreover have "\<forall>j<1. \<not> bit p j" using b1 by (intro below_bits) simp_all
    moreover have "highest_priority p = (0x40 + 8 * of_nat 1, 2 ^ 1)"
      unfolding vector_values by (rule highest_priority_values(2) [OF b1])
    ultimately show ?thesis using b1 by blast
  next
    case b2
    have "(2::nat) < 5" by simp
    moreover have "\<forall>j<2. \<not> bit p j" using b2 by (intro below_bits) simp_all
    moreover have "highest_priority p = (0x40 + 8 * of_nat 2, 2 ^ 2)"
      unfolding vector_values by (rule highest_priority_values(3) [OF b2])
    ultimately show ?thesis using b2 by blast
  next
    case b3
    have "(3::nat) < 5" by simp
    moreover have "\<forall>j<3. \<not> bit p j" using b3 by (intro below_bits) simp_all
    moreover have "highest_priority p = (0x40 + 8 * of_nat 3, 2 ^ 3)"
      unfolding vector_values by (rule highest_priority_values(4) [OF b3])
    ultimately show ?thesis using b3 by blast
  next
    case b4
    have "(4::nat) < 5" by simp
    moreover have "\<forall>j<4. \<not> bit p j" using b4 by (intro below_bits) simp_all
    moreover have "highest_priority p = (0x40 + 8 * of_nat 4, 2 ^ 4)"
      unfolding vector_values by (rule highest_priority_values(5) [OF b4])
    ultimately show ?thesis using b4 by blast
  qed
qed



lemma handleInterrupts_dispatch:
  assumes "ime cpu" and "highest_priority (getIF m AND getIE m AND 0x1F) = (handler, b)"
    and "getIF m AND getIE m AND 0x1F \<noteq> 0"
  shows "handleInterrupts (cpu, m) =
     (20, (cpu\<lparr>halted := False, ime := False, sp := sp cpu - 2, pc := handler\<rparr>,
           write16 (setIF m (getIF m AND NOT b)) (sp cpu - 2) (pc cpu)))"
proof -
  have "handleInterrupts (cpu, m) =
     (let (handler, bit) = highest_priority (getIF m AND getIE m AND 0x1F);
          cpu = cpu\<lparr>halted := False, ime := False\<rparr>;
          m = setIF m (getIF m AND NOT bit);
          (cpu, m) = push16 (cpu, m) (pc cpu)
      in (20, (cpu\<lparr>pc := handler\<rparr>, m)))"
    using assms(1,3) unfolding handleInterrupts_def highest_priority_def by (simp add: Let_def)
  then show ?thesis
    by (simp add: assms(2) push16_def Let_def)
qed



lemma CPU_step_dispatch:
  assumes "ime cpu \<or> imeScheduled cpu"
    and "highest_priority (getIF m AND getIE m AND 0x1F) = (handler, b)"
    and "getIF m AND getIE m AND 0x1F \<noteq> 0"
  shows "CPU_step (cpu, m) =
     (20, (cpu\<lparr>imeScheduled := False, halted := False, ime := False, sp := sp cpu - 2,
               pc := handler\<rparr>,
           write16 (setIF m (getIF m AND NOT b)) (sp cpu - 2) (pc cpu)))"
proof (cases "imeScheduled cpu")
  case True
  have i: "ime (cpu\<lparr>ime := True, imeScheduled := False\<rparr>)" by simp
  show ?thesis
    using True
    by (simp add: CPU_step_def handleInterrupts_dispatch [OF i assms(2,3)])
next
  case False
  then have i: "ime cpu" using assms(1) by simp
  have e: "cpu\<lparr>imeScheduled := False\<rparr> = cpu" using False by (cases cpu) simp
  show ?thesis
    using False
    by (simp add: CPU_step_def handleInterrupts_dispatch [OF i assms(2,3)] e)
qed

lemma handleMBCWrite_io: "io (handleMBCWrite m a v) = io m"
  by (simp add: handleMBCWrite_def Let_def)

lemma write_io_frame:
  assumes "a < 0xFF00 \<or> 0xFF80 \<le> a"
  shows "io (Memory_write m a v) = io m"
proof (cases a rule: addr_regions)
  case io
  then show ?thesis using assms by (simp add: word_less_nat_alt word_le_nat_alt)
qed (simp_all add: Memory_write_def handleMBCWrite_io Let_def word_less_nat_alt word_le_nat_alt)

lemma write16_IF:
  assumes "a < 0xFF00 \<or> 0xFF80 \<le> a" and "a + 1 < 0xFF00 \<or> 0xFF80 \<le> a + 1"
  shows "getIF (write16 m a v) = getIF m"
  by (simp add: write16_def write8_def getIF_def Let_def write_io_frame [OF assms(2)]
      write_io_frame [OF assms(1)])

lemma word16_halves:
  fixes v :: u16
  shows "ucast (ucast (v AND 0xFF) :: u8) OR push_bit 8 (ucast (ucast (drop_bit 8 v) :: u8)) = v"
proof -
  have m: "(0xFF :: u16) = mask 8" by (simp add: mask_eq_exp_minus_1)
  show ?thesis
    unfolding m by (rule bit_word_eqI) (auto simp add: bit_simps not_less)
qed



lemma write_wram_echo:
  assumes "0xC000 \<le> a" and "a < 0xFE00"
  shows "Memory_write m a v = m\<lparr>wram := (wram m)[(unat a - 0xC000) mod 0x2000 := v]\<rparr>"
proof (cases "a < 0xE000")
  case True
  then have k: "unat a - 0xC000 < 0x2000" "unat (a - 0xC000) = unat a - 0xC000"
    using assms by (simp_all add: word_less_nat_alt word_le_nat_alt unat_sub)
  have "(unat a - 0xC000) mod 0x2000 = unat (a - 0xC000)"
    unfolding k(2) using k(1) by simp
  then show ?thesis
    using assms True by (simp add: Memory_write_def word_less_nat_alt word_le_nat_alt)
next
  case False
  then have k: "unat a - 0xC000 = (unat a - 0xE000) + 0x2000" "unat a - 0xE000 < 0x2000"
    using assms by (simp_all add: word_less_nat_alt word_le_nat_alt)
  have "(unat a - 0xC000) mod 0x2000 = unat a - 0xE000"
    unfolding k(1) using k(2) by simp
  moreover have "unat (a - 0xE000) = unat a - 0xE000"
    using False by (simp add: word_less_nat_alt unat_sub word_le_nat_alt)
  ultimately have "(unat a - 0xC000) mod 0x2000 = unat (a - 0xE000)" by simp
  then show ?thesis
    using assms False by (simp add: Memory_write_def word_less_nat_alt word_le_nat_alt)
qed

lemma read_wram_echo:
  assumes "0xC000 \<le> a" and "a < 0xFE00"
  shows "Memory_read m a = wram m ! ((unat a - 0xC000) mod 0x2000)"
proof (cases "a < 0xE000")
  case True
  then have k: "unat a - 0xC000 < 0x2000" "unat (a - 0xC000) = unat a - 0xC000"
    using assms by (simp_all add: word_less_nat_alt word_le_nat_alt unat_sub)
  have "(unat a - 0xC000) mod 0x2000 = unat (a - 0xC000)"
    unfolding k(2) using k(1) by simp
  then show ?thesis
    using assms True by (simp add: Memory_read_def word_less_nat_alt word_le_nat_alt)
next
  case False
  then have k: "unat a - 0xC000 = (unat a - 0xE000) + 0x2000" "unat a - 0xE000 < 0x2000"
    using assms by (simp_all add: word_less_nat_alt word_le_nat_alt)
  have "(unat a - 0xC000) mod 0x2000 = unat a - 0xE000"
    unfolding k(1) using k(2) by simp
  moreover have "unat (a - 0xE000) = unat a - 0xE000"
    using False by (simp add: word_less_nat_alt unat_sub word_le_nat_alt)
  ultimately have "(unat a - 0xC000) mod 0x2000 = unat (a - 0xE000)" by simp
  then show ?thesis
    using assms False by (simp add: Memory_read_def word_less_nat_alt word_le_nat_alt)
qed

lemma write_hram:
  assumes "0xFF80 \<le> a" and "a < 0xFFFF"
  shows "Memory_write m a v = m\<lparr>hram := (hram m)[unat a - 0xFF80 := v]\<rparr>"
  using assms by (simp add: Memory_write_def word_less_nat_alt word_le_nat_alt unat_sub)

lemma read_hram_nat:
  assumes "0xFF80 \<le> a" and "a < 0xFFFF"
  shows "Memory_read m a = hram m ! (unat a - 0xFF80)"
  using assms by (simp add: Memory_read_def word_less_nat_alt word_le_nat_alt unat_sub)



lemma mod_Suc_neq: "1 < k \<Longrightarrow> Suc n mod k \<noteq> n mod k"
  by (auto simp add: mod_Suc)

lemma stack_bytes_read_back:
  assumes "length (wram m) = 0x2000" and "length (hram m) = 0x7F"
    and "stack_ram a" and "stack_ram (a + 1)"
  shows "read16 (write16 m a v) a = v"
proof -
  have ne: "unat (a + 1) = unat a + 1"
    using assms(3) unfolding stack_ram_def
    by (auto simp add: unat_word_ariths word_less_nat_alt word_le_nat_alt)
  from assms(3) consider (w) "0xC000 \<le> a" "a < 0xFE00" | (h) "0xFF80 \<le> a" "a < 0xFFFF"
    unfolding stack_ram_def by blast
  then show ?thesis
  proof cases
    case w
    have w1: "0xC000 \<le> a + 1" "a + 1 < 0xFE00"
      using assms(4) w ne unfolding stack_ram_def
      by (auto simp add: word_less_nat_alt word_le_nat_alt)
    define i where "i = (unat a - 0xC000) mod 0x2000"
    define j where "j = (unat (a + 1) - 0xC000) mod 0x2000"
    have "unat (a + 1) - 0xC000 = Suc (unat a - 0xC000)"
      using w ne by (simp add: word_le_nat_alt)
    then have ij: "j \<noteq> i" unfolding i_def j_def by (simp add: mod_Suc_neq)
    have lt: "i < 0x2000" "j < 0x2000" unfolding i_def j_def by simp_all
    have wr: "write16 m a v =
        m\<lparr>wram := (wram m)[i := ucast (v AND 0xFF), j := ucast (drop_bit 8 v)]\<rparr>"
      by (simp add: write16_def write8_def Let_def write_wram_echo [OF w] write_wram_echo [OF w1]
          i_def j_def)
    show ?thesis
      unfolding wr read16_def read8_def read_wram_echo [OF w] read_wram_echo [OF w1]
        i_def [symmetric] j_def [symmetric]
      using ij lt assms(1) by (simp add: word16_halves)
  next
    case h
    have h1: "0xFF80 \<le> a + 1" "a + 1 < 0xFFFF"
      using assms(4) h ne unfolding stack_ram_def
      by (auto simp add: word_less_nat_alt word_le_nat_alt)
    define i where "i = unat a - 0xFF80"
    define j where "j = unat (a + 1) - 0xFF80"
    have ij: "j = Suc i" unfolding i_def j_def using h ne by (simp add: word_le_nat_alt)
    have lt: "j < 0x7F" unfolding j_def using h1 by (simp add: word_less_nat_alt word_le_nat_alt)
    have wr: "write16 m a v =
        m\<lparr>hram := (hram m)[i := ucast (v AND 0xFF), j := ucast (drop_bit 8 v)]\<rparr>"
      by (simp add: write16_def write8_def Let_def write_hram [OF h] write_hram [OF h1]
          i_def j_def)
    show ?thesis
      unfolding wr read16_def read8_def read_hram_nat [OF h] read_hram_nat [OF h1]
        i_def [symmetric] j_def [symmetric]
      using ij lt assms(2) by (simp add: word16_halves)
  qed
qed



text \<open>
  C1. Whenever IME is set and \<open>p = IF & IE & 0x1F\<close> is not zero, \<open>CPU::step\<close> returns 20
  clocks and does nothing but dispatch: with \<open>i\<close> the lowest set bit of \<open>p\<close> (VBlank,
  STAT, Timer, Serial, Joypad in this order), IME, the pending-enable flag and \<open>halted\<close>
  are cleared, bit \<open>i\<close> and no other is cleared in IF, PC is pushed (SP decreases by 2) and
  PC becomes \<open>0x40 + 8 * i\<close>. The push follows the update of IF: with both stack bytes
  outside the I/O page IF still holds that value after the step, and with the stack in
  work RAM or high RAM the pushed word read back at the new SP is the old PC.
\<close>

theorem interrupt_dispatch:
  assumes "ime cpu" and "p = getIF m AND getIE m AND 0x1F" and "p \<noteq> 0"
  shows "\<exists>i<5. bit p i \<and> (\<forall>j<i. \<not> bit p j)
     \<and> CPU_step (cpu, m) =
         (20, (cpu\<lparr>imeScheduled := False, halted := False, ime := False, sp := sp cpu - 2,
                   pc := 0x40 + 8 * of_nat i\<rparr>,
               write16 (setIF m (getIF m AND NOT (2 ^ i))) (sp cpu - 2) (pc cpu)))
     \<and> (length (io m) = 0x80
          \<and> (sp cpu - 2 < 0xFF00 \<or> 0xFF80 \<le> sp cpu - 2)
          \<and> (sp cpu - 1 < 0xFF00 \<or> 0xFF80 \<le> sp cpu - 1)
          \<longrightarrow> getIF (snd (snd (CPU_step (cpu, m)))) = getIF m AND NOT (2 ^ i))
     \<and> (sizes_ok m \<and> stack_ram (sp cpu - 2) \<and> stack_ram (sp cpu - 1)
          \<longrightarrow> read16 (snd (snd (CPU_step (cpu, m)))) (sp cpu - 2) = pc cpu)"
proof -
  have p: "p = (getIF m AND getIE m) AND 0x1F" using assms(2) by (simp add: ac_simps)
  from lowest_pending [OF p assms(3)]
  obtain i where i: "i < 5" "bit p i" "\<forall>j<i. \<not> bit p j"
    and pk: "highest_priority p = (0x40 + 8 * of_nat i, 2 ^ i)"
    by blast
  have nz: "getIF m AND getIE m AND 0x1F \<noteq> 0" using assms(2,3) by simp
  have pk': "highest_priority (getIF m AND getIE m AND 0x1F) = (0x40 + 8 * of_nat i, 2 ^ i)"
    using pk assms(2) by simp
  have "ime cpu \<or> imeScheduled cpu" using assms(1) by simp
  note st = CPU_step_dispatch [OF this pk' nz]
  have s1: "sp cpu - 2 + 1 = sp cpu - 1" by simp
  have "getIF (snd (snd (CPU_step (cpu, m)))) = getIF m AND NOT (2 ^ i)"
    if "length (io m) = 0x80" "sp cpu - 2 < 0xFF00 \<or> 0xFF80 \<le> sp cpu - 2"
      "sp cpu - 1 < 0xFF00 \<or> 0xFF80 \<le> sp cpu - 1"
  proof -
    have "getIF (write16 (setIF m (getIF m AND NOT (2 ^ i))) (sp cpu - 2) (pc cpu))
          = getIF (setIF m (getIF m AND NOT (2 ^ i)))"
      by (rule write16_IF) (simp_all only: s1 that)
    also have "\<dots> = getIF m AND NOT (2 ^ i)"
      using that(1) by (simp add: getIF_def setIF_def)
    finally show ?thesis by (simp add: st)
  qed
  moreover have "read16 (snd (snd (CPU_step (cpu, m)))) (sp cpu - 2) = pc cpu"
    if "sizes_ok m" "stack_ram (sp cpu - 2)" "stack_ram (sp cpu - 1)"
  proof -
    have l: "length (wram (setIF m (getIF m AND NOT (2 ^ i)))) = 0x2000"
      "length (hram (setIF m (getIF m AND NOT (2 ^ i)))) = 0x7F"
      using that(1) by (simp_all add: sizes_ok_def setIF_def)
    have "stack_ram (sp cpu - 2 + 1)" by (simp only: s1 that(3))
    from stack_bytes_read_back [OF l that(2) this] show ?thesis by (simp add: st)
  qed
  ultimately show ?thesis using i st by blast
qed




lemma bit_0x14: "bit (0x14 :: u8) i \<Longrightarrow> i = 2 \<or> i = 4"
proof -
  assume b: "bit (0x14 :: u8) i"
  then have "i < LENGTH(8)" by (rule bit_imp_le_length)
  then have "i \<in> {0, 1, 2, 3, 4, 5, 6, 7}" by (rule lt8_cases)
  with b show ?thesis by (auto simp add: bit_simps)
qed

theorem interrupt_dispatch_witness:
  "fst (CPU_step (CPU_reset\<lparr>ime := True\<rparr>, setIF (Memory_init\<lparr>ie := 0x1F\<rparr>) 0x14)) = 20
   \<and> pc (fst (snd (CPU_step (CPU_reset\<lparr>ime := True\<rparr>, setIF (Memory_init\<lparr>ie := 0x1F\<rparr>) 0x14)))) = 0x50
   \<and> sp (fst (snd (CPU_step (CPU_reset\<lparr>ime := True\<rparr>, setIF (Memory_init\<lparr>ie := 0x1F\<rparr>) 0x14)))) = 0xFFFC
   \<and> \<not> ime (fst (snd (CPU_step (CPU_reset\<lparr>ime := True\<rparr>, setIF (Memory_init\<lparr>ie := 0x1F\<rparr>) 0x14))))
   \<and> getIF (snd (snd (CPU_step (CPU_reset\<lparr>ime := True\<rparr>, setIF (Memory_init\<lparr>ie := 0x1F\<rparr>) 0x14)))) = 0x10
   \<and> read16 (snd (snd (CPU_step (CPU_reset\<lparr>ime := True\<rparr>, setIF (Memory_init\<lparr>ie := 0x1F\<rparr>) 0x14)))) 0xFFFC
       = 0x0100"
proof -
  define c0 where "c0 = CPU_reset\<lparr>ime := True\<rparr>"
  define m0 where "m0 = setIF (Memory_init\<lparr>ie := 0x1F\<rparr>) 0x14"
  have h1: "ime c0" by (simp add: c0_def)
  have h2: "(0x14 :: u8) = getIF m0 AND getIE m0 AND 0x1F"
    by (simp add: m0_def getIF_def setIF_def getIE_def Memory_init_def)
  have h3: "(0x14 :: u8) \<noteq> 0" by simp
  have c: "sp c0 = 0xFFFE" "pc c0 = 0x0100" by (simp_all add: c0_def CPU_reset_def)
  have io: "length (io m0) = 0x80" by (simp add: m0_def setIF_def Memory_init_def)
  have sz: "sizes_ok m0" by (simp add: m0_def setIF_def Memory_init_def sizes_ok_def)
  have stk: "sp c0 - 2 < 0xFF00 \<or> 0xFF80 \<le> sp c0 - 2" "sp c0 - 1 < 0xFF00 \<or> 0xFF80 \<le> sp c0 - 1"
    "stack_ram (sp c0 - 2)" "stack_ram (sp c0 - 1)"
    by (simp_all add: c stack_ram_def)
  have if0: "getIF m0 = 0x14" by (simp add: m0_def getIF_def setIF_def Memory_init_def)
  from interrupt_dispatch [OF h1 h2 h3]
  obtain i where i: "bit (0x14 :: u8) i" "\<forall>j<i. \<not> bit (0x14 :: u8) j"
    and st: "CPU_step (c0, m0) =
         (20, (c0\<lparr>imeScheduled := False, halted := False, ime := False, sp := sp c0 - 2,
                   pc := 0x40 + 8 * of_nat i\<rparr>,
               write16 (setIF m0 (getIF m0 AND NOT (2 ^ i))) (sp c0 - 2) (pc c0)))"
    and fl: "length (io m0) = 0x80
          \<and> (sp c0 - 2 < 0xFF00 \<or> 0xFF80 \<le> sp c0 - 2)
          \<and> (sp c0 - 1 < 0xFF00 \<or> 0xFF80 \<le> sp c0 - 1)
          \<longrightarrow> getIF (snd (snd (CPU_step (c0, m0)))) = getIF m0 AND NOT (2 ^ i)"
    and rb: "sizes_ok m0 \<and> stack_ram (sp c0 - 2) \<and> stack_ram (sp c0 - 1)
          \<longrightarrow> read16 (snd (snd (CPU_step (c0, m0)))) (sp c0 - 2) = pc c0"
    by blast
  have "i = 2 \<or> i = 4" using i(1) by (rule bit_0x14)
  moreover have "i \<noteq> 4"
  proof
    assume "i = 4"
    then have "(2::nat) < i" by simp
    with i(2) have "\<not> bit (0x14 :: u8) 2" by blast
    then show False by (simp add: bit_simps)
  qed
  ultimately have i2: "i = 2" by simp
  have a: "fst (CPU_step (c0, m0)) = 20" by (simp add: st)
  have b: "pc (fst (snd (CPU_step (c0, m0)))) = 0x50" by (simp add: st i2)
  have b': "sp (fst (snd (CPU_step (c0, m0)))) = 0xFFFC" by (simp add: st c)
  have b'': "\<not> ime (fst (snd (CPU_step (c0, m0))))" by (simp add: st)
  have d: "getIF (snd (snd (CPU_step (c0, m0)))) = 0x10"
    using fl io stk(1,2) by (simp add: if0 i2)
  have e: "read16 (snd (snd (CPU_step (c0, m0)))) 0xFFFC = 0x0100"
    using rb sz stk(3,4) by (simp add: c)
  show ?thesis
    unfolding c0_def [symmetric] m0_def [symmetric] using a b b' b'' d e by blast
qed

subsection \<open>Enabling interrupts\<close>

lemma execute_EI: "execute 0xFB (cpu, m) = (4, (cpu\<lparr>imeScheduled := True\<rparr>, m))"
  by (simp add: execute_def opcode_table_def)

lemma handleInterrupts_masked:
  assumes "\<not> ime cpu" and "\<not> halted cpu"
  shows "handleInterrupts (cpu, m) = (0, (cpu, m))"
proof -
  have e: "cpu\<lparr>halted := False\<rparr> = cpu" using assms(2) by (cases cpu) simp
  show ?thesis using assms(1) by (simp add: handleInterrupts_def Let_def e)
qed

lemma CPU_step_EI:
  assumes "\<not> ime cpu" and "\<not> imeScheduled cpu" and "\<not> halted cpu"
    and "Memory_read m (pc cpu) = 0xFB"
  shows "CPU_step (cpu, m) = (4, (cpu\<lparr>pc := pc cpu + 1, imeScheduled := True\<rparr>, m))"
  using assms(2,3,4)
  by (simp add: CPU_step_def handleInterrupts_masked [OF assms(1,3)] fetch8_def read8_def
      execute_EI)

text \<open>
  Whatever the other components do to the bus between the two steps, the step after \<open>EI\<close>
  dispatches as soon as an enabled interrupt is pending: the instruction that follows
  \<open>EI\<close> is not fetched.
\<close>

lemma CPU_step_after_EI:
  assumes "\<not> ime cpu" and "\<not> imeScheduled cpu" and "\<not> halted cpu"
    and "Memory_read m (pc cpu) = 0xFB"
    and "highest_priority (getIF m' AND getIE m' AND 0x1F) = (handler, b)"
    and "getIF m' AND getIE m' AND 0x1F \<noteq> 0"
  shows "CPU_step (cpu, m) = (4, (cpu\<lparr>pc := pc cpu + 1, imeScheduled := True\<rparr>, m))"
    and "CPU_step (cpu\<lparr>pc := pc cpu + 1, imeScheduled := True\<rparr>, m')
         = (20, (cpu\<lparr>pc := handler, sp := sp cpu - 2\<rparr>,
                 write16 (setIF m' (getIF m' AND NOT b)) (sp cpu - 2) (pc cpu + 1)))"
proof -
  show "CPU_step (cpu, m) = (4, (cpu\<lparr>pc := pc cpu + 1, imeScheduled := True\<rparr>, m))"
    by (rule CPU_step_EI [OF assms(1-4)])
  have sch: "ime (cpu\<lparr>pc := pc cpu + 1, imeScheduled := True\<rparr>)
             \<or> imeScheduled (cpu\<lparr>pc := pc cpu + 1, imeScheduled := True\<rparr>)"
    by simp
  have r: "cpu\<lparr>pc := pc cpu + 1, imeScheduled := True\<rparr>
             \<lparr>imeScheduled := False, halted := False, ime := False,
              sp := sp (cpu\<lparr>pc := pc cpu + 1, imeScheduled := True\<rparr>) - 2, pc := handler\<rparr>
           = cpu\<lparr>pc := handler, sp := sp cpu - 2\<rparr>"
    using assms(1-3) by (cases cpu) simp
  show "CPU_step (cpu\<lparr>pc := pc cpu + 1, imeScheduled := True\<rparr>, m')
         = (20, (cpu\<lparr>pc := handler, sp := sp cpu - 2\<rparr>,
                 write16 (setIF m' (getIF m' AND NOT b)) (sp cpu - 2) (pc cpu + 1)))"
    unfolding CPU_step_dispatch [OF sch assms(5,6)] r by simp
qed

lemma ei_bus_facts:
  "Memory_read ei_bus 0xC000 = 0xFB" "Memory_read ei_bus 0xC001 = 0x00"
  "getIF ei_bus = 0xE1" "getIE ei_bus = 0x01" "sizes_ok ei_bus"
  by (simp_all add: ei_bus_def GameBoy_init_def setAPU_def setPPU_def Memory_init_def
      Memory_read_def Memory_write_def getIF_def getIE_def sizes_ok_def APU_reset_def)


text \<open>
  C6. \<open>EI\<close> only sets \<open>imeScheduled\<close> and IME is still off when its step returns. The
  next call of \<open>step\<close> turns the flag into IME before it looks at the interrupts, so with
  VBlank requested and enabled it dispatches at once: it returns 20 clocks with PC at the
  vector 0x0040 and the address 0xC001 of the instruction after \<open>EI\<close> on the stack. The
  \<open>NOP\<close> at 0xC001 has not been executed.
\<close>

theorem ei_then_pending_interrupt:
  "CPU_step (ei_cpu, ei_bus) = (4, (ei_cpu\<lparr>pc := 0xC001, imeScheduled := True\<rparr>, ei_bus))
   \<and> ime (ei_cpu\<lparr>pc := 0xC001, imeScheduled := True\<rparr>) = False
   \<and> Memory_read ei_bus 0xC001 = 0x00
   \<and> getIF ei_bus AND getIE ei_bus AND 0x1F = INT_VBLANK
   \<and> CPU_step (ei_cpu\<lparr>pc := 0xC001, imeScheduled := True\<rparr>, ei_bus)
       = (20, (ei_cpu\<lparr>pc := 0x0040, sp := 0xFFFC\<rparr>, write16 (setIF ei_bus 0xE0) 0xFFFC 0xC001))
   \<and> read16 (write16 (setIF ei_bus 0xE0) 0xFFFC 0xC001) 0xFFFC = 0xC001"
proof -
  have c: "\<not> ime ei_cpu" "\<not> imeScheduled ei_cpu" "\<not> halted ei_cpu" "pc ei_cpu = 0xC000"
    "sp ei_cpu = 0xFFFE"
    by (simp_all add: ei_cpu_def CPU_reset_def)
  have f: "Memory_read ei_bus (pc ei_cpu) = 0xFB" by (simp add: c ei_bus_facts)
  have s1: "CPU_step (ei_cpu, ei_bus) = (4, (ei_cpu\<lparr>pc := 0xC001, imeScheduled := True\<rparr>, ei_bus))"
    using CPU_step_EI [OF c(1,2,3) f] by (simp add: c)
  define c1 where "c1 = ei_cpu\<lparr>pc := 0xC001, imeScheduled := True\<rparr>"
  have p: "getIF ei_bus AND getIE ei_bus AND 0x1F = 1" by (simp add: ei_bus_facts)
  have pk: "highest_priority (getIF ei_bus AND getIE ei_bus AND 0x1F) = (0x40, 1)"
    unfolding p by (rule highest_priority_values(1)) simp
  have nz: "getIF ei_bus AND getIE ei_bus AND 0x1F \<noteq> 0" unfolding p by simp
  have sch: "ime c1 \<or> imeScheduled c1" by (simp add: c1_def)
  have r: "c1\<lparr>imeScheduled := False, halted := False, ime := False, sp := sp c1 - 2, pc := 0x40\<rparr>
           = ei_cpu\<lparr>pc := 0x0040, sp := 0xFFFC\<rparr>"
    by (simp add: c1_def ei_cpu_def CPU_reset_def)
  have s2: "CPU_step (c1, ei_bus)
       = (20, (ei_cpu\<lparr>pc := 0x0040, sp := 0xFFFC\<rparr>, write16 (setIF ei_bus 0xE0) 0xFFFC 0xC001))"
    unfolding CPU_step_dispatch [OF sch pk nz] r
    by (simp add: c1_def c ei_bus_facts)
  have l: "length (wram (setIF ei_bus 0xE0)) = 0x2000" "length (hram (setIF ei_bus 0xE0)) = 0x7F"
    using ei_bus_facts(5) by (simp_all add: sizes_ok_def setIF_def)
  have "stack_ram 0xFFFC" "stack_ram (0xFFFC + 1)" by (simp_all add: stack_ram_def)
  from stack_bytes_read_back [OF l this]
  have rb: "read16 (write16 (setIF ei_bus 0xE0) 0xFFFC 0xC001) 0xFFFC = 0xC001" .
  show ?thesis
    using s1 s2 rb c(1) p
    unfolding c1_def by (simp add: ei_bus_facts INT_VBLANK_def)
qed

end
